theory Spec2Isabelle
  imports Complex_Main "HOL-Library.Finite_Map" "HOL-Library.Sublist"
begin

section \<open>CF-Clearance-Server: data model\<close>

text \<open>
  The embedding follows \<^verbatim>\<open>src/cf_clearance.py\<close>. Python's \<^verbatim>\<open>time.time()\<close> floats are
  idealised as real numbers of seconds; dictionaries whose keys are fixed by the source
  become records of optional fields (an absent key is \<open>None\<close>); the two global
  dictionaries \<^verbatim>\<open>task_results\<close> and \<^verbatim>\<open>active_solvers\<close> are finite maps keyed by the
  task id.
\<close>

type_synonym task_id = string

text \<open>
  An exception of class \<^verbatim>\<open>Exception\<close>, which is what the source's \<^verbatim>\<open>except Exception\<close>
  clauses catch; the string is what \<^verbatim>\<open>str(e)\<close> returns. Cancellation and the other
  exceptions outside that class are not modelled.
\<close>

datatype exn = Exception string

fun str :: "exn \<Rightarrow> string" where
  "str (Exception msg) = msg"

text \<open>
  Modelled from the spec: the record a cookie's \<^verbatim>\<open>to_json()\<close> yields (zendriver's
  \<^verbatim>\<open>Cookie\<close> class is not part of the repository). The source reads the keys
  \<^verbatim>\<open>"name"\<close> and \<^verbatim>\<open>"value"\<close> only.
\<close>

record cookie =
  cookie_name :: string
  cookie_value :: string
  cookie_domain :: string
  cookie_path :: string

text \<open>
  One entry of \<^verbatim>\<open>task_results\<close>: the dictionaries the source stores have the keys
  below and no others.
\<close>

record task_result =
  status :: "string option"
  timestamp :: "real option"
  elapsed_time :: "real option"
  reason :: "string option"
  cf_clearance :: "string option"
  user_agent :: "string option"
  all_cookies :: "cookie list option"

text \<open>
  A \<^verbatim>\<open>CloudflareSolver\<close> as \<^verbatim>\<open>__init__\<close> leaves it: the Chrome arguments added to the
  configuration of its browser, in the order they were added, and what it was built from.
\<close>

record solver =
  solver_arguments :: "string list"
  solver_timeout :: int
  solver_user_agent :: "string option"
  solver_proxy :: "string option"

text \<open>
  A coroutine \<^verbatim>\<open>solve_cloudflare_task(...)\<close> created by \<^verbatim>\<open>asyncio.create_task\<close>: its
  arguments, its local \<^verbatim>\<open>start_time\<close> (0 until the coroutine first runs and assigns it),
  the suspension point it stands at, and the exception that left the body of the
  \<^verbatim>\<open>async with\<close> and is in flight while \<^verbatim>\<open>__aexit__\<close> runs (\<open>task_pending\<close>).
  \<open>Scheduled\<close>: created, not yet run. \<open>Starting\<close>: awaiting \<^verbatim>\<open>driver.start()\<close> in
  \<^verbatim>\<open>__aenter__\<close>. \<open>Solving\<close>: inside \<^verbatim>\<open>solver.solve_cloudflare(url)\<close>. \<open>Stopping\<close>:
  awaiting \<^verbatim>\<open>driver.stop()\<close> in \<^verbatim>\<open>__aexit__\<close>. \<open>Finished\<close>: returned. \<open>Crashed\<close>: left
  by an exception nothing caught.
\<close>

datatype stage = Scheduled | Starting | Solving | Stopping | Finished | Crashed

record task =
  task_url :: string
  task_user_agent :: "string option"
  task_proxy :: "string option"
  task_timeout :: int
  task_start_time :: real
  task_stage :: stage
  task_pending :: "exn option"

text \<open>
  The module's global state, and with it the event loop's set of tasks (\<open>tasks\<close>), which
  the source leaves to asyncio.
\<close>

record server =
  task_results :: "(task_id, task_result) fmap"
  active_solvers :: "(task_id, solver) fmap"
  max_concurrent_tasks :: int
  tasks :: "(task_id, task) fmap"

section \<open>The request handlers\<close>

text \<open>
  The query arguments as \<^verbatim>\<open>request.args.get\<close> returns them. \<open>timeout_arg\<close> is the
  value of \<^verbatim>\<open>request.args.get('timeout', type=int)\<close>: \<open>None\<close> when the parameter is
  absent or is not an integer, in which case the source's default 60 applies.
\<close>

record request =
  url_arg :: "string option"
  proxy_arg :: "string option"
  user_agent_arg :: "string option"
  timeout_arg :: "int option"

text \<open>
  The JSON bodies. The message texts are fixed by the source (several are Vietnamese);
  each is one constructor here, with the values the text interpolates.
\<close>

datatype error_message =
    Url_required
  | Invalid_proxy
  | At_capacity int
  | Id_required
  | Unknown_task

datatype body =
    Error_body error_message
  | Task_created task_id int
  | Still_processing
  | Result_body task_result

type_synonym response = "body \<times> nat"

text \<open>Python's truth value of an optional string: \<^verbatim>\<open>None\<close> and \<^verbatim>\<open>''\<close> are false.\<close>

fun truthy :: "string option \<Rightarrow> bool" where
  "truthy None = False"
| "truthy (Some s) = (s \<noteq> [])"

fun startswith :: "string option \<Rightarrow> string \<Rightarrow> bool" where
  "startswith None pre = False"
| "startswith (Some s) pre = prefix pre s"

text \<open>
  \<^verbatim>\<open>solve()\<close>, the handler of \<^verbatim>\<open>/solve\<close>. \<open>uuid4\<close> is the string \<^verbatim>\<open>str(uuid.uuid4())\<close>
  returns. The handler has no \<^verbatim>\<open>await\<close>: it runs as one atomic block. It creates the
  task and returns; it writes neither \<^verbatim>\<open>task_results\<close> nor \<^verbatim>\<open>active_solvers\<close>.
\<close>

definition solve :: "request \<Rightarrow> task_id \<Rightarrow> server \<Rightarrow> response \<times> server" where
  "solve req uuid4 s =
    (let url = url_arg req;
         proxy = proxy_arg req;
         user_agent = user_agent_arg req;
         timeout = (case timeout_arg req of None \<Rightarrow> 60 | Some t \<Rightarrow> t)
     in
     if \<not> truthy url then ((Error_body Url_required, 400), s)
     else if truthy proxy \<and> \<not> (startswith proxy ''http://'' \<or> startswith proxy ''https://''
                \<or> startswith proxy ''socks4://'' \<or> startswith proxy ''socks5://'')
       then ((Error_body Invalid_proxy, 400), s)
     else
       let timeout = (if timeout > 120 then 120 else timeout) in
       if int (fcard (fmdom (active_solvers s))) \<ge> max_concurrent_tasks s
       then ((Error_body (At_capacity (max_concurrent_tasks s)), 429), s)
       else
         let task_id = uuid4 in
         ((Task_created task_id timeout, 202),
          s\<lparr>tasks := fmupd task_id
               \<lparr>task_url = (case url of Some u \<Rightarrow> u | None \<Rightarrow> []),
                task_user_agent = user_agent, task_proxy = proxy,
                task_timeout = timeout, task_start_time = 0,
                task_stage = Scheduled, task_pending = None\<rparr> (tasks s)\<rparr>))"

text \<open>\<^verbatim>\<open>get_result()\<close>, the handler of \<^verbatim>\<open>/result\<close>; it reads \<^verbatim>\<open>task_results\<close> only.\<close>

definition get_result :: "string option \<Rightarrow> server \<Rightarrow> response" where
  "get_result task_id s =
    (case task_id of
       None \<Rightarrow> (Error_body Id_required, 400)
     | Some i \<Rightarrow>
         if i = [] then (Error_body Id_required, 400)
         else (case fmlookup (task_results s) i of
                 None \<Rightarrow> (Error_body Unknown_task, 404)
               | Some result \<Rightarrow>
                   if status result = Some ''processing'' then (Still_processing, 202)
                   else (Result_body result, 200)))"

section \<open>The retention sweeper\<close>

text \<open>
  One cycle of \<^verbatim>\<open>cleanup_tasks()\<close> after its hourly sleep: the first loop collects the
  keys, the second deletes them, and the count goes to the log. The only test is on the
  entry's \<^verbatim>\<open>"timestamp"\<close> (0 when the key is absent); the entry's status is not read.
\<close>

definition keys_to_delete :: "real \<Rightarrow> (task_id, task_result) fmap \<Rightarrow> task_id fset" where
  "keys_to_delete now tr =
     ffilter (\<lambda>task_id. case fmlookup tr task_id of
                  None \<Rightarrow> False
                | Some result \<Rightarrow>
                    (case timestamp result of None \<Rightarrow> 0 | Some t \<Rightarrow> t) < now - 86400)
       (fmdom tr)"

definition cleanup_tasks :: "real \<Rightarrow> server \<Rightarrow> nat \<times> server" where
  "cleanup_tasks now s =
     (let ks = keys_to_delete now (task_results s) in
      (fcard ks, s\<lparr>task_results := fmdrop_fset ks (task_results s)\<rparr>))"

section \<open>The browser capability\<close>

text \<open>
  The browser (zendriver) is outside the repository. It is modelled as an environment the
  resolver queries: every \<^verbatim>\<open>await\<close> of one resolver run has an index (\<open>awaits\<close>, counted
  from the run's start), and the environment fixes, for the await with a given index, how
  many milliseconds beyond the requested delay it takes (\<open>latency\<close>) and what the call
  made there returns or raises. A \<open>world\<close> is what the run sees of it so far: the reading
  of \<^verbatim>\<open>time.time()\<close> and the number of awaits done. The clock never runs backwards, and
  \<^verbatim>\<open>asyncio.sleep(d)\<close> takes at least \<open>d\<close> seconds.
\<close>

type_synonym element = nat

record browser =
  latency :: "nat \<Rightarrow> nat"
  navigate :: "nat \<Rightarrow> exn option"
  cookie_jar :: "nat \<Rightarrow> exn + cookie list"
  elements :: "nat \<Rightarrow> string \<Rightarrow> exn + element list"
  click :: "nat \<Rightarrow> element \<Rightarrow> exn option"
  reported_user_agent :: "nat \<Rightarrow> exn + string"

record world =
  clock :: real
  awaits :: nat

definition suspend :: "browser \<Rightarrow> real \<Rightarrow> world \<Rightarrow> world" where
  "suspend b d w =
     \<lparr>clock = clock w + d + real (latency b (awaits w)) / 1000, awaits = awaits w + 1\<rparr>"

text \<open>\<^verbatim>\<open>await self.driver.get(url)\<close>\<close>

definition driver_get :: "browser \<Rightarrow> string \<Rightarrow> world \<Rightarrow> exn option \<times> world" where
  "driver_get b url w = (navigate b (awaits w), suspend b 0 w)"

text \<open>\<^verbatim>\<open>await self.get_cookies()\<close>\<close>

definition get_cookies :: "browser \<Rightarrow> world \<Rightarrow> (exn + cookie list) \<times> world" where
  "get_cookies b w = (cookie_jar b (awaits w), suspend b 0 w)"

text \<open>\<^verbatim>\<open>await self.driver.main_tab.find_all(selector)\<close>\<close>

definition find_all :: "browser \<Rightarrow> string \<Rightarrow> world \<Rightarrow> (exn + element list) \<times> world" where
  "find_all b selector w = (elements b (awaits w) selector, suspend b 0 w)"

text \<open>\<^verbatim>\<open>await button.mouse_click()\<close>\<close>

definition mouse_click :: "browser \<Rightarrow> element \<Rightarrow> world \<Rightarrow> exn option \<times> world" where
  "mouse_click b el w = (click b (awaits w) el, suspend b 0 w)"

text \<open>\<^verbatim>\<open>await self.get_user_agent()\<close>\<close>

definition get_user_agent :: "browser \<Rightarrow> world \<Rightarrow> (exn + string) \<times> world" where
  "get_user_agent b w = (reported_user_agent b (awaits w), suspend b 0 w)"

text \<open>\<^verbatim>\<open>await asyncio.sleep(seconds)\<close>\<close>

definition sleep :: "browser \<Rightarrow> real \<Rightarrow> world \<Rightarrow> world" where
  "sleep b seconds w = suspend b seconds w"

section \<open>The challenge resolver\<close>

fun extract_clearance_cookie :: "cookie list \<Rightarrow> cookie option" where
  "extract_clearance_cookie [] = None"
| "extract_clearance_cookie (c # cookies) =
     (if cookie_name c = ''cf_clearance'' then Some c else extract_clearance_cookie cookies)"

text \<open>
  The \<^verbatim>\<open>while time.time() - start_wait < self._timeout\<close> loop of \<^verbatim>\<open>solve_cloudflare\<close>:
  sleep one second, read the cookies, leave when the clearance cookie is there. An
  exception of the cookie read leaves the loop as \<open>Inl\<close>. The loop ends because every
  round moves the clock on by a second or more.
\<close>

function await_cookie ::
  "browser \<Rightarrow> int \<Rightarrow> real \<Rightarrow> cookie list \<Rightarrow> world \<Rightarrow>
     (exn + cookie list \<times> cookie option) \<times> world" where
  "await_cookie b timeout start_wait all_cookies' w =
     (if clock w - start_wait < real_of_int timeout then
        (case get_cookies b (sleep b 1 w) of
           (Inl e, w') \<Rightarrow> (Inl e, w')
         | (Inr cookies, w') \<Rightarrow>
             (case extract_clearance_cookie cookies of
                Some c \<Rightarrow> (Inr (cookies, Some c), w')
              | None \<Rightarrow> await_cookie b timeout start_wait cookies w'))
      else (Inr (all_cookies', None), w))"
  by pat_completeness auto
termination
proof (relation "measure (\<lambda>(b, timeout, start_wait, all_cookies', w).
                   nat \<lceil>real_of_int timeout - (clock w - start_wait)\<rceil>)")
  show "wf (measure (\<lambda>(b, timeout, start_wait, all_cookies', w).
              nat \<lceil>real_of_int timeout - (clock w - start_wait)\<rceil>))"
    by simp
next
  fix b :: browser and timeout :: int and start_wait :: real and all_cookies' :: "cookie list"
    and w :: world and x w' cookies
  assume run: "clock w - start_wait < real_of_int timeout"
    and poll: "(x, w') = get_cookies b (sleep b 1 w)"
  from poll have "clock w' = clock w + 1 + real (latency b (awaits w)) / 1000
      + real (latency b (awaits w + 1)) / 1000"
    by (simp add: get_cookies_def sleep_def suspend_def)
  then have "clock w + 1 \<le> clock w'" by simp
  then have "real_of_int timeout - (clock w' - start_wait)
      \<le> real_of_int timeout - (clock w - start_wait) - 1"
    by simp
  then have "\<lceil>real_of_int timeout - (clock w' - start_wait)\<rceil>
      \<le> \<lceil>real_of_int timeout - (clock w - start_wait)\<rceil> - 1"
    by (metis ceiling_mono ceiling_diff_one)
  moreover from run have "0 < \<lceil>real_of_int timeout - (clock w - start_wait)\<rceil>"
    by simp
  ultimately show "((b, timeout, start_wait, cookies, w'), (b, timeout, start_wait, all_cookies', w))
      \<in> measure (\<lambda>(b, timeout, start_wait, all_cookies', w).
            nat \<lceil>real_of_int timeout - (clock w - start_wait)\<rceil>)"
    by simp
qed

declare await_cookie.simps [simp del]

text \<open>
  \<^verbatim>\<open>for button in buttons: try: click, sleep 2; except: pass\<close>: a click that raises is
  skipped, and the loop goes on with the next element.
\<close>

fun click_each :: "browser \<Rightarrow> element list \<Rightarrow> world \<Rightarrow> world" where
  "click_each b [] w = w"
| "click_each b (button # buttons) w =
     (case mouse_click b button w of
        (Some e, w') \<Rightarrow> click_each b buttons w'
      | (None, w') \<Rightarrow> click_each b buttons (sleep b 2 w'))"

text \<open>
  The interaction sweep, the inner \<^verbatim>\<open>try\<close> of \<^verbatim>\<open>solve_cloudflare\<close>: buttons, then
  checkboxes, then one more cookie read. Its \<^verbatim>\<open>except Exception\<close> only logs, so an
  exception of \<^verbatim>\<open>find_all\<close> or of the cookie read ends the sweep with \<^verbatim>\<open>all_cookies\<close> and
  \<^verbatim>\<open>clearance_cookie\<close> as they were (the latter is \<^verbatim>\<open>None\<close> on entry).
\<close>

definition interact ::
  "browser \<Rightarrow> cookie list \<Rightarrow> world \<Rightarrow> (cookie list \<times> cookie option) \<times> world" where
  "interact b all_cookies' w =
     (case find_all b ''button'' w of
        (Inl e, w1) \<Rightarrow> ((all_cookies', None), w1)
      | (Inr buttons, w1) \<Rightarrow>
          (case find_all b ''input[type=checkbox]'' (click_each b buttons w1) of
             (Inl e, w2) \<Rightarrow> ((all_cookies', None), w2)
           | (Inr checkboxes, w2) \<Rightarrow>
               (case get_cookies b (click_each b checkboxes w2) of
                  (Inl e, w3) \<Rightarrow> ((all_cookies', None), w3)
                | (Inr cookies, w3) \<Rightarrow> ((cookies, extract_clearance_cookie cookies), w3))))"

text \<open>
  The branch \<^verbatim>\<open>if clearance_cookie is None\<close>: \<^verbatim>\<open>start_wait\<close> is read here, after the
  navigation and the first cookie read; then the polling loop, then the sweep if the loop
  ended without the cookie.
\<close>

definition challenge ::
  "browser \<Rightarrow> int \<Rightarrow> cookie list \<Rightarrow> world \<Rightarrow> (exn + cookie list \<times> cookie option) \<times> world" where
  "challenge b timeout all_cookies' w =
     (let start_wait = clock w in
      case await_cookie b timeout start_wait all_cookies' w of
        (Inl e, w') \<Rightarrow> (Inl e, w')
      | (Inr (cookies, Some c), w') \<Rightarrow> (Inr (cookies, Some c), w')
      | (Inr (cookies, None), w') \<Rightarrow>
          (case interact b cookies w' of (found, w'') \<Rightarrow> (Inr found, w'')))"

text \<open>
  Python's \<^verbatim>\<open>round(x, ndigits)\<close> on the reals: to the nearest multiple of
  \<open>10\<^sup>-\<^sup>n\<close>, a tie to the even one.
\<close>

definition py_round :: "real \<Rightarrow> nat \<Rightarrow> real" where
  "py_round x ndigits =
     (let y = x * 10 ^ ndigits; f = \<lfloor>y\<rfloor>; frac = y - of_int f in
      (if frac < 1 / 2 then of_int f
       else if 1 / 2 < frac then of_int f + 1
       else if even f then of_int f else of_int f + 1) / 10 ^ ndigits)"

text \<open>The two dictionaries \<^verbatim>\<open>solve_cloudflare\<close> returns.\<close>

definition success_result :: "real \<Rightarrow> string \<Rightarrow> string \<Rightarrow> cookie list \<Rightarrow> task_result" where
  "success_result elapsed v ua cookies =
     \<lparr>status = Some ''success'', timestamp = None, elapsed_time = Some elapsed, reason = None,
      cf_clearance = Some v, user_agent = Some ua, all_cookies = Some cookies\<rparr>"

definition error_result :: "string \<Rightarrow> real \<Rightarrow> task_result" where
  "error_result why elapsed =
     \<lparr>status = Some ''error'', timestamp = None, elapsed_time = Some elapsed, reason = Some why,
      cf_clearance = None, user_agent = None, all_cookies = None\<rparr>"

text \<open>
  The body of the outer \<^verbatim>\<open>try\<close> of \<^verbatim>\<open>solve_cloudflare\<close>; \<open>Inl e\<close> is an exception that
  reaches the outer \<^verbatim>\<open>except\<close>.
\<close>

definition solve_body ::
  "browser \<Rightarrow> string \<Rightarrow> int \<Rightarrow> real \<Rightarrow> world \<Rightarrow> (exn + task_result) \<times> world" where
  "solve_body b url timeout start_time w =
     (case driver_get b url w of
        (Some e, w1) \<Rightarrow> (Inl e, w1)
      | (None, w1) \<Rightarrow>
          (case get_cookies b w1 of
             (Inl e, w2) \<Rightarrow> (Inl e, w2)
           | (Inr cookies, w2) \<Rightarrow>
               (case (case extract_clearance_cookie cookies of
                        Some c \<Rightarrow> (Inr (cookies, Some c), w2)
                      | None \<Rightarrow> challenge b timeout cookies w2) of
                  (Inl e, w3) \<Rightarrow> (Inl e, w3)
                | (Inr (all_cookies', clearance_cookie), w3) \<Rightarrow>
                    (case get_user_agent b w3 of
                       (Inl e, w4) \<Rightarrow> (Inl e, w4)
                     | (Inr current_user_agent, w4) \<Rightarrow>
                         (let elapsed = py_round (clock w4 - start_time) 3 in
                          case clearance_cookie of
                            Some c \<Rightarrow>
                              (Inr (success_result elapsed (cookie_value c)
                                      current_user_agent all_cookies'), w4)
                          | None \<Rightarrow>
                              (Inr (error_result ''Failed to retrieve cf_clearance cookie''
                                      elapsed), w4))))))"

text \<open>
  \<^verbatim>\<open>CloudflareSolver.solve_cloudflare\<close>: the body under its \<^verbatim>\<open>except Exception\<close>. The
  statements outside the \<^verbatim>\<open>try\<close> (a clock read and a log line) raise nothing, so the
  method returns a dictionary on every path.
\<close>

definition solve_cloudflare :: "browser \<Rightarrow> string \<Rightarrow> int \<Rightarrow> world \<Rightarrow> task_result \<times> world" where
  "solve_cloudflare b url timeout w =
     (let start_time = clock w in
      case solve_body b url timeout start_time w of
        (Inr result, w') \<Rightarrow> (result, w')
      | (Inl e, w') \<Rightarrow> (error_result (str e) (py_round (clock w' - start_time) 3), w'))"

section \<open>The job supervisor\<close>

text \<open>
  \<^verbatim>\<open>get_chrome_user_agent()\<close>. \<open>latest\<close> is the list
  \<^verbatim>\<open>latest_user_agents.get_latest_user_agents()\<close> returns and \<open>pick\<close> the random draw of
  \<^verbatim>\<open>random.choice\<close>, which raises \<^verbatim>\<open>IndexError\<close> on an empty list.
\<close>

definition get_chrome_user_agent :: "string list \<Rightarrow> nat \<Rightarrow> exn + string" where
  "get_chrome_user_agent latest pick =
     (let chrome_user_agents = filter (\<lambda>ua. sublist ''Chrome'' ua) latest in
      if chrome_user_agents = [] then Inl (Exception ''Cannot choose from an empty sequence'')
      else Inr (chrome_user_agents ! (pick mod length chrome_user_agents)))"

text \<open>
  \<^verbatim>\<open>CloudflareSolver.__init__\<close>, called with \<^verbatim>\<open>headless=True\<close> and the defaults
  \<^verbatim>\<open>http2=True\<close>, \<^verbatim>\<open>http3=True\<close>, so that neither \<^verbatim>\<open>--disable-http2\<close> nor
  \<^verbatim>\<open>--disable-quic\<close> is added. The user-agent argument comes first; then
  \<^verbatim>\<open>SeleniumAuthenticatedProxy(proxy).enrich_chrome_options(config)\<close> adds its own. That
  class is outside the repository: \<open>enriched\<close> is the list of arguments the call adds
  (for a proxy, the \<^verbatim>\<open>--proxy-server=...\<close> argument).
\<close>

definition CloudflareSolver ::
  "string option \<Rightarrow> int \<Rightarrow> string option \<Rightarrow> string list \<Rightarrow> solver" where
  "CloudflareSolver ua timeout proxy enriched =
     \<lparr>solver_arguments = (case ua of None \<Rightarrow> [] | Some u \<Rightarrow> [''--user-agent='' @ u]) @ enriched,
      solver_timeout = timeout, solver_user_agent = ua, solver_proxy = proxy\<rparr>"

text \<open>The dictionary the \<^verbatim>\<open>except Exception\<close> of \<^verbatim>\<open>solve_cloudflare_task\<close> stores.\<close>

definition task_error :: "exn \<Rightarrow> real \<Rightarrow> real \<Rightarrow> task_result" where
  "task_error e start_time now =
     (error_result (str e) (py_round (now - start_time) 3))\<lparr>timestamp := Some now\<rparr>"

text \<open>The \<^verbatim>\<open>finally\<close> of \<^verbatim>\<open>solve_cloudflare_task\<close>.\<close>

definition finally_block :: "task_id \<Rightarrow> server \<Rightarrow> server" where
  "finally_block task_id s =
     (if task_id |\<in>| fmdom (active_solvers s)
      then s\<lparr>active_solvers := fmdrop task_id (active_solvers s)\<rparr> else s)"

definition at_stage :: "task_id \<Rightarrow> task \<Rightarrow> stage \<Rightarrow> server \<Rightarrow> server" where
  "at_stage task_id t st s = s\<lparr>tasks := fmupd task_id (t\<lparr>task_stage := st\<rparr>) (tasks s)\<rparr>"

text \<open>
  \<^verbatim>\<open>solve_cloudflare_task\<close> runs in four atomic blocks, cut at its suspension points
  (\<^verbatim>\<open>driver.start()\<close>, the resolver, \<^verbatim>\<open>driver.stop()\<close>). Each block is a function of the
  server state; \<open>now\<close> is the reading of \<^verbatim>\<open>time.time()\<close> while the block runs, and the
  outcome of the call the block was waiting for is an argument (\<open>Some e\<close>: it raised).

  The first block: the default user agent is chosen before the \<^verbatim>\<open>try\<close>, so an exception
  there ends the coroutine with nothing written. Inside the \<^verbatim>\<open>try\<close> the task registers
  itself as processing and builds the solver (\<open>ctor\<close>: the exception the constructor
  raises, or the arguments the proxy enrichment adds in it), puts it into
  \<^verbatim>\<open>active_solvers\<close> and waits for the browser to start.
\<close>

definition task_begin ::
  "real \<Rightarrow> string list \<Rightarrow> nat \<Rightarrow> exn + string list \<Rightarrow> task_id \<Rightarrow> task \<Rightarrow> server \<Rightarrow> server" where
  "task_begin now latest pick ctor task_id t s =
     (let start_time = now;
          t = t\<lparr>task_start_time := start_time\<rparr>;
          chosen = (if \<not> truthy (task_user_agent t)
                    then (case get_chrome_user_agent latest pick of
                            Inl e \<Rightarrow> Inl e | Inr ua \<Rightarrow> Inr (Some ua))
                    else Inr (task_user_agent t))
      in
      case chosen of
        Inl e \<Rightarrow> at_stage task_id t Crashed s
      | Inr ua \<Rightarrow>
          (let t = t\<lparr>task_user_agent := ua\<rparr>;
               s = s\<lparr>task_results := fmupd task_id
                      \<lparr>status = Some ''processing'', timestamp = Some now, elapsed_time = None,
                       reason = None, cf_clearance = None, user_agent = None,
                       all_cookies = None\<rparr> (task_results s)\<rparr>
           in
           case ctor of
             Inl e \<Rightarrow>
               finally_block task_id (at_stage task_id t Finished
                 (s\<lparr>task_results := fmupd task_id (task_error e start_time now) (task_results s)\<rparr>))
           | Inr enriched \<Rightarrow>
               at_stage task_id t Starting
                 (s\<lparr>active_solvers := fmupd task_id
                      (CloudflareSolver ua (task_timeout t) (task_proxy t) enriched)
                      (active_solvers s)\<rparr>)))"

text \<open>
  The second block, when \<^verbatim>\<open>driver.start()\<close> is over: if it raised, the \<^verbatim>\<open>except\<close> and the
  \<^verbatim>\<open>finally\<close> run; otherwise the resolver starts.
\<close>

definition task_started :: "real \<Rightarrow> exn option \<Rightarrow> task_id \<Rightarrow> task \<Rightarrow> server \<Rightarrow> server" where
  "task_started now outcome task_id t s =
     (case outcome of
        Some e \<Rightarrow>
          finally_block task_id (at_stage task_id t Finished
            (s\<lparr>task_results := fmupd task_id (task_error e (task_start_time t) now)
                 (task_results s)\<rparr>))
      | None \<Rightarrow> at_stage task_id t Solving s)"

text \<open>
  The third block, when \<^verbatim>\<open>await solver.solve_cloudflare(url)\<close> is over. If it returned
  \<open>result\<close>, the time stamp is added and the result stored. If it raised, nothing is
  stored yet and the exception is in flight. Either way the \<^verbatim>\<open>async with\<close> is left, which
  waits for \<^verbatim>\<open>driver.stop()\<close> in \<^verbatim>\<open>__aexit__\<close>. The resolver itself touches no shared
  state, so its own suspension points need no blocks.
\<close>

definition task_solved ::
  "real \<Rightarrow> exn + task_result \<Rightarrow> task_id \<Rightarrow> task \<Rightarrow> server \<Rightarrow> server" where
  "task_solved now outcome task_id t s =
     (case outcome of
        Inr result \<Rightarrow>
          at_stage task_id t Stopping
            (s\<lparr>task_results := fmupd task_id (result\<lparr>timestamp := Some now\<rparr>) (task_results s)\<rparr>)
      | Inl e \<Rightarrow> at_stage task_id (t\<lparr>task_pending := Some e\<rparr>) Stopping s)"

text \<open>
  The last block, when \<^verbatim>\<open>driver.stop()\<close> is over. If it raised, that exception reaches the
  \<^verbatim>\<open>except\<close>, which stores an error entry over whatever is there. If it did not,
  \<^verbatim>\<open>__aexit__\<close> returns \<^verbatim>\<open>None\<close> and an exception in flight goes on to the \<^verbatim>\<open>except\<close>.
  The \<^verbatim>\<open>finally\<close> runs on every path.
\<close>

definition task_stopped :: "real \<Rightarrow> exn option \<Rightarrow> task_id \<Rightarrow> task \<Rightarrow> server \<Rightarrow> server" where
  "task_stopped now outcome task_id t s =
     finally_block task_id (at_stage task_id t Finished
       (case (case outcome of Some e \<Rightarrow> Some e | None \<Rightarrow> task_pending t) of
          Some e \<Rightarrow> s\<lparr>task_results := fmupd task_id (task_error e (task_start_time t) now)
                         (task_results s)\<rparr>
        | None \<Rightarrow> s))"

section \<open>The server as a transition system\<close>

text \<open>
  The event loop runs one block at a time, in any order: a \<^verbatim>\<open>/solve\<close> request (whose
  fresh id no task has yet), the next block of some task, or a cycle of the sweeper. The
  read-only handlers change nothing and are no steps. The resolver's call ends in one of
  two ways: \<open>solved\<close>, with the dictionary \<^verbatim>\<open>solve_cloudflare\<close> returns in front of some
  browser, or \<open>raised\<close>, with an exception. \<^verbatim>\<open>solve_cloudflare\<close> lets no exception of class
  \<^verbatim>\<open>Exception\<close> through; the second rule is there because the supervisor's \<^verbatim>\<open>try\<close> covers
  the call all the same.
\<close>

inductive step :: "server \<Rightarrow> server \<Rightarrow> bool" where
  submitted: "uuid4 |\<notin>| fmdom (tasks s) \<Longrightarrow> step s (snd (solve req uuid4 s))"
| begun: "fmlookup (tasks s) task_id = Some t \<Longrightarrow> task_stage t = Scheduled \<Longrightarrow>
     step s (task_begin now latest pick ctor task_id t s)"
| started: "fmlookup (tasks s) task_id = Some t \<Longrightarrow> task_stage t = Starting \<Longrightarrow>
     step s (task_started now outcome task_id t s)"
| solved: "fmlookup (tasks s) task_id = Some t \<Longrightarrow> task_stage t = Solving \<Longrightarrow>
     step s (task_solved now (Inr (fst (solve_cloudflare b (task_url t) (task_timeout t) w)))
       task_id t s)"
| raised: "fmlookup (tasks s) task_id = Some t \<Longrightarrow> task_stage t = Solving \<Longrightarrow>
     step s (task_solved now (Inl e) task_id t s)"
| stopped: "fmlookup (tasks s) task_id = Some t \<Longrightarrow> task_stage t = Stopping \<Longrightarrow>
     step s (task_stopped now outcome task_id t s)"
| swept: "step s (snd (cleanup_tasks now s))"

definition startup :: "int \<Rightarrow> server" where
  "startup max_tasks =
     \<lparr>task_results = fmempty, active_solvers = fmempty, max_concurrent_tasks = max_tasks,
      tasks = fmempty\<rparr>"

inductive reachable :: "int \<Rightarrow> server \<Rightarrow> bool" where
  at_startup: "reachable max_tasks (startup max_tasks)"
| after_step: "reachable max_tasks s \<Longrightarrow> step s s' \<Longrightarrow> reachable max_tasks s'"

text \<open>The three shapes of an entry of \<^verbatim>\<open>task_results\<close>.\<close>

definition processing_entry :: "task_result \<Rightarrow> bool" where
  "processing_entry r \<longleftrightarrow>
     status r = Some ''processing'' \<and> timestamp r \<noteq> None \<and> elapsed_time r = None \<and>
     reason r = None \<and> cf_clearance r = None \<and> user_agent r = None \<and> all_cookies r = None"

definition success_entry :: "task_result \<Rightarrow> bool" where
  "success_entry r \<longleftrightarrow>
     status r = Some ''success'' \<and> timestamp r \<noteq> None \<and> elapsed_time r \<noteq> None \<and>
     reason r = None \<and> cf_clearance r \<noteq> None \<and> user_agent r \<noteq> None \<and> all_cookies r \<noteq> None"

definition error_entry :: "task_result \<Rightarrow> bool" where
  "error_entry r \<longleftrightarrow>
     status r = Some ''error'' \<and> timestamp r \<noteq> None \<and> elapsed_time r \<noteq> None \<and>
     reason r \<noteq> None \<and> cf_clearance r = None \<and> user_agent r = None \<and> all_cookies r = None"

definition in_flight :: "stage \<Rightarrow> bool" where
  "in_flight st \<longleftrightarrow> st = Starting \<or> st = Solving \<or> st = Stopping"

text \<open>
  Two properties of a server state, kept by every step: a task holds an entry of
  \<^verbatim>\<open>active_solvers\<close> exactly while it stands between \<^verbatim>\<open>driver.start()\<close> and the end of
  \<^verbatim>\<open>driver.stop()\<close>, and every entry of \<^verbatim>\<open>task_results\<close> has one of the three shapes.
\<close>

definition slots_agree :: "server \<Rightarrow> bool" where
  "slots_agree s \<longleftrightarrow>
     (\<forall>i. fmlookup (active_solvers s) i \<noteq> None \<longleftrightarrow>
          (\<exists>t. fmlookup (tasks s) i = Some t \<and> in_flight (task_stage t)))"

definition well_shaped :: "task_result \<Rightarrow> bool" where
  "well_shaped r \<longleftrightarrow> processing_entry r \<or> success_entry r \<or> error_entry r"

definition entries_shaped :: "server \<Rightarrow> bool" where
  "entries_shaped s \<longleftrightarrow> (\<forall>i r. fmlookup (task_results s) i = Some r \<longrightarrow> well_shaped r)"

text \<open>
  A browser in front of a target that never yields the clearance cookie, and whose
  navigation, cookie reads and user-agent read raise nothing (element lookups and clicks
  may raise).
\<close>

definition never_cleared :: "browser \<Rightarrow> bool" where
  "never_cleared b \<longleftrightarrow>
     (\<forall>k. navigate b k = None) \<and>
     (\<forall>k. \<exists>cookies. cookie_jar b k = Inr cookies \<and> extract_clearance_cookie cookies = None) \<and>
     (\<forall>k. \<exists>ua. reported_user_agent b k = Inr ua)"

section \<open>The ready queue of the event loop\<close>

text \<open>
  The transition system above lets the blocks run in any order. asyncio is more specific
  about the blocks that are ready to run: they wait in one queue and run first come, first
  served. The handler of a request joins the queue when the request arrives; the first
  block of a task joins it when \<^verbatim>\<open>asyncio.create_task\<close> is called, that is while the
  handler of its \<^verbatim>\<open>/solve\<close> request runs. The later blocks of a task and the cycles of
  the sweeper are woken by the browser and by timers, at moments the model leaves open.

  \<open>Result_request i known\<close> is the handler of a \<^verbatim>\<open>/result\<close> request with the id
  argument \<open>i\<close>; \<open>known\<close> records whether a task with that id had been created when the
  request arrived, as is the case for every request that quotes an id from a 202
  response. The handler does not read it. \<open>evicted\<close> collects the ids whose entry a step
  has removed from \<^verbatim>\<open>task_results\<close> so far; no block reads it.
\<close>

datatype callback =
    Solve_request request
  | Result_request "string option" bool
  | First_block task_id

record loop =
  ready :: "callback list"
  srv :: server
  evicted :: "task_id fset"

definition issued :: "string option \<Rightarrow> server \<Rightarrow> bool" where
  "issued i s = (case i of None \<Rightarrow> False | Some x \<Rightarrow> x |\<in>| fmdom (tasks s))"

text \<open>
  One step of the loop: a request arrives and its handler joins the queue; or the block at
  the head of the queue runs (\<^verbatim>\<open>solve()\<close> with a fresh id, \<^verbatim>\<open>get_result()\<close>, or the first
  block of a task); or (\<open>woken\<close>) the server takes a step that creates no task and begins
  none, which is a later block of a task or a cycle of the sweeper.
\<close>

inductive loop_step :: "loop \<Rightarrow> loop \<Rightarrow> bool" where
  solve_arrives: "loop_step L (L\<lparr>ready := ready L @ [Solve_request req]\<rparr>)"
| result_arrives: "loop_step L (L\<lparr>ready := ready L @ [Result_request i (issued i (srv L))]\<rparr>)"
| solve_handled: "ready L = Solve_request req # rest \<Longrightarrow> uuid4 |\<notin>| fmdom (tasks (srv L)) \<Longrightarrow>
     loop_step L
       (L\<lparr>ready := rest @ (if snd (fst (solve req uuid4 (srv L))) = 202 then [First_block uuid4]
                            else []),
          srv := snd (solve req uuid4 (srv L))\<rparr>)"
| result_handled: "ready L = Result_request i known # rest \<Longrightarrow> loop_step L (L\<lparr>ready := rest\<rparr>)"
| first_block_run: "ready L = First_block task_id # rest \<Longrightarrow>
     fmlookup (tasks (srv L)) task_id = Some t \<Longrightarrow> task_stage t = Scheduled \<Longrightarrow>
     loop_step L (L\<lparr>ready := rest, srv := task_begin now latest pick ctor task_id t (srv L)\<rparr>)"
| woken: "step (srv L) s' \<Longrightarrow> fmdom (tasks s') = fmdom (tasks (srv L)) \<Longrightarrow>
     (\<forall>i t. fmlookup (tasks (srv L)) i = Some t \<and> task_stage t = Scheduled \<longrightarrow>
        fmlookup (tasks s') i = Some t) \<Longrightarrow>
     loop_step L
       (L\<lparr>srv := s',
          evicted := evicted L |\<union>| (fmdom (task_results (srv L)) |-| fmdom (task_results s'))\<rparr>)"

inductive loop_reachable :: "int \<Rightarrow> loop \<Rightarrow> bool" where
  loop_starts: "loop_reachable max_tasks \<lparr>ready = [], srv = startup max_tasks, evicted = {||}\<rparr>"
| loop_goes_on: "loop_reachable max_tasks L \<Longrightarrow> loop_step L L' \<Longrightarrow> loop_reachable max_tasks L'"

text \<open>
  \<open>ahead B q\<close>: every \<^verbatim>\<open>/result\<close> request in the queue \<open>q\<close> that arrived for a known id
  has the first block of that id's task in front of it in the queue, or the task is among
  those that have begun already (\<open>B\<close>).
\<close>

fun ahead :: "task_id set \<Rightarrow> callback list \<Rightarrow> bool" where
  "ahead B [] = True"
| "ahead B (First_block i # q) = ahead (insert i B) q"
| "ahead B (Result_request i known # q) = ((known \<longrightarrow> (\<exists>x. i = Some x \<and> x \<in> B)) \<and> ahead B q)"
| "ahead B (Solve_request req # q) = ahead B q"

definition begun_tasks :: "server \<Rightarrow> task_id set" where
  "begun_tasks s = {i. \<exists>t. fmlookup (tasks s) i = Some t \<and> task_stage t \<noteq> Scheduled}"

text \<open>
  What every step of the loop keeps: the first block of each task that has not begun is
  waiting in the queue; the order above; and a task that has begun with a user agent has
  an entry in \<^verbatim>\<open>task_results\<close> unless a step has removed it.
\<close>

definition loop_ok :: "loop \<Rightarrow> bool" where
  "loop_ok L \<longleftrightarrow>
     (\<forall>i t. fmlookup (tasks (srv L)) i = Some t \<and> task_stage t = Scheduled \<longrightarrow>
        First_block i \<in> set (ready L)) \<and>
     ahead (begun_tasks (srv L)) (ready L) \<and>
     (\<forall>i t. fmlookup (tasks (srv L)) i = Some t \<and> task_stage t \<noteq> Scheduled \<and>
        task_stage t \<noteq> Crashed \<and> i |\<notin>| evicted L \<longrightarrow>
        fmlookup (task_results (srv L)) i \<noteq> None)"

section \<open>Concrete runs\<close>

text \<open>
  A server started with \<^verbatim>\<open>--max-tasks 1\<close> that receives the same request twice (ids
  \<open>t1\<close> and \<open>t2\<close>) before either task has run, and then runs the first block of each.
\<close>

definition example_request :: request where
  "example_request =
     \<lparr>url_arg = Some ''https://example.com'', proxy_arg = None,
      user_agent_arg = Some ''Mozilla/5.0 Chrome/120.0'', timeout_arg = None\<rparr>"

definition example_task :: task where
  "example_task =
     \<lparr>task_url = ''https://example.com'', task_user_agent = Some ''Mozilla/5.0 Chrome/120.0'',
      task_proxy = None, task_timeout = 60, task_start_time = 0, task_stage = Scheduled,
      task_pending = None\<rparr>"

definition submitted_once :: server where
  "submitted_once = snd (solve example_request ''t1'' (startup 1))"

definition submitted_twice :: server where
  "submitted_twice = snd (solve example_request ''t2'' submitted_once)"

definition first_running :: server where
  "first_running = task_begin 0 [] 0 (Inr []) ''t1'' example_task submitted_twice"

definition both_running :: server where
  "both_running = task_begin 0 [] 0 (Inr []) ''t2'' example_task first_running"

text \<open>
  The first task's run to its end against a page that is cleared at once: the browser
  starts, the resolver returns at time 5, the browser stops at time 6; or the stop
  raises.
\<close>

definition clearance :: cookie where
  "clearance = \<lparr>cookie_name = ''cf_clearance'', cookie_value = ''token'',
     cookie_domain = ''example.com'', cookie_path = ''/''\<rparr>"

definition cleared_page :: browser where
  "cleared_page = \<lparr>latency = (\<lambda>k. 0), navigate = (\<lambda>k. None),
     cookie_jar = (\<lambda>k. Inr [clearance]), elements = (\<lambda>k selector. Inr []),
     click = (\<lambda>k el. None), reported_user_agent = (\<lambda>k. Inr ''Mozilla/5.0 Chrome/120.0'')\<rparr>"

definition cleared_result :: task_result where
  "cleared_result = fst (solve_cloudflare cleared_page ''https://example.com'' 60 \<lparr>clock = 1, awaits = 0\<rparr>)"

definition first_solving :: server where
  "first_solving = task_started 1 None ''t1'' (example_task\<lparr>task_stage := Starting\<rparr>) first_running"

definition first_stopping :: server where
  "first_stopping =
     task_solved 5
       (Inr (fst (solve_cloudflare cleared_page (task_url (example_task\<lparr>task_stage := Solving\<rparr>))
          (task_timeout (example_task\<lparr>task_stage := Solving\<rparr>)) \<lparr>clock = 1, awaits = 0\<rparr>)))
       ''t1'' (example_task\<lparr>task_stage := Solving\<rparr>) first_solving"

definition first_finished :: server where
  "first_finished = task_stopped 6 None ''t1'' (example_task\<lparr>task_stage := Stopping\<rparr>) first_stopping"

definition first_stop_failed :: server where
  "first_stop_failed =
     task_stopped 6 (Some (Exception ''browser did not stop'')) ''t1''
       (example_task\<lparr>task_stage := Stopping\<rparr>) first_stopping"

text \<open>A task submitted without a user agent, and a list of latest user agents.\<close>

definition anonymous_task :: task where
  "anonymous_task = example_task\<lparr>task_user_agent := None\<rparr>"

definition latest_user_agents :: "string list" where
  "latest_user_agents = [''Mozilla/5.0 Firefox/121.0'', ''Mozilla/5.0 Chrome/120.0'']"

text \<open>
  Four pages: one whose navigation takes ten seconds and that never yields the cookie; one
  that refuses the connection after 250 ms; one whose element lookup raises; one with a
  button whose click raises and a cookie that is there at the read after the sweep.
\<close>

definition slow_page :: browser where
  "slow_page = \<lparr>latency = (\<lambda>k. if k = 0 then 10000 else 0), navigate = (\<lambda>k. None),
     cookie_jar = (\<lambda>k. Inr []), elements = (\<lambda>k selector. Inr []), click = (\<lambda>k el. None),
     reported_user_agent = (\<lambda>k. Inr ''Mozilla/5.0 Chrome/120.0'')\<rparr>"

definition refused_page :: browser where
  "refused_page = \<lparr>latency = (\<lambda>k. 250), navigate = (\<lambda>k. Some (Exception ''net::ERR_CONNECTION_REFUSED'')),
     cookie_jar = (\<lambda>k. Inr []), elements = (\<lambda>k selector. Inr []), click = (\<lambda>k el. None),
     reported_user_agent = (\<lambda>k. Inr ''Mozilla/5.0 Chrome/120.0'')\<rparr>"

definition broken_sweep :: browser where
  "broken_sweep = \<lparr>latency = (\<lambda>k. 0), navigate = (\<lambda>k. None),
     cookie_jar = (\<lambda>k. Inr []),
     elements = (\<lambda>k selector. Inl (Exception ''DOM agent is not enabled'')),
     click = (\<lambda>k el. None),
     reported_user_agent = (\<lambda>k. Inr ''Mozilla/5.0 Chrome/120.0'')\<rparr>"

definition flaky_click :: browser where
  "flaky_click = \<lparr>latency = (\<lambda>k. 0), navigate = (\<lambda>k. None),
     cookie_jar = (\<lambda>k. if k = 5 then Inr [clearance] else Inr []),
     elements = (\<lambda>k selector. if selector = ''button'' then Inr [7] else Inr []),
     click = (\<lambda>k el. Some (Exception ''could not find position for element'')),
     reported_user_agent = (\<lambda>k. Inr ''Mozilla/5.0 Chrome/120.0'')\<rparr>"

text \<open>
  The same run with a resolver call that raises at time 5: the exception is in flight
  while the browser stops.
\<close>

definition first_raised :: server where
  "first_raised =
     task_solved 5 (Inl (Exception ''resolver gave up'')) ''t1''
       (example_task\<lparr>task_stage := Solving\<rparr>) first_solving"

definition first_raised_finished :: server where
  "first_raised_finished =
     task_stopped 6 None ''t1''
       (example_task\<lparr>task_stage := Stopping, task_pending := Some (Exception ''resolver gave up'')\<rparr>)
       first_raised"

text \<open>
  A server that receives the request once: the run of its task to the end, and a cycle of
  the sweeper at time 100000, more than 24 hours later. Then three states of the event
  loop, each with one \<^verbatim>\<open>/result\<close> request for the id \<open>t1\<close> at the head of the queue: it
  arrived after the task's first block, after the task's end, and after the sweeper's
  cycle.
\<close>

definition once_running :: server where
  "once_running = task_begin 0 [] 0 (Inr []) ''t1'' example_task submitted_once"

definition once_solving :: server where
  "once_solving = task_started 1 None ''t1'' (example_task\<lparr>task_stage := Starting\<rparr>) once_running"

definition once_stopping :: server where
  "once_stopping =
     task_solved 5
       (Inr (fst (solve_cloudflare cleared_page (task_url (example_task\<lparr>task_stage := Solving\<rparr>))
          (task_timeout (example_task\<lparr>task_stage := Solving\<rparr>)) \<lparr>clock = 1, awaits = 0\<rparr>)))
       ''t1'' (example_task\<lparr>task_stage := Solving\<rparr>) once_solving"

definition once_finished :: server where
  "once_finished = task_stopped 6 None ''t1'' (example_task\<lparr>task_stage := Stopping\<rparr>) once_stopping"

definition once_swept :: server where
  "once_swept = snd (cleanup_tasks 100000 once_finished)"

definition asked_early :: loop where
  "asked_early = \<lparr>ready = [Result_request (Some ''t1'') True], srv = once_running, evicted = {||}\<rparr>"

definition asked_later :: loop where
  "asked_later = \<lparr>ready = [Result_request (Some ''t1'') True], srv = once_finished, evicted = {||}\<rparr>"

definition asked_too_late :: loop where
  "asked_too_late =
     \<lparr>ready = [Result_request (Some ''t1'') True], srv = once_swept, evicted = {|''t1''|}\<rparr>"

text \<open>
  The request without a user agent, a list of latest user agents without a Chrome entry,
  and the first block of the created task in front of that list.
\<close>

definition anonymous_request :: request where
  "anonymous_request = example_request\<lparr>user_agent_arg := None\<rparr>"

definition firefox_only :: "string list" where
  "firefox_only = [''Mozilla/5.0 Firefox/121.0'']"

definition anonymous_submitted :: server where
  "anonymous_submitted = snd (solve anonymous_request ''t1'' (startup 1))"

definition anonymous_crashed :: server where
  "anonymous_crashed = task_begin 0 firefox_only 0 (Inr []) ''t1'' anonymous_task anonymous_submitted"

text \<open>
  Three more pages: one whose cookie read raises in the second round of the polling loop;
  one whose lookup of the checkboxes raises and whose user-agent read raises; one whose
  cookie read after the sweep raises.
\<close>

definition dropped_page :: browser where
  "dropped_page = \<lparr>latency = (\<lambda>k. 0), navigate = (\<lambda>k. None),
     cookie_jar = (\<lambda>k. if k = 5 then Inl (Exception ''Connection to the browser was lost'') else Inr []),
     elements = (\<lambda>k selector. Inr []), click = (\<lambda>k el. None),
     reported_user_agent = (\<lambda>k. Inr ''Mozilla/5.0 Chrome/120.0'')\<rparr>"

definition silent_page :: browser where
  "silent_page = \<lparr>latency = (\<lambda>k. 0), navigate = (\<lambda>k. None),
     cookie_jar = (\<lambda>k. Inr []),
     elements = (\<lambda>k selector. if selector = ''button'' then Inr []
                   else Inl (Exception ''Node with given id does not exist'')),
     click = (\<lambda>k el. None),
     reported_user_agent = (\<lambda>k. Inl (Exception ''Target closed''))\<rparr>"

definition stale_page :: browser where
  "stale_page = \<lparr>latency = (\<lambda>k. 0), navigate = (\<lambda>k. None),
     cookie_jar = (\<lambda>k. if k = 4 then Inl (Exception ''Cookie store is gone'') else Inr []),
     elements = (\<lambda>k selector. Inr []), click = (\<lambda>k el. None),
     reported_user_agent = (\<lambda>k. Inr ''Mozilla/5.0 Chrome/120.0'')\<rparr>"

section \<open>What each block reads and writes\<close>

lemma solve_task_results [simp]: "task_results (snd (solve req uuid4 s)) = task_results s"
  by (simp add: solve_def Let_def)

lemma solve_active_solvers [simp]: "active_solvers (snd (solve req uuid4 s)) = active_solvers s"
  by (simp add: solve_def Let_def)

lemma solve_max [simp]: "max_concurrent_tasks (snd (solve req uuid4 s)) = max_concurrent_tasks s"
  by (simp add: solve_def Let_def)

lemma solve_tasks_other:
  "task_id \<noteq> uuid4 \<Longrightarrow> fmlookup (tasks (snd (solve req uuid4 s))) task_id = fmlookup (tasks s) task_id"
  by (simp add: solve_def Let_def)

lemma solve_tasks_new:
  "fmlookup (tasks (snd (solve req uuid4 s))) uuid4 = Some t \<Longrightarrow>
     fmlookup (tasks s) uuid4 = Some t \<or> task_stage t = Scheduled"
  by (auto simp: solve_def Let_def split: if_splits)

lemma finally_block_active:
  "fmlookup (active_solvers (finally_block task_id s)) i =
     (if i = task_id then None else fmlookup (active_solvers s) i)"
  by (auto simp: finally_block_def fmlookup_dom_iff)

lemma finally_block_other [simp]:
  "task_results (finally_block task_id s) = task_results s"
  "tasks (finally_block task_id s) = tasks s"
  "max_concurrent_tasks (finally_block task_id s) = max_concurrent_tasks s"
  by (simp_all add: finally_block_def)

lemma at_stage_simps [simp]:
  "task_results (at_stage task_id t st s) = task_results s"
  "active_solvers (at_stage task_id t st s) = active_solvers s"
  "max_concurrent_tasks (at_stage task_id t st s) = max_concurrent_tasks s"
  "fmlookup (tasks (at_stage task_id t st s)) i =
     (if i = task_id then Some (t\<lparr>task_stage := st\<rparr>) else fmlookup (tasks s) i)"
  by (simp_all add: at_stage_def)

lemma cleanup_tasks_frame [simp]:
  "active_solvers (snd (cleanup_tasks now s)) = active_solvers s"
  "tasks (snd (cleanup_tasks now s)) = tasks s"
  "max_concurrent_tasks (snd (cleanup_tasks now s)) = max_concurrent_tasks s"
  by (simp_all add: cleanup_tasks_def Let_def)

lemma cleanup_tasks_lookup:
  "fmlookup (task_results (snd (cleanup_tasks now s))) task_id =
     (case fmlookup (task_results s) task_id of
        None \<Rightarrow> None
      | Some r \<Rightarrow>
          if (case timestamp r of None \<Rightarrow> 0 | Some ts \<Rightarrow> ts) < now - 86400 then None else Some r)"
  by (auto simp: cleanup_tasks_def keys_to_delete_def Let_def fmlookup_dom_iff split: option.splits)

text \<open>The stage and the slot of every task after a block of the task \<open>task_id\<close>.\<close>

lemma task_begin_tasks:
  "fmlookup (tasks (task_begin now latest pick ctor task_id t s)) i =
     (if i = task_id
      then Some (t\<lparr>task_start_time := now,
                  task_user_agent :=
                    (if truthy (task_user_agent t) then task_user_agent t
                     else case get_chrome_user_agent latest pick of
                            Inl e \<Rightarrow> task_user_agent t | Inr ua \<Rightarrow> Some ua),
                  task_stage :=
                    (if \<not> truthy (task_user_agent t) \<and> isl (get_chrome_user_agent latest pick)
                     then Crashed else if isl ctor then Finished else Starting)\<rparr>)
      else fmlookup (tasks s) i)"
  by (auto simp: task_begin_def Let_def split: sum.splits option.splits)

lemma task_begin_active:
  "fmlookup (active_solvers (task_begin now latest pick ctor task_id t s)) i =
     (if i = task_id
      then (if \<not> truthy (task_user_agent t) \<and> isl (get_chrome_user_agent latest pick)
            then fmlookup (active_solvers s) i
            else if isl ctor then None
            else Some (CloudflareSolver
                   (if truthy (task_user_agent t) then task_user_agent t
                    else Some (projr (get_chrome_user_agent latest pick)))
                   (task_timeout t) (task_proxy t) (projr ctor)))
      else fmlookup (active_solvers s) i)"
  by (auto simp: task_begin_def Let_def finally_block_active split: sum.splits option.splits)

lemma task_begin_results:
  "fmlookup (task_results (task_begin now latest pick ctor task_id t s)) i =
     (if i = task_id \<and> \<not> (\<not> truthy (task_user_agent t) \<and> isl (get_chrome_user_agent latest pick))
      then Some (case ctor of
                   Inr enriched \<Rightarrow> \<lparr>status = Some ''processing'', timestamp = Some now,
                       elapsed_time = None, reason = None, cf_clearance = None,
                       user_agent = None, all_cookies = None\<rparr>
                 | Inl e \<Rightarrow> task_error e now now)
      else fmlookup (task_results s) i)"
  by (auto simp: task_begin_def Let_def split: sum.splits option.splits)

lemma task_started_tasks:
  "fmlookup (tasks (task_started now outcome task_id t s)) i =
     (if i = task_id
      then Some (t\<lparr>task_stage := (if outcome = None then Solving else Finished)\<rparr>)
      else fmlookup (tasks s) i)"
  by (auto simp: task_started_def split: option.splits)

lemma task_started_active:
  "fmlookup (active_solvers (task_started now outcome task_id t s)) i =
     (if i = task_id \<and> outcome \<noteq> None then None else fmlookup (active_solvers s) i)"
  by (auto simp: task_started_def finally_block_active split: option.splits)

lemma task_started_results:
  "fmlookup (task_results (task_started now outcome task_id t s)) i =
     (case outcome of
        Some e \<Rightarrow> if i = task_id then Some (task_error e (task_start_time t) now)
                  else fmlookup (task_results s) i
      | None \<Rightarrow> fmlookup (task_results s) i)"
  by (auto simp: task_started_def split: option.splits)

lemma task_solved_tasks:
  "fmlookup (tasks (task_solved now outcome task_id t s)) i =
     (if i = task_id
      then Some (case outcome of
                   Inr result \<Rightarrow> t\<lparr>task_stage := Stopping\<rparr>
                 | Inl e \<Rightarrow> t\<lparr>task_stage := Stopping, task_pending := Some e\<rparr>)
      else fmlookup (tasks s) i)"
  by (auto simp: task_solved_def split: sum.splits)

lemma task_solved_active [simp]:
  "active_solvers (task_solved now outcome task_id t s) = active_solvers s"
  by (simp add: task_solved_def split: sum.splits)

lemma task_solved_results:
  "fmlookup (task_results (task_solved now outcome task_id t s)) i =
     (case outcome of
        Inr result \<Rightarrow> if i = task_id then Some (result\<lparr>timestamp := Some now\<rparr>)
                      else fmlookup (task_results s) i
      | Inl e \<Rightarrow> fmlookup (task_results s) i)"
  by (simp add: task_solved_def split: sum.splits)

lemma task_stopped_tasks:
  "fmlookup (tasks (task_stopped now outcome task_id t s)) i =
     (if i = task_id then Some (t\<lparr>task_stage := Finished\<rparr>) else fmlookup (tasks s) i)"
  by (auto simp: task_stopped_def split: option.splits)

lemma task_stopped_active:
  "fmlookup (active_solvers (task_stopped now outcome task_id t s)) i =
     (if i = task_id then None else fmlookup (active_solvers s) i)"
  by (auto simp: task_stopped_def finally_block_active split: option.splits)

lemma task_stopped_results:
  "fmlookup (task_results (task_stopped now outcome task_id t s)) i =
     (case (case outcome of Some e \<Rightarrow> Some e | None \<Rightarrow> task_pending t) of
        Some e \<Rightarrow> if i = task_id then Some (task_error e (task_start_time t) now)
                  else fmlookup (task_results s) i
      | None \<Rightarrow> fmlookup (task_results s) i)"
  by (auto simp: task_stopped_def split: option.splits)

section \<open>Invariants of the reachable states\<close>

lemmas block_lookups =
  task_begin_tasks task_begin_active task_begin_results
  task_started_tasks task_started_active task_started_results
  task_solved_tasks task_solved_results
  task_stopped_tasks task_stopped_active task_stopped_results
  cleanup_tasks_lookup

lemma slots_agreeD:
  assumes "slots_agree s" and "fmlookup (tasks s) i = Some t"
  shows "fmlookup (active_solvers s) i \<noteq> None \<longleftrightarrow> in_flight (task_stage t)"
proof -
  from assms(1) have "fmlookup (active_solvers s) i \<noteq> None \<longleftrightarrow>
      (\<exists>t. fmlookup (tasks s) i = Some t \<and> in_flight (task_stage t))"
    unfolding slots_agree_def by blast
  with assms(2) show ?thesis by simp
qed

lemma slots_agree_startup: "slots_agree (startup m)"
  by (simp add: slots_agree_def startup_def)

lemma slots_agree_step:
  assumes "step s s'" and "slots_agree s"
  shows "slots_agree s'"
  using assms
proof (induction rule: step.induct)
  case (submitted uuid4 s req)
  then have fresh: "fmlookup (tasks s) uuid4 = None"
    by (auto simp: fmlookup_dom_iff)
  from submitted.prems have "fmlookup (active_solvers s) uuid4 \<noteq> None \<longleftrightarrow>
      (\<exists>t. fmlookup (tasks s) uuid4 = Some t \<and> in_flight (task_stage t))"
    unfolding slots_agree_def by blast
  with fresh have new: "fmlookup (tasks s) uuid4 = None" "fmlookup (active_solvers s) uuid4 = None"
    by simp_all
  show ?case
    unfolding slots_agree_def
  proof
    fix i
    show "fmlookup (active_solvers (snd (solve req uuid4 s))) i \<noteq> None \<longleftrightarrow>
        (\<exists>t. fmlookup (tasks (snd (solve req uuid4 s))) i = Some t \<and> in_flight (task_stage t))"
    proof (cases "i = uuid4")
      case True
      with new solve_tasks_new [of req uuid4 s] show ?thesis
        by (auto simp: in_flight_def)
    next
      case False
      with submitted.prems show ?thesis
        by (simp add: solve_tasks_other slots_agree_def)
    qed
  qed
next
  case (begun s task_id t now latest pick ctor)
  then have "fmlookup (active_solvers s) task_id = None"
    using slots_agreeD [of s task_id t] by (simp add: in_flight_def)
  with begun show ?case
    by (auto simp: slots_agree_def block_lookups in_flight_def)
next
  case (started s task_id t now outcome)
  then have "fmlookup (active_solvers s) task_id \<noteq> None"
    using slots_agreeD [of s task_id t] by (simp add: in_flight_def)
  with started show ?case
    by (auto simp: slots_agree_def block_lookups in_flight_def)
next
  case (solved s task_id t now b w)
  then have "fmlookup (active_solvers s) task_id \<noteq> None"
    using slots_agreeD [of s task_id t] by (simp add: in_flight_def)
  with solved show ?case
    by (auto simp: slots_agree_def block_lookups in_flight_def)
next
  case (raised s task_id t now e)
  then have "fmlookup (active_solvers s) task_id \<noteq> None"
    using slots_agreeD [of s task_id t] by (simp add: in_flight_def)
  with raised show ?case
    by (auto simp: slots_agree_def block_lookups in_flight_def)
next
  case (stopped s task_id t now outcome)
  then show ?case
    by (auto simp: slots_agree_def block_lookups in_flight_def)
next
  case (swept s now)
  then show ?case
    by (simp add: slots_agree_def)
qed

lemma reachable_slots_agree: "reachable m s \<Longrightarrow> slots_agree s"
  by (induction rule: reachable.induct) (auto intro: slots_agree_startup slots_agree_step)

lemma solve_cloudflare_result:
  "(\<exists>elapsed v ua cookies. fst (solve_cloudflare b url timeout w) = success_result elapsed v ua cookies)
   \<or> (\<exists>why elapsed. fst (solve_cloudflare b url timeout w) = error_result why elapsed)"
  by (auto simp: solve_cloudflare_def solve_body_def Let_def split: prod.splits sum.splits option.splits)

lemma stamped_shaped:
  "success_entry ((success_result elapsed v ua cookies)\<lparr>timestamp := Some now\<rparr>)"
  "error_entry ((error_result why elapsed)\<lparr>timestamp := Some now\<rparr>)"
  "error_entry (task_error e start_time now)"
  by (simp_all add: success_entry_def error_entry_def success_result_def error_result_def task_error_def)

lemma resolver_result_shaped:
  "well_shaped ((fst (solve_cloudflare b url timeout w))\<lparr>timestamp := Some now\<rparr>)"
  using solve_cloudflare_result [of b url timeout w]
  by (auto simp: well_shaped_def stamped_shaped)

lemma entries_shaped_step:
  assumes "step s s'" and "entries_shaped s"
  shows "entries_shaped s'"
  using assms
proof (induction rule: step.induct)
  case (submitted uuid4 s req)
  then show ?case by (simp add: entries_shaped_def)
next
  case (begun s task_id t now latest pick ctor)
  then show ?case
    by (auto simp: entries_shaped_def block_lookups well_shaped_def stamped_shaped
        processing_entry_def split: if_splits option.splits sum.splits)
next
  case (started s task_id t now outcome)
  then show ?case
    by (auto simp: entries_shaped_def block_lookups well_shaped_def stamped_shaped
        split: if_splits option.splits sum.splits)
next
  case (solved s task_id t now b w)
  then show ?case
    by (auto simp: entries_shaped_def block_lookups resolver_result_shaped split: if_splits)
next
  case (raised s task_id t now e)
  then show ?case
    by (auto simp: entries_shaped_def block_lookups)
next
  case (stopped s task_id t now outcome)
  then show ?case
    by (auto simp: entries_shaped_def block_lookups well_shaped_def stamped_shaped
        split: if_splits option.splits sum.splits)
next
  case (swept s now)
  then show ?case
    by (auto simp: entries_shaped_def block_lookups split: if_splits option.splits sum.splits)
qed

lemma reachable_entries_shaped: "reachable m s \<Longrightarrow> entries_shaped s"
proof (induction rule: reachable.induct)
  case (at_startup max_tasks)
  show ?case by (simp add: entries_shaped_def startup_def)
next
  case (after_step max_tasks s s')
  then show ?case by (blast intro: entries_shaped_step)
qed

lemma registered_issued_step:
  assumes "step s s'" and "\<forall>i. fmlookup (task_results s) i \<noteq> None \<longrightarrow> fmlookup (tasks s) i \<noteq> None"
  shows "\<forall>i. fmlookup (task_results s') i \<noteq> None \<longrightarrow> fmlookup (tasks s') i \<noteq> None"
  using assms
proof (induction rule: step.induct)
  case (submitted uuid4 s req)
  then show ?case
    by (auto simp: solve_def Let_def)
next
  case (swept s now)
  then show ?case
    by (auto simp: block_lookups split: if_splits option.splits sum.splits)
qed (auto simp: block_lookups split: if_splits option.splits sum.splits)

lemma finished_entry_kept:
  assumes "step s s'" and "fmlookup (tasks s) i = Some t" and "task_stage t = Finished"
    and "fmlookup (task_results s) i = Some r"
  shows "fmlookup (task_results s') i = Some r \<or>
    (fmlookup (task_results s') i = None \<and>
     (\<exists>now. s' = snd (cleanup_tasks now s) \<and>
        (case timestamp r of None \<Rightarrow> 0 | Some ts \<Rightarrow> ts) < now - 86400))"
  using assms
proof (induction rule: step.induct)
  case (swept s now)
  then show ?case
    by (auto simp: block_lookups split: if_splits option.splits sum.splits)
qed (auto simp: block_lookups split: if_splits option.splits sum.splits)

lemma get_result_cong:
  "fmlookup (task_results s') i = fmlookup (task_results s) i \<Longrightarrow>
     get_result (Some i) s' = get_result (Some i) s"
  by (simp add: get_result_def)

lemma shaped_timestamp: "well_shaped r \<Longrightarrow> \<exists>ts. timestamp r = Some ts"
  by (auto simp: well_shaped_def processing_entry_def success_entry_def error_entry_def)

lemma shapes_exclusive:
  "\<not> (processing_entry r \<and> success_entry r)"
  "\<not> (processing_entry r \<and> error_entry r)"
  "\<not> (success_entry r \<and> error_entry r)"
  by (auto simp: processing_entry_def success_entry_def error_entry_def)

lemma reachable_registered_issued:
  "reachable m s \<Longrightarrow> \<forall>i. fmlookup (task_results s) i \<noteq> None \<longrightarrow> fmlookup (tasks s) i \<noteq> None"
proof (induction rule: reachable.induct)
  case (at_startup max_tasks)
  show ?case by (simp add: startup_def)
next
  case (after_step max_tasks s s')
  show ?case by (rule registered_issued_step [OF after_step.hyps(2) after_step.IH])
qed

text \<open>What one step does to one task: which block it is, the stage and the slot.\<close>

lemma step_of_task:
  assumes "step s s'" and "fmlookup (tasks s) i = Some t"
  shows "(fmlookup (tasks s') i = Some t \<and>
          fmlookup (active_solvers s') i = fmlookup (active_solvers s) i) \<or>
         (task_stage t = Scheduled \<and>
          (\<exists>now latest pick ctor. s' = task_begin now latest pick ctor i t s)) \<or>
         (task_stage t = Starting \<and> (\<exists>now outcome. s' = task_started now outcome i t s)) \<or>
         (task_stage t = Solving \<and>
          (\<exists>now b w. s' = task_solved now
             (Inr (fst (solve_cloudflare b (task_url t) (task_timeout t) w))) i t s)) \<or>
         (task_stage t = Solving \<and> (\<exists>now e. s' = task_solved now (Inl e) i t s)) \<or>
         (task_stage t = Stopping \<and> (\<exists>now outcome. s' = task_stopped now outcome i t s))"
  using assms
proof (induction rule: step.induct)
  case (submitted uuid4 s req)
  then have "i \<noteq> uuid4" by (auto simp: fmlookup_dom_iff)
  with submitted show ?case by (simp add: solve_tasks_other)
next
  case (begun s task_id t0 now latest pick ctor)
  show ?case
  proof (cases "i = task_id")
    case True
    with begun show ?thesis by auto
  next
    case False
    with begun show ?thesis by (simp add: block_lookups)
  qed
next
  case (started s task_id t0 now outcome)
  show ?case
  proof (cases "i = task_id")
    case True
    with started show ?thesis by auto
  next
    case False
    with started show ?thesis by (simp add: block_lookups)
  qed
next
  case (solved s task_id t0 now b w)
  show ?case
  proof (cases "i = task_id")
    case True
    with solved show ?thesis by auto
  next
    case False
    with solved show ?thesis by (simp add: block_lookups)
  qed
next
  case (raised s task_id t0 now e)
  show ?case
  proof (cases "i = task_id")
    case True
    with raised show ?thesis by auto
  next
    case False
    with raised show ?thesis by (simp add: block_lookups)
  qed
next
  case (stopped s task_id t0 now outcome)
  show ?case
  proof (cases "i = task_id")
    case True
    with stopped show ?thesis by auto
  next
    case False
    with stopped show ?thesis by (simp add: block_lookups)
  qed
next
  case (swept s now)
  then show ?case by simp
qed

lemma finished_final:
  assumes "step s s'" and "fmlookup (tasks s) i = Some t" and "task_stage t = Finished"
    and "slots_agree s"
  shows "fmlookup (tasks s') i = Some t \<and> fmlookup (active_solvers s') i = None"
proof -
  from assms(2,3,4) have "fmlookup (active_solvers s) i = None"
    using slots_agreeD [of s i t] by (simp add: in_flight_def)
  with step_of_task [OF assms(1,2)] assms(3) show ?thesis by auto
qed

lemma stage_progress:
  assumes "step s s'" and "fmlookup (tasks s) i = Some t" and "fmlookup (tasks s') i = Some t'"
  shows "t' = t \<or>
    (task_stage t = Scheduled \<and>
       (task_stage t' = Starting \<or> task_stage t' = Finished \<or> task_stage t' = Crashed)) \<or>
    (task_stage t = Starting \<and> (task_stage t' = Solving \<or> task_stage t' = Finished)) \<or>
    (task_stage t = Solving \<and> task_stage t' = Stopping) \<or>
    (task_stage t = Stopping \<and> task_stage t' = Finished)"
proof -
  from step_of_task [OF assms(1,2)]
  consider "fmlookup (tasks s') i = Some t"
    | now latest pick ctor where "task_stage t = Scheduled"
        "s' = task_begin now latest pick ctor i t s"
    | now outcome where "task_stage t = Starting" "s' = task_started now outcome i t s"
    | now outcome where "task_stage t = Solving" "s' = task_solved now outcome i t s"
    | now outcome where "task_stage t = Stopping" "s' = task_stopped now outcome i t s"
    by blast
  then show ?thesis
  proof cases
    case 1
    with assms(3) show ?thesis by simp
  next
    case 2
    with assms(3) show ?thesis by (auto simp: task_begin_tasks split: if_splits)
  next
    case 3
    with assms(3) show ?thesis by (auto simp: task_started_tasks split: if_splits)
  next
    case 4
    with assms(3) show ?thesis by (auto simp: task_solved_tasks split: sum.splits)
  next
    case 5
    with assms(3) show ?thesis by (auto simp: task_stopped_tasks)
  qed
qed

lemma slot_changes:
  assumes "step s s'" and "slots_agree s" and "fmlookup (tasks s) i = Some t"
    and "fmlookup (tasks s') i = Some t'"
  shows "(fmlookup (active_solvers s) i = None \<and> fmlookup (active_solvers s') i \<noteq> None \<longrightarrow>
           task_stage t = Scheduled \<and> task_stage t' = Starting) \<and>
         (fmlookup (active_solvers s) i \<noteq> None \<and> fmlookup (active_solvers s') i = None \<longrightarrow>
           in_flight (task_stage t) \<and> task_stage t' = Finished)"
proof -
  from assms(1,2) have "slots_agree s'" by (rule slots_agree_step)
  then have after: "fmlookup (active_solvers s') i \<noteq> None \<longleftrightarrow> in_flight (task_stage t')"
    using assms(4) by (rule slots_agreeD)
  have before: "fmlookup (active_solvers s) i \<noteq> None \<longleftrightarrow> in_flight (task_stage t)"
    using assms(2,3) by (rule slots_agreeD)
  from stage_progress [OF assms(1,3,4)] before after show ?thesis
    by (auto simp: in_flight_def)
qed

lemma stage_never_rescheduled:
  assumes "step s s'" and "fmlookup (tasks s) i = Some t" and "task_stage t \<noteq> Scheduled"
    and "fmlookup (tasks s') i = Some t'"
  shows "task_stage t' \<noteq> Scheduled"
  using stage_progress [OF assms(1,2,4)] assms(3) by auto

lemma terminal_shaped:
  assumes "reachable m s" and "fmlookup (task_results s) i = Some r"
    and "status r \<noteq> Some ''processing''"
  shows "success_entry r \<or> error_entry r"
proof -
  from assms(1) have "entries_shaped s" by (rule reachable_entries_shaped)
  with assms(2) have "well_shaped r" by (auto simp: entries_shaped_def)
  with assms(3) show ?thesis by (auto simp: well_shaped_def processing_entry_def)
qed

section \<open>The default user agent\<close>

lemma get_chrome_user_agent_Inr:
  assumes "get_chrome_user_agent latest pick = Inr ua"
  shows "ua \<in> set latest \<and> sublist ''Chrome'' ua"
proof -
  define chrome where "chrome = filter (\<lambda>ua. sublist ''Chrome'' ua) latest"
  from assms have ne: "chrome \<noteq> []" and ua: "ua = chrome ! (pick mod length chrome)"
    by (auto simp: get_chrome_user_agent_def Let_def chrome_def split: if_splits)
  from ne have "pick mod length chrome < length chrome" by simp
  then have "chrome ! (pick mod length chrome) \<in> set chrome" by (rule nth_mem)
  with ua show ?thesis by (simp add: chrome_def)
qed

lemma get_chrome_user_agent_total:
  "(\<exists>ua \<in> set latest. sublist ''Chrome'' ua) \<Longrightarrow> \<not> isl (get_chrome_user_agent latest pick)"
  by (auto simp: get_chrome_user_agent_def Let_def filter_empty_conv)

text \<open>
  The solver a first block creates: its user agent is the one requested or, without one,
  an entry of the list that contains \<^verbatim>\<open>Chrome\<close>; the user-agent argument is the first
  Chrome argument, and the arguments of the proxy enrichment follow.
\<close>

lemma chosen_user_agent:
  assumes "fmlookup (active_solvers s) task_id = None"
    and "fmlookup (active_solvers (task_begin now latest pick ctor task_id t s)) task_id = Some sv"
  shows "\<exists>ua enriched. ctor = Inr enriched \<and> solver_user_agent sv = Some ua \<and> ua \<noteq> [] \<and>
           solver_arguments sv = (''--user-agent='' @ ua) # enriched \<and>
           (if truthy (task_user_agent t) then task_user_agent t = Some ua
            else ua \<in> set latest \<and> sublist ''Chrome'' ua)"
proof (cases "truthy (task_user_agent t)")
  case True
  then obtain ua where "task_user_agent t = Some ua" "ua \<noteq> []"
    by (cases "task_user_agent t") auto
  with assms True show ?thesis
    by (cases ctor) (auto simp: task_begin_active CloudflareSolver_def split: if_splits)
next
  case False
  with assms obtain ua enriched where ch: "get_chrome_user_agent latest pick = Inr ua"
    and c: "ctor = Inr enriched"
    and sv: "sv = CloudflareSolver (Some ua) (task_timeout t) (task_proxy t) enriched"
    by (cases "get_chrome_user_agent latest pick"; cases ctor)
      (auto simp: task_begin_active split: if_splits)
  from ch have mem: "ua \<in> set latest \<and> sublist ''Chrome'' ua"
    by (rule get_chrome_user_agent_Inr)
  then have "ua \<noteq> []" by auto
  with False c sv mem show ?thesis by (simp add: CloudflareSolver_def)
qed

section \<open>The resolver: its clock, its loop and its handlers\<close>

lemma clock_suspend_ge: "0 \<le> d \<Longrightarrow> clock w \<le> clock (suspend b d w)"
  by (simp add: suspend_def)

lemma clock_poll: "clock w + 1 \<le> clock (snd (get_cookies b (sleep b 1 w)))"
  by (simp add: get_cookies_def sleep_def suspend_def)

lemma poll_eq:
  "get_cookies b (sleep b 1 w) = (cookie_jar b (awaits w + 1), suspend b 0 (suspend b 1 w))"
  by (simp add: get_cookies_def sleep_def suspend_def)

lemma await_cookie_again:
  "clock w - start_wait < real_of_int timeout \<Longrightarrow> cookie_jar b (awaits w + 1) = Inr cookies \<Longrightarrow>
   extract_clearance_cookie cookies = None \<Longrightarrow>
   await_cookie b timeout start_wait seen w
     = await_cookie b timeout start_wait cookies (suspend b 0 (suspend b 1 w))"
  by (simp add: await_cookie.simps [of b timeout start_wait seen w] poll_eq)

lemma await_cookie_appears:
  "clock w - start_wait < real_of_int timeout \<Longrightarrow> cookie_jar b (awaits w + 1) = Inr cookies \<Longrightarrow>
   extract_clearance_cookie cookies = Some c \<Longrightarrow>
   await_cookie b timeout start_wait seen w = (Inr (cookies, Some c), suspend b 0 (suspend b 1 w))"
  by (simp add: await_cookie.simps [of b timeout start_wait seen w] poll_eq)

lemma await_cookie_raises:
  "clock w - start_wait < real_of_int timeout \<Longrightarrow> cookie_jar b (awaits w + 1) = Inl e \<Longrightarrow>
   await_cookie b timeout start_wait seen w = (Inl e, suspend b 0 (suspend b 1 w))"
  by (simp add: await_cookie.simps [of b timeout start_wait seen w] poll_eq)

lemma await_cookie_expired:
  "\<not> clock w - start_wait < real_of_int timeout \<Longrightarrow>
   await_cookie b timeout start_wait seen w = (Inr (seen, None), w)"
  by (simp add: await_cookie.simps [of b timeout start_wait seen w])

text \<open>
  A property of the loop's result that holds when the loop does not run, when a read
  raises and when the cookie is found, and that every further round keeps, holds for the
  loop.
\<close>

lemma await_cookie_rule:
  assumes stop: "\<And>seen w. \<not> clock w - start_wait < real_of_int timeout \<Longrightarrow>
      P seen w (Inr (seen, None), w)"
    and raises: "\<And>seen w e. clock w - start_wait < real_of_int timeout \<Longrightarrow>
      cookie_jar b (awaits w + 1) = Inl e \<Longrightarrow> P seen w (Inl e, suspend b 0 (suspend b 1 w))"
    and found: "\<And>seen w cookies c. clock w - start_wait < real_of_int timeout \<Longrightarrow>
      cookie_jar b (awaits w + 1) = Inr cookies \<Longrightarrow> extract_clearance_cookie cookies = Some c \<Longrightarrow>
      P seen w (Inr (cookies, Some c), suspend b 0 (suspend b 1 w))"
    and again: "\<And>seen w cookies r. clock w - start_wait < real_of_int timeout \<Longrightarrow>
      cookie_jar b (awaits w + 1) = Inr cookies \<Longrightarrow> extract_clearance_cookie cookies = None \<Longrightarrow>
      P cookies (suspend b 0 (suspend b 1 w)) r \<Longrightarrow> P seen w r"
  shows "P seen w (await_cookie b timeout start_wait seen w)"
proof -
  have "b' = b \<longrightarrow> timeout' = timeout \<longrightarrow> start_wait' = start_wait \<longrightarrow>
      P seen w (await_cookie b' timeout' start_wait' seen w)" for b' timeout' start_wait'
  proof (induction b' timeout' start_wait' seen w rule: await_cookie.induct)
    case (1 b' timeout' start_wait' seen w)
    show ?case
    proof (intro impI)
      assume eq: "b' = b" "timeout' = timeout" "start_wait' = start_wait"
      show "P seen w (await_cookie b' timeout' start_wait' seen w)"
      proof (cases "clock w - start_wait < real_of_int timeout")
        case False
        with eq show ?thesis by (simp add: await_cookie_expired stop)
      next
        case True
        show ?thesis
        proof (cases "cookie_jar b (awaits w + 1)")
          case (Inl e)
          with True eq show ?thesis by (simp add: await_cookie_raises raises)
        next
          case (Inr cookies)
          show ?thesis
          proof (cases "extract_clearance_cookie cookies")
            case (Some c)
            with True Inr eq show ?thesis by (simp add: await_cookie_appears found)
          next
            case None
            from True eq have run: "clock w - start_wait' < real_of_int timeout'" by simp
            from eq Inr have jar: "cookie_jar b' (awaits w + 1) = Inr cookies" by simp
            from "1.IH" [OF run poll_eq [symmetric] jar None] eq
            have "P cookies (suspend b 0 (suspend b 1 w))
                (await_cookie b timeout start_wait cookies (suspend b 0 (suspend b 1 w)))"
              by simp
            with True Inr None have "P seen w
                (await_cookie b timeout start_wait cookies (suspend b 0 (suspend b 1 w)))"
              by (rule again)
            with True Inr None eq show ?thesis
              by (simp add: await_cookie_again)
          qed
        qed
      qed
    qed
  qed
  then show ?thesis by simp
qed

lemma clock_round: "clock w \<le> clock (suspend b 0 (suspend b 1 w))"
  by (simp add: suspend_def)

lemma await_cookie_clock: "clock w \<le> clock (snd (await_cookie b timeout start_wait seen w))"
proof (rule await_cookie_rule [where P = "\<lambda>seen w r. clock w \<le> clock (snd r)"])
  fix seen w cookies and r :: "(exn + cookie list \<times> cookie option) \<times> world"
  assume "clock (suspend b 0 (suspend b 1 w)) \<le> clock (snd r)"
  with clock_round [of w b] show "clock w \<le> clock (snd r)" by simp
qed (simp_all add: clock_round)

lemma await_cookie_timeout:
  assumes "await_cookie b timeout start_wait seen w = (Inr (cookies', None), w')"
  shows "real_of_int timeout \<le> clock w' - start_wait"
proof -
  have "\<forall>cookies'. fst (await_cookie b timeout start_wait seen w) = Inr (cookies', None) \<longrightarrow>
      real_of_int timeout \<le> clock (snd (await_cookie b timeout start_wait seen w)) - start_wait"
    by (rule await_cookie_rule [where P = "\<lambda>seen w r. \<forall>cookies'. fst r = Inr (cookies', None) \<longrightarrow>
        real_of_int timeout \<le> clock (snd r) - start_wait"]) simp_all
  with assms show ?thesis by simp
qed

lemma await_cookie_overshoot:
  assumes "await_cookie b timeout start_wait seen w = (Inr (cookies', None), w')"
  shows "w' = w \<or> (\<exists>k. clock w' - start_wait
      < real_of_int timeout + 1 + real (latency b k) / 1000 + real (latency b (k + 1)) / 1000)"
proof -
  let ?late = "\<lambda>v. \<exists>k. clock v - start_wait
      < real_of_int timeout + 1 + real (latency b k) / 1000 + real (latency b (k + 1)) / 1000"
  have "\<forall>cookies'. fst (await_cookie b timeout start_wait seen w) = Inr (cookies', None) \<longrightarrow>
      snd (await_cookie b timeout start_wait seen w) = w \<or>
      ?late (snd (await_cookie b timeout start_wait seen w))"
  proof (rule await_cookie_rule [where P = "\<lambda>seen w r. \<forall>cookies'. fst r = Inr (cookies', None) \<longrightarrow>
        snd r = w \<or> ?late (snd r)"])
    fix seen w cookies and r :: "(exn + cookie list \<times> cookie option) \<times> world"
    assume run: "clock w - start_wait < real_of_int timeout"
      and IH: "\<forall>cookies'. fst r = Inr (cookies', None) \<longrightarrow>
        snd r = suspend b 0 (suspend b 1 w) \<or> ?late (snd r)"
    have "clock (suspend b 0 (suspend b 1 w)) - start_wait
        < real_of_int timeout + 1 + real (latency b (awaits w)) / 1000
          + real (latency b (awaits w + 1)) / 1000"
      using run by (simp add: suspend_def)
    then have "?late (suspend b 0 (suspend b 1 w))" by blast
    with IH show "\<forall>cookies'. fst r = Inr (cookies', None) \<longrightarrow> snd r = w \<or> ?late (snd r)"
      by metis
  qed simp_all
  with assms show ?thesis by simp
qed

lemma await_cookie_never_cleared:
  assumes "never_cleared b"
  shows "\<exists>cookies'. fst (await_cookie b timeout start_wait seen w) = Inr (cookies', None)"
proof (rule await_cookie_rule [where P = "\<lambda>seen w r. \<exists>cookies'. fst r = Inr (cookies', None)"])
  fix seen :: "cookie list" and w :: world and e
  assume "cookie_jar b (awaits w + 1) = Inl e"
  with assms show "\<exists>cookies'. fst (Inl e :: exn + cookie list \<times> cookie option, suspend b 0 (suspend b 1 w))
      = Inr (cookies', None)"
    unfolding never_cleared_def by (metis sum.distinct(1))
next
  fix seen :: "cookie list" and w :: world and cookies c
  assume "cookie_jar b (awaits w + 1) = Inr cookies" "extract_clearance_cookie cookies = Some c"
  with assms show "\<exists>cookies'. fst (Inr (cookies, Some c) :: exn + cookie list \<times> cookie option,
      suspend b 0 (suspend b 1 w)) = Inr (cookies', None)"
    unfolding never_cleared_def by (metis sum.inject(2) option.distinct(1))
qed simp_all

lemma click_each_clock: "clock w \<le> clock (click_each b els w)"
proof (induction els arbitrary: w)
  case Nil
  show ?case by simp
next
  case (Cons el els)
  have a: "clock w \<le> clock (suspend b 0 w)" by (simp add: clock_suspend_ge)
  have c: "clock (suspend b 0 w) \<le> clock (suspend b 2 (suspend b 0 w))"
    by (simp add: clock_suspend_ge)
  show ?case
  proof (cases "click b (awaits w) el")
    case None
    have "clock (suspend b 2 (suspend b 0 w)) \<le> clock (click_each b els (suspend b 2 (suspend b 0 w)))"
      by (rule Cons.IH)
    with a c None show ?thesis by (simp add: mouse_click_def sleep_def)
  next
    case (Some e)
    have "clock (suspend b 0 w) \<le> clock (click_each b els (suspend b 0 w))"
      by (rule Cons.IH)
    with a Some show ?thesis by (simp add: mouse_click_def)
  qed
qed

lemma clock_le_suspend: "clock w \<le> clock v \<Longrightarrow> 0 \<le> d \<Longrightarrow> clock w \<le> clock (suspend b d v)"
  using clock_suspend_ge [of d v b] by simp

lemma clock_le_click_each: "clock w \<le> clock v \<Longrightarrow> clock w \<le> clock (click_each b els v)"
  using click_each_clock [of v b els] by simp

lemma interact_clock: "clock w \<le> clock (snd (interact b seen w))"
  unfolding interact_def find_all_def get_cookies_def
  by (auto split: sum.splits intro!: clock_le_suspend clock_le_click_each)

lemma interact_never_cleared: "never_cleared b \<Longrightarrow> snd (fst (interact b seen w)) = None"
  unfolding interact_def find_all_def get_cookies_def never_cleared_def
  by (auto split: sum.splits) (metis sum.inject(2))

lemma py_round_ge_int: "real_of_int n \<le> x \<Longrightarrow> real_of_int n \<le> py_round x 3"
proof -
  assume n: "real_of_int n \<le> x"
  define y where "y = x * 10 ^ 3"
  have "real_of_int (n * 1000) \<le> y" using n by (simp add: y_def)
  then have f: "n * 1000 \<le> \<lfloor>y\<rfloor>" by (simp add: le_floor_iff)
  then have "real_of_int n * 1000 \<le> real_of_int \<lfloor>y\<rfloor>"
    by (metis of_int_le_iff of_int_mult of_int_numeral)
  then have "real_of_int n \<le> real_of_int \<lfloor>y\<rfloor> / 10 ^ 3" by simp
  moreover have "real_of_int \<lfloor>y\<rfloor> / 10 ^ 3 \<le> py_round x 3"
    by (simp add: py_round_def Let_def y_def divide_right_mono)
  ultimately show ?thesis by simp
qed

lemma find_all_swallowed:
  "elements b (awaits w) ''button'' = Inl e \<Longrightarrow> interact b seen w = ((seen, None), suspend b 0 w)"
  by (simp add: interact_def find_all_def)

lemma click_swallowed:
  "click b (awaits w) el = Some e \<Longrightarrow> click_each b (el # els) w = click_each b els (suspend b 0 w)"
  by (simp add: mouse_click_def)

text \<open>The resolver's result on each path through the outer \<^verbatim>\<open>try\<close>.\<close>

lemma resolver_returns:
  "(\<exists>v ua cookies. fst (solve_cloudflare b url timeout w)
        = success_result (py_round (clock (snd (solve_cloudflare b url timeout w)) - clock w) 3)
            v ua cookies) \<or>
   (\<exists>why. fst (solve_cloudflare b url timeout w)
        = error_result why (py_round (clock (snd (solve_cloudflare b url timeout w)) - clock w) 3))"
  by (auto simp: solve_cloudflare_def solve_body_def Let_def
      split: prod.splits sum.splits option.splits)

lemma navigation_fault:
  assumes "navigate b (awaits w) = Some e"
  shows "solve_cloudflare b url timeout w
    = (error_result (str e) (py_round (clock (suspend b 0 w) - clock w) 3), suspend b 0 w)"
  using assms by (simp add: solve_cloudflare_def solve_body_def driver_get_def)

lemma first_read_fault:
  assumes "navigate b (awaits w) = None" and "cookie_jar b (awaits w + 1) = Inl e"
  shows "solve_cloudflare b url timeout w
    = (error_result (str e) (py_round (clock (suspend b 0 (suspend b 0 w)) - clock w) 3),
       suspend b 0 (suspend b 0 w))"
  using assms
  by (simp add: solve_cloudflare_def solve_body_def driver_get_def get_cookies_def suspend_def)

lemma polling_fault:
  assumes "navigate b (awaits w) = None" and "cookie_jar b (awaits w + 1) = Inr cookies"
    and "extract_clearance_cookie cookies = None"
    and "await_cookie b timeout (clock (suspend b 0 (suspend b 0 w))) cookies
           (suspend b 0 (suspend b 0 w)) = (Inl e, w3)"
  shows "solve_cloudflare b url timeout w
    = (error_result (str e) (py_round (clock w3 - clock w) 3), w3)"
proof -
  have nav: "driver_get b url w = (None, suspend b 0 w)"
    using assms(1) by (simp add: driver_get_def)
  have rd: "get_cookies b (suspend b 0 w) = (Inr cookies, suspend b 0 (suspend b 0 w))"
    using assms(2) by (simp add: get_cookies_def suspend_def)
  have ch: "challenge b timeout cookies (suspend b 0 (suspend b 0 w)) = (Inl e, w3)"
    using assms(4) by (simp add: challenge_def)
  show ?thesis
    by (simp add: solve_cloudflare_def solve_body_def nav rd ch assms(3))
qed

lemma cleared_at_once_user_agent_fault:
  assumes "navigate b (awaits w) = None" and "cookie_jar b (awaits w + 1) = Inr cookies"
    and "extract_clearance_cookie cookies = Some c"
    and "reported_user_agent b (awaits w + 2) = Inl e"
  shows "solve_cloudflare b url timeout w
    = (error_result (str e)
         (py_round (clock (suspend b 0 (suspend b 0 (suspend b 0 w))) - clock w) 3),
       suspend b 0 (suspend b 0 (suspend b 0 w)))"
  using assms
  by (simp add: solve_cloudflare_def solve_body_def driver_get_def get_cookies_def
      get_user_agent_def suspend_def)

lemma after_challenge:
  assumes "navigate b (awaits w) = None" and "cookie_jar b (awaits w + 1) = Inr cookies"
    and "extract_clearance_cookie cookies = None"
    and "challenge b timeout cookies (suspend b 0 (suspend b 0 w)) = (Inr (cookies', found), w3)"
  shows "solve_cloudflare b url timeout w =
    (case reported_user_agent b (awaits w3) of
       Inl e \<Rightarrow> error_result (str e) (py_round (clock (suspend b 0 w3) - clock w) 3)
     | Inr ua \<Rightarrow>
         (case found of
            Some c \<Rightarrow> success_result (py_round (clock (suspend b 0 w3) - clock w) 3)
                        (cookie_value c) ua cookies'
          | None \<Rightarrow> error_result ''Failed to retrieve cf_clearance cookie''
                        (py_round (clock (suspend b 0 w3) - clock w) 3)),
     suspend b 0 w3)"
proof -
  have nav: "driver_get b url w = (None, suspend b 0 w)"
    using assms(1) by (simp add: driver_get_def)
  have rd: "get_cookies b (suspend b 0 w) = (Inr cookies, suspend b 0 (suspend b 0 w))"
    using assms(2) by (simp add: get_cookies_def suspend_def)
  show ?thesis
    by (simp add: solve_cloudflare_def solve_body_def nav rd assms(3,4) get_user_agent_def Let_def
        split: sum.splits option.splits)
qed

lemma challenge_sweeps:
  assumes "await_cookie b timeout (clock w) seen w = (Inr (cookies, None), w')"
  shows "challenge b timeout seen w = (Inr (fst (interact b cookies w')), snd (interact b cookies w'))"
  using assms by (simp add: challenge_def split: prod.splits)

lemma checkbox_lookup_swallowed:
  assumes "elements b (awaits w) ''button'' = Inr buttons"
    and "elements b (awaits (click_each b buttons (suspend b 0 w))) ''input[type=checkbox]'' = Inl e"
  shows "interact b seen w = ((seen, None), suspend b 0 (click_each b buttons (suspend b 0 w)))"
  using assms by (simp add: interact_def find_all_def)

lemma last_read_swallowed:
  assumes "elements b (awaits w) ''button'' = Inr buttons"
    and "elements b (awaits (click_each b buttons (suspend b 0 w))) ''input[type=checkbox]''
           = Inr checkboxes"
    and "cookie_jar b (awaits (click_each b checkboxes
           (suspend b 0 (click_each b buttons (suspend b 0 w))))) = Inl e"
  shows "interact b seen w = ((seen, None),
     suspend b 0 (click_each b checkboxes (suspend b 0 (click_each b buttons (suspend b 0 w)))))"
  using assms by (simp add: interact_def find_all_def get_cookies_def)

text \<open>
  How long the phases of a run take when no await is more than \<open>L\<close> milliseconds late and
  no lookup finds more than \<open>n\<close> elements.
\<close>

lemma py_round_le: "py_round x 3 \<le> x + 1 / 2000"
proof -
  define y where "y = x * 10 ^ 3"
  define f where "f = \<lfloor>y\<rfloor>"
  have fl: "real_of_int f \<le> y" by (simp add: f_def)
  have x: "y / 1000 = x" by (simp add: y_def)
  show ?thesis
  proof (cases "y - real_of_int f < 1 / 2")
    case True
    then have "py_round x 3 = real_of_int f / 1000"
      by (simp add: py_round_def Let_def y_def f_def)
    moreover from fl have "real_of_int f / 1000 \<le> y / 1000" by (simp add: divide_right_mono)
    ultimately show ?thesis using x by simp
  next
    case False
    then have "py_round x 3 \<le> (real_of_int f + 1) / 1000"
      by (simp add: py_round_def Let_def y_def f_def divide_right_mono)
    moreover from False have "real_of_int f + 1 \<le> y + 1 / 2" by simp
    then have "(real_of_int f + 1) / 1000 \<le> (y + 1 / 2) / 1000" by (simp add: divide_right_mono)
    moreover have "(y + 1 / 2) / 1000 = x + 1 / 2000" by (simp add: y_def)
    ultimately show ?thesis by linarith
  qed
qed

lemma click_each_duration:
  assumes lat: "\<forall>k. real (latency b k) / 1000 \<le> l" and c: "2 + 2 * l \<le> c"
  shows "clock (click_each b els w) \<le> clock w + real (length els) * c"
proof (induction els arbitrary: w)
  case Nil
  show ?case by simp
next
  case (Cons el els)
  have l0: "real (latency b (awaits w)) / 1000 \<le> l" using lat by simp
  have l1: "real (latency b (awaits w + 1)) / 1000 \<le> l" using lat by simp
  have l: "0 \<le> l" using l0 by (rule order_trans [rotated]) simp
  have step: "real (length (el # els)) * c = c + real (length els) * c"
    by (simp add: algebra_simps)
  show ?case
  proof (cases "click b (awaits w) el")
    case None
    have a: "clock (click_each b els (suspend b 2 (suspend b 0 w)))
        \<le> clock (suspend b 2 (suspend b 0 w)) + real (length els) * c"
      by (rule Cons.IH)
    have d: "clock (suspend b 2 (suspend b 0 w)) \<le> clock w + c"
      using l0 l1 c by (simp add: suspend_def)
    have eq: "click_each b (el # els) w = click_each b els (suspend b 2 (suspend b 0 w))"
      using None by (simp add: mouse_click_def sleep_def)
    show ?thesis unfolding step eq using a d by linarith
  next
    case (Some e)
    have a: "clock (click_each b els (suspend b 0 w))
        \<le> clock (suspend b 0 w) + real (length els) * c"
      by (rule Cons.IH)
    have d: "clock (suspend b 0 w) \<le> clock w + c"
      using l0 l c by (simp add: suspend_def)
    have eq: "click_each b (el # els) w = click_each b els (suspend b 0 w)"
      using Some by (simp add: mouse_click_def)
    show ?thesis unfolding step eq using a d by linarith
  qed
qed

lemma click_each_duration_le:
  assumes "\<forall>k. real (latency b k) / 1000 \<le> l" and "2 + 2 * l \<le> c" and "length els \<le> n"
  shows "clock (click_each b els w) \<le> clock w + real n * c"
proof -
  from assms(1) have "real (latency b 0) / 1000 \<le> l" by blast
  then have "0 \<le> l" by (rule order_trans [rotated]) simp
  with assms(2) have "0 \<le> c" by simp
  with assms(3) have "real (length els) * c \<le> real n * c"
    by (intro mult_right_mono) simp_all
  with click_each_duration [OF assms(1,2), of els w] show ?thesis by linarith
qed

lemma suspend_duration:
  assumes "\<forall>k. real (latency b k) / 1000 \<le> l"
  shows "clock (suspend b 0 w) \<le> clock w + l"
  using assms by (simp add: suspend_def)

lemma interact_duration_aux:
  assumes lat: "\<forall>k. real (latency b k) / 1000 \<le> l" and c: "2 + 2 * l \<le> c"
    and few: "\<forall>k selector els. elements b k selector = Inr els \<longrightarrow> length els \<le> n"
  shows "clock (snd (interact b seen w)) \<le> clock w + (3 * l + 2 * (real n * c))"
proof -
  from lat have "real (latency b 0) / 1000 \<le> l" by blast
  then have l: "0 \<le> l" by (rule order_trans [rotated]) simp
  with c have "0 \<le> c" by simp
  then have nc: "0 \<le> real n * c" by simp
  let ?w1 = "suspend b 0 w"
  have s1: "clock ?w1 \<le> clock w + l" by (rule suspend_duration [OF lat])
  show ?thesis
  proof (cases "elements b (awaits w) ''button''")
    case (Inl e)
    then have "snd (interact b seen w) = ?w1" by (simp add: interact_def find_all_def)
    with s1 l nc show ?thesis by simp
  next
    case (Inr buttons)
    with few have "length buttons \<le> n" by blast
    let ?w2 = "click_each b buttons ?w1"
    have s2: "clock ?w2 \<le> clock ?w1 + real n * c"
      by (rule click_each_duration_le [OF lat c \<open>length buttons \<le> n\<close>])
    let ?w3 = "suspend b 0 ?w2"
    have s3: "clock ?w3 \<le> clock ?w2 + l" by (rule suspend_duration [OF lat])
    show ?thesis
    proof (cases "elements b (awaits ?w2) ''input[type=checkbox]''")
      case (Inl e)
      with Inr have "snd (interact b seen w) = ?w3" by (simp add: interact_def find_all_def)
      with s1 s2 s3 l nc show ?thesis by simp
    next
      case right: (Inr checkboxes)
      with few have "length checkboxes \<le> n" by blast
      let ?w4 = "click_each b checkboxes ?w3"
      have s4: "clock ?w4 \<le> clock ?w3 + real n * c"
        by (rule click_each_duration_le [OF lat c \<open>length checkboxes \<le> n\<close>])
      have s5: "clock (suspend b 0 ?w4) \<le> clock ?w4 + l" by (rule suspend_duration [OF lat])
      from Inr right have "snd (interact b seen w) = suspend b 0 ?w4"
        by (simp add: interact_def find_all_def get_cookies_def split: sum.splits)
      with s1 s2 s3 s4 s5 show ?thesis by simp
    qed
  qed
qed

lemma latency_bound: "\<forall>k. latency b k \<le> L \<Longrightarrow> \<forall>k. real (latency b k) / 1000 \<le> real L / 1000"
  by (simp add: divide_right_mono)

lemma interact_duration:
  assumes lat: "\<forall>k. latency b k \<le> L"
    and few: "\<forall>k selector els. elements b k selector = Inr els \<longrightarrow> length els \<le> n"
  shows "clock (snd (interact b seen w))
    \<le> clock w + 4 * real n + (3 + 4 * real n) * real L / 1000"
proof -
  have "clock (snd (interact b seen w))
      \<le> clock w + (3 * (real L / 1000) + 2 * (real n * (2 + 2 * (real L / 1000))))"
    by (rule interact_duration_aux [OF latency_bound [OF lat] order_refl few])
  moreover have "3 * (real L / 1000) + 2 * (real n * (2 + 2 * (real L / 1000)))
      = 4 * real n + (3 + 4 * real n) * real L / 1000"
    by (simp add: algebra_simps)
  ultimately show ?thesis by simp
qed

lemma await_cookie_bounded:
  assumes lat: "\<forall>k. latency b k \<le> L"
    and "await_cookie b timeout (clock w) seen w = (Inr (cookies', None), w')"
  shows "clock w' - clock w < max 0 (real_of_int timeout) + 1 + 2 * real L / 1000"
proof -
  from await_cookie_overshoot [OF assms(2)]
  consider "w' = w" | k where "clock w' - clock w
      < real_of_int timeout + 1 + real (latency b k) / 1000 + real (latency b (k + 1)) / 1000"
    by blast
  then show ?thesis
  proof cases
    case 1
    have "(0::real) \<le> 2 * real L / 1000" by simp
    with 1 show ?thesis by simp
  next
    case 2
    have "real (latency b k) / 1000 \<le> real L / 1000"
        "real (latency b (k + 1)) / 1000 \<le> real L / 1000"
      using latency_bound [OF lat] by blast+
    with 2 show ?thesis by simp
  qed
qed

lemma never_cleared_run:
  assumes nc: "never_cleared b"
  shows "\<exists>cookies cookies' w3.
    cookie_jar b (awaits w + 1) = Inr cookies \<and>
    await_cookie b timeout (clock (suspend b 0 (suspend b 0 w))) cookies
      (suspend b 0 (suspend b 0 w)) = (Inr (cookies', None), w3) \<and>
    solve_cloudflare b url timeout w
      = (error_result ''Failed to retrieve cf_clearance cookie''
           (py_round (clock (suspend b 0 (snd (interact b cookies' w3))) - clock w) 3),
         suspend b 0 (snd (interact b cookies' w3)))"
proof -
  let ?w2 = "suspend b 0 (suspend b 0 w)"
  from nc have nav: "navigate b (awaits w) = None" by (simp add: never_cleared_def)
  from nc obtain cs where cs: "cookie_jar b (awaits w + 1) = Inr cs"
      "extract_clearance_cookie cs = None"
    unfolding never_cleared_def by blast
  from await_cookie_never_cleared [OF nc, of timeout "clock ?w2" cs ?w2]
  obtain cs1 w3 where a: "await_cookie b timeout (clock ?w2) cs ?w2 = (Inr (cs1, None), w3)"
    by (metis prod.collapse)
  let ?w4 = "snd (interact b cs1 w3)"
  have "snd (fst (interact b cs1 w3)) = None"
    by (rule interact_never_cleared [OF nc])
  then have i: "fst (interact b cs1 w3) = (fst (fst (interact b cs1 w3)), None)"
    by (metis prod.collapse)
  have ch: "challenge b timeout cs ?w2 = (Inr (fst (fst (interact b cs1 w3)), None), ?w4)"
    using challenge_sweeps [OF a] i by simp
  from nc obtain ua where ua: "reported_user_agent b (awaits ?w4) = Inr ua"
    unfolding never_cleared_def by blast
  have "solve_cloudflare b url timeout w
      = (error_result ''Failed to retrieve cf_clearance cookie''
           (py_round (clock (suspend b 0 ?w4) - clock w) 3), suspend b 0 ?w4)"
    using after_challenge [OF nav cs ch] ua by simp
  with cs(1) a show ?thesis by blast
qed

lemma never_cleared_bounded:
  assumes nc: "never_cleared b" and lat: "\<forall>k. latency b k \<le> L"
    and few: "\<forall>k selector els. elements b k selector = Inr els \<longrightarrow> length els \<le> n"
  shows "real_of_int timeout \<le> clock (snd (solve_cloudflare b url timeout w)) - clock w"
    and "clock (snd (solve_cloudflare b url timeout w)) - clock w
      < max 0 (real_of_int timeout) + 1 + 4 * real n + (8 + 4 * real n) * real L / 1000"
    and "fst (solve_cloudflare b url timeout w)
      = error_result ''Failed to retrieve cf_clearance cookie''
          (py_round (clock (snd (solve_cloudflare b url timeout w)) - clock w) 3)"
    and "real_of_int timeout
      \<le> py_round (clock (snd (solve_cloudflare b url timeout w)) - clock w) 3"
    and "py_round (clock (snd (solve_cloudflare b url timeout w)) - clock w) 3
      < max 0 (real_of_int timeout) + 1 + 4 * real n + (8 + 4 * real n) * real L / 1000 + 1 / 2000"
proof -
  let ?w2 = "suspend b 0 (suspend b 0 w)"
  from never_cleared_run [OF nc, of w timeout url]
  obtain cs cs1 w3 where
    a: "await_cookie b timeout (clock ?w2) cs ?w2 = (Inr (cs1, None), w3)" and
    r: "solve_cloudflare b url timeout w
      = (error_result ''Failed to retrieve cf_clearance cookie''
           (py_round (clock (suspend b 0 (snd (interact b cs1 w3))) - clock w) 3),
         suspend b 0 (snd (interact b cs1 w3)))"
    by blast
  let ?w4 = "snd (interact b cs1 w3)"
  define l where "l = real L / 1000"
  have lat': "\<forall>k. real (latency b k) / 1000 \<le> l"
    unfolding l_def by (rule latency_bound [OF lat])
  have n1: "clock (suspend b 0 w) \<le> clock w + l" by (rule suspend_duration [OF lat'])
  have n2: "clock ?w2 \<le> clock (suspend b 0 w) + l" by (rule suspend_duration [OF lat'])
  have p: "clock w3 - clock ?w2 < max 0 (real_of_int timeout) + 1 + 2 * l"
    using await_cookie_bounded [OF lat a] by (simp add: l_def)
  have sw: "clock ?w4 \<le> clock w3 + 4 * real n + (3 + 4 * real n) * l"
    using interact_duration [OF lat few, of cs1 w3] by (simp add: l_def)
  have u: "clock (suspend b 0 ?w4) \<le> clock ?w4 + l" by (rule suspend_duration [OF lat'])
  have e: "(3 + 4 * real n) * l + 5 * l = (8 + 4 * real n) * l"
    by (simp add: algebra_simps)
  from n1 n2 p sw u have "clock (suspend b 0 ?w4) - clock w
      < max 0 (real_of_int timeout) + 1 + 4 * real n + ((3 + 4 * real n) * l + 5 * l)"
    by linarith
  then have up: "clock (suspend b 0 ?w4) - clock w
      < max 0 (real_of_int timeout) + 1 + 4 * real n + (8 + 4 * real n) * real L / 1000"
    unfolding e by (simp add: l_def)
  have t: "real_of_int timeout \<le> clock w3 - clock ?w2"
    using a by (rule await_cookie_timeout)
  have m1: "clock w \<le> clock ?w2" by (simp add: suspend_def)
  have m2: "clock w3 \<le> clock ?w4" by (rule interact_clock)
  have m3: "clock ?w4 \<le> clock (suspend b 0 ?w4)" by (simp add: suspend_def)
  from t m1 m2 m3 have low: "real_of_int timeout \<le> clock (suspend b 0 ?w4) - clock w"
    by linarith
  from r low show "real_of_int timeout \<le> clock (snd (solve_cloudflare b url timeout w)) - clock w"
    by simp
  from r up show "clock (snd (solve_cloudflare b url timeout w)) - clock w
      < max 0 (real_of_int timeout) + 1 + 4 * real n + (8 + 4 * real n) * real L / 1000"
    by simp
  from r show "fst (solve_cloudflare b url timeout w)
      = error_result ''Failed to retrieve cf_clearance cookie''
          (py_round (clock (snd (solve_cloudflare b url timeout w)) - clock w) 3)"
    by simp
  from low have "real_of_int timeout \<le> py_round (clock (suspend b 0 ?w4) - clock w) 3"
    by (rule py_round_ge_int)
  with r show "real_of_int timeout
      \<le> py_round (clock (snd (solve_cloudflare b url timeout w)) - clock w) 3"
    by simp
  have "py_round (clock (suspend b 0 ?w4) - clock w) 3
      \<le> clock (suspend b 0 ?w4) - clock w + 1 / 2000"
    by (rule py_round_le)
  with up have "py_round (clock (suspend b 0 ?w4) - clock w) 3
      < max 0 (real_of_int timeout) + 1 + 4 * real n + (8 + 4 * real n) * real L / 1000 + 1 / 2000"
    by linarith
  with r show "py_round (clock (snd (solve_cloudflare b url timeout w)) - clock w) 3
      < max 0 (real_of_int timeout) + 1 + 4 * real n + (8 + 4 * real n) * real L / 1000 + 1 / 2000"
    by simp
qed

lemma never_cleared_phases:
  assumes nc: "never_cleared b"
  shows "\<exists>cookies cookies' w3.
    cookie_jar b (awaits w + 1) = Inr cookies \<and>
    await_cookie b timeout (clock (suspend b 0 (suspend b 0 w))) cookies
      (suspend b 0 (suspend b 0 w)) = (Inr (cookies', None), w3) \<and>
    solve_cloudflare b url timeout w
      = (error_result ''Failed to retrieve cf_clearance cookie''
           (py_round (clock (suspend b 0 (snd (interact b cookies' w3))) - clock w) 3),
         suspend b 0 (snd (interact b cookies' w3))) \<and>
    clock (suspend b 0 (suspend b 0 w)) - clock w
      = real (latency b (awaits w)) / 1000 + real (latency b (awaits w + 1)) / 1000 \<and>
    real_of_int timeout \<le> clock w3 - clock (suspend b 0 (suspend b 0 w)) \<and>
    (w3 = suspend b 0 (suspend b 0 w) \<or>
     (\<exists>k. clock w3 - clock (suspend b 0 (suspend b 0 w))
        < real_of_int timeout + 1 + real (latency b k) / 1000 + real (latency b (k + 1)) / 1000)) \<and>
    clock w3 \<le> clock (snd (interact b cookies' w3)) \<and>
    clock (suspend b 0 (snd (interact b cookies' w3))) - clock (snd (interact b cookies' w3))
      = real (latency b (awaits (snd (interact b cookies' w3)))) / 1000 \<and>
    real_of_int timeout \<le> py_round (clock (suspend b 0 (snd (interact b cookies' w3))) - clock w) 3"
proof -
  let ?w2 = "suspend b 0 (suspend b 0 w)"
  from never_cleared_run [OF nc, of w timeout url]
  obtain cs cs1 w3 where
    c: "cookie_jar b (awaits w + 1) = Inr cs" and
    a: "await_cookie b timeout (clock ?w2) cs ?w2 = (Inr (cs1, None), w3)" and
    r: "solve_cloudflare b url timeout w
      = (error_result ''Failed to retrieve cf_clearance cookie''
           (py_round (clock (suspend b 0 (snd (interact b cs1 w3))) - clock w) 3),
         suspend b 0 (snd (interact b cs1 w3)))"
    by blast
  let ?w4 = "snd (interact b cs1 w3)"
  have n: "clock ?w2 - clock w
      = real (latency b (awaits w)) / 1000 + real (latency b (awaits w + 1)) / 1000"
    by (simp add: suspend_def)
  have t: "real_of_int timeout \<le> clock w3 - clock ?w2"
    using a by (rule await_cookie_timeout)
  have o: "w3 = ?w2 \<or> (\<exists>k. clock w3 - clock ?w2
        < real_of_int timeout + 1 + real (latency b k) / 1000 + real (latency b (k + 1)) / 1000)"
    using a by (rule await_cookie_overshoot)
  have m1: "clock w \<le> clock ?w2" by (simp add: suspend_def)
  have m2: "clock w3 \<le> clock ?w4" by (rule interact_clock)
  have u: "clock (suspend b 0 ?w4) - clock ?w4 = real (latency b (awaits ?w4)) / 1000"
    by (simp add: suspend_def)
  have m3: "clock ?w4 \<le> clock (suspend b 0 ?w4)" by (simp add: suspend_def)
  from t m1 m2 m3 have "real_of_int timeout \<le> clock (suspend b 0 ?w4) - clock w"
    by linarith
  then have late: "real_of_int timeout \<le> py_round (clock (suspend b 0 ?w4) - clock w) 3"
    by (rule py_round_ge_int)
  from c a r n t o m2 u late show ?thesis by blast
qed

lemma never_cleared_within:
  assumes nc: "never_cleared b" and lat: "\<forall>k. latency b k \<le> L"
  shows "\<exists>cookies cookies' w3.
    cookie_jar b (awaits w + 1) = Inr cookies \<and>
    await_cookie b timeout (clock (suspend b 0 (suspend b 0 w))) cookies
      (suspend b 0 (suspend b 0 w)) = (Inr (cookies', None), w3) \<and>
    snd (solve_cloudflare b url timeout w) = suspend b 0 (snd (interact b cookies' w3)) \<and>
    clock (suspend b 0 (snd (interact b cookies' w3))) - clock w
      < max 0 (real_of_int timeout) + 1 + 5 * real L / 1000
        + (clock (snd (interact b cookies' w3)) - clock w3)"
proof -
  let ?w2 = "suspend b 0 (suspend b 0 w)"
  from never_cleared_run [OF nc, of w timeout url]
  obtain cs cs1 w3 where
    c: "cookie_jar b (awaits w + 1) = Inr cs" and
    a: "await_cookie b timeout (clock ?w2) cs ?w2 = (Inr (cs1, None), w3)" and
    r: "solve_cloudflare b url timeout w
      = (error_result ''Failed to retrieve cf_clearance cookie''
           (py_round (clock (suspend b 0 (snd (interact b cs1 w3))) - clock w) 3),
         suspend b 0 (snd (interact b cs1 w3)))"
    by blast
  let ?w4 = "snd (interact b cs1 w3)"
  define l where "l = real L / 1000"
  have lat': "\<forall>k. real (latency b k) / 1000 \<le> l"
    unfolding l_def by (rule latency_bound [OF lat])
  have n1: "clock (suspend b 0 w) \<le> clock w + l" by (rule suspend_duration [OF lat'])
  have n2: "clock ?w2 \<le> clock (suspend b 0 w) + l" by (rule suspend_duration [OF lat'])
  have p: "clock w3 - clock ?w2 < max 0 (real_of_int timeout) + 1 + 2 * l"
    using await_cookie_bounded [OF lat a] by (simp add: l_def)
  have u: "clock (suspend b 0 ?w4) \<le> clock ?w4 + l" by (rule suspend_duration [OF lat'])
  from n1 n2 p u have "clock (suspend b 0 ?w4) - clock w
      < max 0 (real_of_int timeout) + 1 + 5 * l + (clock ?w4 - clock w3)"
    by linarith
  then have "clock (suspend b 0 ?w4) - clock w
      < max 0 (real_of_int timeout) + 1 + 5 * real L / 1000 + (clock ?w4 - clock w3)"
    by (simp add: l_def)
  with c a r show ?thesis by auto
qed

section \<open>The order of the ready queue\<close>

lemma ahead_mono: "B \<subseteq> B' \<Longrightarrow> ahead B q \<Longrightarrow> ahead B' q"
proof (induction q arbitrary: B B')
  case Nil
  show ?case by simp
next
  case (Cons x q)
  show ?case
  proof (cases x)
    case (Solve_request req)
    with Cons show ?thesis by auto
  next
    case (Result_request i known)
    with Cons show ?thesis by auto
  next
    case (First_block i)
    from Cons.prems(1) have sub: "insert i B \<subseteq> insert i B'" by auto
    from Cons.prems(2) First_block have "ahead (insert i B) q" by simp
    with sub have "ahead (insert i B') q" by (rule Cons.IH)
    with First_block show ?thesis by simp
  qed
qed

lemma ahead_append:
  "ahead B (q @ [x]) \<longleftrightarrow>
     ahead B q \<and>
     (case x of
        Result_request i known \<Rightarrow>
          known \<longrightarrow> (\<exists>y. i = Some y \<and> (y \<in> B \<or> First_block y \<in> set q))
      | _ \<Rightarrow> True)"
proof (induction q arbitrary: B)
  case Nil
  show ?case by (cases x) auto
next
  case (Cons c q)
  show ?case
  proof (cases c)
    case (Solve_request req)
    with Cons show ?thesis by (cases x) auto
  next
    case (Result_request i known)
    with Cons show ?thesis by (cases x) auto
  next
    case (First_block i)
    with Cons [of "insert i B"] show ?thesis by (cases x) auto
  qed
qed

lemma solve_rejected:
  "snd (fst (solve req uuid4 s)) \<noteq> 202 \<Longrightarrow> snd (solve req uuid4 s) = s"
  by (auto simp: solve_def Let_def split: if_splits)

lemma loop_ok_start: "loop_ok \<lparr>ready = [], srv = startup m, evicted = {||}\<rparr>"
  by (simp add: loop_ok_def startup_def)

lemma loop_ok_step:
  assumes "loop_step L L'" and "loop_ok L"
  shows "loop_ok L'"
  using assms
proof (induction rule: loop_step.induct)
  case (solve_arrives L req)
  then show ?case by (auto simp: loop_ok_def ahead_append)
next
  case (result_arrives L i)
  have "\<exists>y. i = Some y \<and> (y \<in> begun_tasks (srv L) \<or> First_block y \<in> set (ready L))"
    if "issued i (srv L)"
  proof -
    from that obtain y where y: "i = Some y" "y |\<in>| fmdom (tasks (srv L))"
      by (auto simp: issued_def split: option.splits)
    then obtain t where t: "fmlookup (tasks (srv L)) y = Some t"
      by (auto simp: fmlookup_dom_iff)
    show ?thesis
    proof (cases "task_stage t = Scheduled")
      case True
      with t result_arrives.prems have "First_block y \<in> set (ready L)"
        by (auto simp: loop_ok_def)
      with y show ?thesis by blast
    next
      case False
      with t have "y \<in> begun_tasks (srv L)" by (auto simp: begun_tasks_def)
      with y show ?thesis by blast
    qed
  qed
  with result_arrives show ?case by (auto simp: loop_ok_def ahead_append)
next
  case (solve_handled L req rest uuid4)
  let ?s = "srv L" and ?s' = "snd (solve req uuid4 (srv L))"
  from solve_handled.hyps(2) have fresh: "fmlookup (tasks ?s) uuid4 = None"
    by (auto simp: fmlookup_dom_iff)
  from solve_handled have sched: "\<And>i t. fmlookup (tasks ?s) i = Some t \<Longrightarrow>
      task_stage t = Scheduled \<Longrightarrow> First_block i \<in> set rest"
    by (auto simp: loop_ok_def)
  from solve_handled have order: "ahead (begun_tasks ?s) rest"
    by (auto simp: loop_ok_def)
  from solve_handled have entries: "\<And>i t. fmlookup (tasks ?s) i = Some t \<Longrightarrow>
      task_stage t \<noteq> Scheduled \<Longrightarrow> task_stage t \<noteq> Crashed \<Longrightarrow> i |\<notin>| evicted L \<Longrightarrow>
      fmlookup (task_results ?s) i \<noteq> None"
    by (auto simp: loop_ok_def)
  show ?case
  proof (cases "snd (fst (solve req uuid4 ?s)) = 202")
    case False
    then have same: "?s' = ?s" by (rule solve_rejected)
    with False sched order entries show ?thesis
      by (auto simp: loop_ok_def)
  next
    case True
    have other: "fmlookup (tasks ?s') i = fmlookup (tasks ?s) i" if "i \<noteq> uuid4" for i
      using that by (rule solve_tasks_other)
    have new: "task_stage t = Scheduled" if "fmlookup (tasks ?s') uuid4 = Some t" for t
      using solve_tasks_new [OF that] fresh by simp
    have sub: "begun_tasks ?s \<subseteq> begun_tasks ?s'"
    proof
      fix i
      assume "i \<in> begun_tasks ?s"
      then obtain t where t: "fmlookup (tasks ?s) i = Some t" "task_stage t \<noteq> Scheduled"
        by (auto simp: begun_tasks_def)
      with fresh have "i \<noteq> uuid4" by auto
      with t other show "i \<in> begun_tasks ?s'" by (auto simp: begun_tasks_def)
    qed
    have "ahead (begun_tasks ?s') (rest @ [First_block uuid4])"
      using ahead_mono [OF sub order] by (simp add: ahead_append)
    moreover have "First_block i \<in> set (rest @ [First_block uuid4])"
      if "fmlookup (tasks ?s') i = Some t" "task_stage t = Scheduled" for i t
    proof (cases "i = uuid4")
      case True
      then show ?thesis by simp
    next
      case False
      with that other have "fmlookup (tasks ?s) i = Some t" by simp
      then have "First_block i \<in> set rest" using that(2) by (rule sched)
      then show ?thesis by simp
    qed
    moreover have "fmlookup (task_results ?s') i \<noteq> None"
      if "fmlookup (tasks ?s') i = Some t" "task_stage t \<noteq> Scheduled" "task_stage t \<noteq> Crashed"
        "i |\<notin>| evicted L" for i t
    proof (cases "i = uuid4")
      case True
      with that(1,2) new show ?thesis by blast
    next
      case False
      with that other have "fmlookup (tasks ?s) i = Some t" by simp
      then have "fmlookup (task_results ?s) i \<noteq> None" using that(2,3,4) by (rule entries)
      then show ?thesis by simp
    qed
    ultimately show ?thesis using True
      by (simp add: loop_ok_def; blast?)
  qed
next
  case (result_handled L i known rest)
  then show ?case by (auto simp: loop_ok_def)
next
  case (first_block_run L task_id rest t now latest pick ctor)
  let ?s = "srv L" and ?s' = "task_begin now latest pick ctor task_id t (srv L)"
  from first_block_run have sched: "\<And>i t. fmlookup (tasks ?s) i = Some t \<Longrightarrow>
      task_stage t = Scheduled \<Longrightarrow> i \<noteq> task_id \<Longrightarrow> First_block i \<in> set rest"
    by (auto simp: loop_ok_def)
  from first_block_run have order: "ahead (insert task_id (begun_tasks ?s)) rest"
    by (auto simp: loop_ok_def)
  from first_block_run have entries: "\<And>i t. fmlookup (tasks ?s) i = Some t \<Longrightarrow>
      task_stage t \<noteq> Scheduled \<Longrightarrow> task_stage t \<noteq> Crashed \<Longrightarrow> i |\<notin>| evicted L \<Longrightarrow>
      fmlookup (task_results ?s) i \<noteq> None"
    by (auto simp: loop_ok_def)
  have sub: "insert task_id (begun_tasks ?s) \<subseteq> begun_tasks ?s'"
    by (auto simp: begun_tasks_def task_begin_tasks)
  have "ahead (begun_tasks ?s') rest"
    by (rule ahead_mono [OF sub order])
  moreover have "First_block i \<in> set rest"
    if "fmlookup (tasks ?s') i = Some t'" "task_stage t' = Scheduled" for i t'
    using that sched by (auto simp: task_begin_tasks split: if_splits)
  moreover have "fmlookup (task_results ?s') i \<noteq> None"
    if "fmlookup (tasks ?s') i = Some t'" "task_stage t' \<noteq> Scheduled" "task_stage t' \<noteq> Crashed"
      "i |\<notin>| evicted L" for i t'
    using that entries by (auto simp: task_begin_tasks task_begin_results split: if_splits)
  ultimately show ?case
    by (simp add: loop_ok_def; blast?)
next
  case (woken L s')
  let ?s = "srv L"
  from woken have sched: "\<And>i t. fmlookup (tasks ?s) i = Some t \<Longrightarrow>
      task_stage t = Scheduled \<Longrightarrow> First_block i \<in> set (ready L)"
    by (auto simp: loop_ok_def)
  from woken have order: "ahead (begun_tasks ?s) (ready L)"
    by (auto simp: loop_ok_def)
  from woken have entries: "\<And>i t. fmlookup (tasks ?s) i = Some t \<Longrightarrow>
      task_stage t \<noteq> Scheduled \<Longrightarrow> task_stage t \<noteq> Crashed \<Longrightarrow> i |\<notin>| evicted L \<Longrightarrow>
      fmlookup (task_results ?s) i \<noteq> None"
    by (auto simp: loop_ok_def)
  have before: "\<exists>t. fmlookup (tasks ?s) i = Some t" if "fmlookup (tasks s') i = Some t'" for i t'
  proof -
    from that have "i |\<in>| fmdom (tasks s')" by (auto simp: fmlookup_dom_iff)
    with woken.hyps(2) have "i |\<in>| fmdom (tasks ?s)" by simp
    then show ?thesis by (auto simp: fmlookup_dom_iff)
  qed
  have after: "\<exists>t'. fmlookup (tasks s') i = Some t'" if "fmlookup (tasks ?s) i = Some t" for i t
  proof -
    from that have "i |\<in>| fmdom (tasks ?s)" by (auto simp: fmlookup_dom_iff)
    with woken.hyps(2) have "i |\<in>| fmdom (tasks s')" by simp
    then show ?thesis by (auto simp: fmlookup_dom_iff)
  qed
  have sub: "begun_tasks ?s \<subseteq> begun_tasks s'"
  proof
    fix i
    assume "i \<in> begun_tasks ?s"
    then obtain t where t: "fmlookup (tasks ?s) i = Some t" "task_stage t \<noteq> Scheduled"
      by (auto simp: begun_tasks_def)
    from after [OF t(1)] obtain t' where t': "fmlookup (tasks s') i = Some t'" by blast
    from stage_never_rescheduled [OF woken.hyps(1) t t'] t'
    show "i \<in> begun_tasks s'" by (auto simp: begun_tasks_def)
  qed
  have "ahead (begun_tasks s') (ready L)"
    by (rule ahead_mono [OF sub order])
  moreover have "First_block i \<in> set (ready L)"
    if "fmlookup (tasks s') i = Some t'" "task_stage t' = Scheduled" for i t'
  proof -
    from before [OF that(1)] obtain t where t: "fmlookup (tasks ?s) i = Some t" by blast
    have "task_stage t = Scheduled"
      using stage_never_rescheduled [OF woken.hyps(1) t _ that(1)] that(2) by blast
    with t show ?thesis by (blast intro: sched)
  qed
  moreover have "fmlookup (task_results s') i \<noteq> None"
    if "fmlookup (tasks s') i = Some t'" "task_stage t' \<noteq> Scheduled" "task_stage t' \<noteq> Crashed"
      "i |\<notin>| evicted L" "\<not> (i |\<in>| fmdom (task_results ?s) \<and> i |\<notin>| fmdom (task_results s'))"
    for i t'
  proof -
    from before [OF that(1)] obtain t where t: "fmlookup (tasks ?s) i = Some t" by blast
    have ns: "task_stage t \<noteq> Scheduled"
    proof
      assume "task_stage t = Scheduled"
      with t woken.hyps(3) have "fmlookup (tasks s') i = Some t" by blast
      with that(1,2) \<open>task_stage t = Scheduled\<close> show False by simp
    qed
    have nc: "task_stage t \<noteq> Crashed"
      using stage_progress [OF woken.hyps(1) t that(1)] that(3) by auto
    have "fmlookup (task_results ?s) i \<noteq> None"
      by (rule entries [OF t ns nc that(4)])
    then have "i |\<in>| fmdom (task_results ?s)" by (auto simp: fmlookup_dom_iff)
    with that(5) have "i |\<in>| fmdom (task_results s')" by blast
    then show ?thesis by (auto simp: fmlookup_dom_iff)
  qed
  ultimately show ?case
    by (simp add: loop_ok_def; blast?)
qed

lemma loop_step_srv:
  assumes "loop_step L L'"
  shows "srv L' = srv L \<or> step (srv L) (srv L')"
  using assms
proof (induction rule: loop_step.induct)
  case (solve_handled L req rest uuid4)
  then show ?case by (simp add: step.submitted)
next
  case (first_block_run L task_id rest t now latest pick ctor)
  then show ?case by (simp add: step.begun)
qed simp_all

lemma loop_reachable_srv: "loop_reachable m L \<Longrightarrow> reachable m (srv L)"
proof (induction rule: loop_reachable.induct)
  case (loop_starts max_tasks)
  show ?case by (simp add: reachable.at_startup)
next
  case (loop_goes_on max_tasks L L')
  from loop_step_srv [OF loop_goes_on.hyps(2)] loop_goes_on.IH show ?case
    by (auto intro: reachable.after_step)
qed

lemma loop_reachable_ok: "loop_reachable m L \<Longrightarrow> loop_ok L"
  by (induction rule: loop_reachable.induct) (auto intro: loop_ok_start loop_ok_step)

lemma asked_after_first_block:
  assumes "loop_reachable m L" and "ready L = Result_request (Some i) True # rest"
  shows "\<exists>t. fmlookup (tasks (srv L)) i = Some t \<and> task_stage t \<noteq> Scheduled"
proof -
  from assms(1) have "loop_ok L" by (rule loop_reachable_ok)
  then have "ahead (begun_tasks (srv L)) (ready L)" by (simp add: loop_ok_def)
  with assms(2) have "i \<in> begun_tasks (srv L)" by simp
  then show ?thesis by (simp add: begun_tasks_def)
qed

lemma asked_is_registered:
  assumes "loop_reachable m L" and "ready L = Result_request (Some i) True # rest"
    and "fmlookup (tasks (srv L)) i = Some t" and "task_stage t \<noteq> Crashed"
    and "i |\<notin>| evicted L"
  shows "fmlookup (task_results (srv L)) i \<noteq> None"
proof -
  from asked_after_first_block [OF assms(1,2)] assms(3) have "task_stage t \<noteq> Scheduled"
    by simp
  moreover from assms(1) have "loop_ok L" by (rule loop_reachable_ok)
  ultimately show ?thesis using assms(3,4,5) unfolding loop_ok_def by blast
qed

section \<open>The concrete runs are runs\<close>

lemma submitted_once_eq:
  "submitted_once = (startup 1)\<lparr>tasks := fmupd ''t1'' example_task fmempty\<rparr>"
  by (simp add: submitted_once_def solve_def Let_def example_request_def example_task_def
      startup_def fcard_fempty)

lemma submitted_twice_eq:
  "submitted_twice =
     (startup 1)\<lparr>tasks := fmupd ''t2'' example_task (fmupd ''t1'' example_task fmempty)\<rparr>"
  by (simp add: submitted_twice_def submitted_once_eq solve_def Let_def example_request_def
      example_task_def startup_def fcard_fempty)

lemma reachable_submitted_once: "reachable 1 submitted_once"
  unfolding submitted_once_def
  by (rule reachable.after_step [OF reachable.at_startup])
    (rule step.submitted, simp add: startup_def)

lemma reachable_submitted_twice: "reachable 1 submitted_twice"
  unfolding submitted_twice_def
  by (rule reachable.after_step [OF reachable_submitted_once])
    (rule step.submitted, simp add: submitted_once_eq)

lemma reachable_first_running: "reachable 1 first_running"
  unfolding first_running_def
  by (rule reachable.after_step [OF reachable_submitted_twice], rule step.begun)
    (simp_all add: submitted_twice_eq example_task_def)

lemma first_running_lookups:
  "fmlookup (tasks first_running) ''t2'' = Some example_task"
  "fmlookup (active_solvers first_running) ''t2'' = None"
  "fmdom (active_solvers first_running) = {|''t1''|}"
  "max_concurrent_tasks first_running = 1"
  "fmlookup (task_results first_running) ''t1'' =
     Some \<lparr>status = Some ''processing'', timestamp = Some 0, elapsed_time = None,
       reason = None, cf_clearance = None, user_agent = None, all_cookies = None\<rparr>"
  by (auto simp: first_running_def submitted_twice_eq task_begin_def Let_def example_task_def
      startup_def at_stage_def)

lemma reachable_both_running: "reachable 1 both_running"
  unfolding both_running_def
  by (rule reachable.after_step [OF reachable_first_running], rule step.begun)
    (simp_all add: first_running_lookups example_task_def)

lemma both_running_lookups:
  "fmdom (active_solvers both_running) = {|''t1'', ''t2''|}"
  "max_concurrent_tasks both_running = 1"
  "map_option status (fmlookup (task_results both_running) ''t1'') = Some (Some ''processing'')"
  "map_option status (fmlookup (task_results both_running) ''t2'') = Some (Some ''processing'')"
  by (auto simp: both_running_def first_running_def submitted_twice_eq task_begin_def Let_def
      example_task_def startup_def at_stage_def)

lemma py_round_0: "py_round 0 3 = 0"
  by (simp add: py_round_def)

lemma cleared_result_eq:
  "cleared_result = success_result 0 ''token'' ''Mozilla/5.0 Chrome/120.0'' [clearance]"
  by (simp add: cleared_result_def solve_cloudflare_def solve_body_def driver_get_def
      get_cookies_def get_user_agent_def suspend_def cleared_page_def clearance_def py_round_0)

lemma cleared_result_stamped: "success_entry (cleared_result\<lparr>timestamp := Some 5\<rparr>)"
  by (simp add: cleared_result_eq stamped_shaped)

lemma first_running_task:
  "fmlookup (tasks first_running) ''t1'' = Some (example_task\<lparr>task_stage := Starting\<rparr>)"
  by (simp add: first_running_def task_begin_tasks example_task_def)

lemma first_solving_lookups:
  "fmlookup (tasks first_solving) ''t1'' = Some (example_task\<lparr>task_stage := Solving\<rparr>)"
  "fmlookup (task_results first_solving) ''t1'' = fmlookup (task_results first_running) ''t1''"
  "fmlookup (active_solvers first_solving) ''t1'' = fmlookup (active_solvers first_running) ''t1''"
  by (simp_all add: first_solving_def task_started_tasks task_started_results task_started_active)

lemma first_stopping_eq:
  "first_stopping = task_solved 5 (Inr cleared_result) ''t1'' (example_task\<lparr>task_stage := Solving\<rparr>) first_solving"
  by (simp add: first_stopping_def cleared_result_def example_task_def)

lemma first_stopping_lookups:
  "fmlookup (tasks first_stopping) ''t1'' = Some (example_task\<lparr>task_stage := Stopping\<rparr>)"
  "fmlookup (task_results first_stopping) ''t1'' = Some (cleared_result\<lparr>timestamp := Some 5\<rparr>)"
  "fmlookup (active_solvers first_stopping) ''t1'' = fmlookup (active_solvers first_running) ''t1''"
  by (simp_all add: first_stopping_eq task_solved_tasks task_solved_results first_solving_lookups)

lemma first_finished_lookups:
  "fmlookup (tasks first_finished) ''t1'' = Some (example_task\<lparr>task_stage := Finished\<rparr>)"
  "fmlookup (task_results first_finished) ''t1'' = Some (cleared_result\<lparr>timestamp := Some 5\<rparr>)"
  "fmlookup (active_solvers first_finished) ''t1'' = None"
  by (simp_all add: first_finished_def task_stopped_tasks task_stopped_results task_stopped_active
      first_stopping_lookups example_task_def)

lemma first_stop_failed_lookups:
  "fmlookup (task_results first_stop_failed) ''t1''
     = Some (task_error (Exception ''browser did not stop'') 0 6)"
  by (simp add: first_stop_failed_def task_stopped_results example_task_def)

lemma step_first_solving: "step first_running first_solving"
  unfolding first_solving_def
  by (rule step.started) (simp_all add: first_running_task)

lemma step_first_stopping: "step first_solving first_stopping"
  unfolding first_stopping_def
  by (rule step.solved) (simp_all add: first_solving_lookups)

lemma step_first_finished: "step first_stopping first_finished"
  unfolding first_finished_def
  by (rule step.stopped) (simp_all add: first_stopping_lookups)

lemma step_first_stop_failed: "step first_stopping first_stop_failed"
  unfolding first_stop_failed_def
  by (rule step.stopped) (simp_all add: first_stopping_lookups)

lemma reachable_first_stopping: "reachable 1 first_stopping"
  by (blast intro: reachable.after_step reachable_first_running step_first_solving
      step_first_stopping)

lemma reachable_first_finished: "reachable 1 first_finished"
  by (blast intro: reachable.after_step reachable_first_stopping step_first_finished)

lemma slow_page_simps:
  "latency slow_page k = (if k = 0 then 10000 else 0)"
  "navigate slow_page k = None"
  "cookie_jar slow_page k = Inr []"
  "elements slow_page k selector = Inr []"
  "click slow_page k el = None"
  "reported_user_agent slow_page k = Inr ''Mozilla/5.0 Chrome/120.0''"
  by (simp_all add: slow_page_def)

lemma cleared_page_simps:
  "latency cleared_page k = 0"
  "navigate cleared_page k = None"
  "cookie_jar cleared_page k = Inr [clearance]"
  "reported_user_agent cleared_page k = Inr ''Mozilla/5.0 Chrome/120.0''"
  by (simp_all add: cleared_page_def)

lemma refused_page_simps:
  "latency refused_page k = 250"
  "navigate refused_page k = Some (Exception ''net::ERR_CONNECTION_REFUSED'')"
  by (simp_all add: refused_page_def)

lemma broken_sweep_simps:
  "latency broken_sweep k = 0"
  "navigate broken_sweep k = None"
  "cookie_jar broken_sweep k = Inr []"
  "elements broken_sweep k selector = Inl (Exception ''DOM agent is not enabled'')"
  "reported_user_agent broken_sweep k = Inr ''Mozilla/5.0 Chrome/120.0''"
  by (simp_all add: broken_sweep_def)

lemma flaky_click_simps:
  "latency flaky_click k = 0"
  "navigate flaky_click k = None"
  "cookie_jar flaky_click k = (if k = 5 then Inr [clearance] else Inr [])"
  "elements flaky_click k selector = (if selector = ''button'' then Inr [7] else Inr [])"
  "click flaky_click k el = Some (Exception ''could not find position for element'')"
  "reported_user_agent flaky_click k = Inr ''Mozilla/5.0 Chrome/120.0''"
  by (simp_all add: flaky_click_def)

lemmas capability_defs =
  driver_get_def get_cookies_def find_all_def mouse_click_def get_user_agent_def sleep_def
  suspend_def

lemma never_cleared_slow_page: "never_cleared slow_page"
  by (simp add: never_cleared_def slow_page_simps)

lemma slow_page_wait:
  "await_cookie slow_page 3 10 [] \<lparr>clock = 10, awaits = 2\<rparr>
     = (Inr ([], None), \<lparr>clock = 13, awaits = 8\<rparr>)"
  by (simp add: await_cookie.simps [of slow_page 3 10] slow_page_simps capability_defs)

lemma slow_page_sweep:
  "interact slow_page [] \<lparr>clock = 13, awaits = 8\<rparr> = (([], None), \<lparr>clock = 13, awaits = 11\<rparr>)"
  by (simp add: interact_def slow_page_simps capability_defs)

lemma py_round_13: "py_round 13 3 = 13"
  by (simp add: py_round_def)

lemma slow_page_run:
  "solve_cloudflare slow_page ''https://example.com'' 3 \<lparr>clock = 0, awaits = 0\<rparr>
     = (error_result ''Failed to retrieve cf_clearance cookie'' 13, \<lparr>clock = 13, awaits = 12\<rparr>)"
  by (simp add: solve_cloudflare_def solve_body_def challenge_def interact_def
      await_cookie.simps [of slow_page 3 10] slow_page_simps capability_defs py_round_13)

lemma py_round_quarter: "py_round (1 / 4) 3 = 1 / 4"
  by (simp add: py_round_def)

lemma refused_page_run:
  "solve_cloudflare refused_page ''https://example.com'' 60 \<lparr>clock = 0, awaits = 0\<rparr>
     = (error_result ''net::ERR_CONNECTION_REFUSED'' (1 / 4), \<lparr>clock = 1 / 4, awaits = 1\<rparr>)"
  by (simp add: solve_cloudflare_def solve_body_def refused_page_simps capability_defs
      py_round_quarter)

lemma dropped_page_simps:
  "latency dropped_page k = 0"
  "navigate dropped_page k = None"
  "cookie_jar dropped_page k
     = (if k = 5 then Inl (Exception ''Connection to the browser was lost'') else Inr [])"
  "elements dropped_page k selector = Inr []"
  "click dropped_page k el = None"
  "reported_user_agent dropped_page k = Inr ''Mozilla/5.0 Chrome/120.0''"
  by (simp_all add: dropped_page_def)

lemma silent_page_simps:
  "latency silent_page k = 0"
  "navigate silent_page k = None"
  "cookie_jar silent_page k = Inr []"
  "elements silent_page k selector = (if selector = ''button'' then Inr []
     else Inl (Exception ''Node with given id does not exist''))"
  "click silent_page k el = None"
  "reported_user_agent silent_page k = Inl (Exception ''Target closed'')"
  by (simp_all add: silent_page_def)

lemma stale_page_simps:
  "latency stale_page k = 0"
  "navigate stale_page k = None"
  "cookie_jar stale_page k = (if k = 4 then Inl (Exception ''Cookie store is gone'') else Inr [])"
  "elements stale_page k selector = Inr []"
  "click stale_page k el = None"
  "reported_user_agent stale_page k = Inr ''Mozilla/5.0 Chrome/120.0''"
  by (simp_all add: stale_page_def)

lemma py_round_2: "py_round 2 3 = 2"
  by (simp add: py_round_def)

lemma py_round_6: "py_round 6 3 = 6"
  by (simp add: py_round_def)

lemma dropped_page_wait:
  "await_cookie dropped_page 5 0 [] \<lparr>clock = 0, awaits = 2\<rparr>
     = (Inl (Exception ''Connection to the browser was lost''), \<lparr>clock = 2, awaits = 6\<rparr>)"
  by (simp add: await_cookie.simps [of dropped_page 5 0] dropped_page_simps capability_defs)

lemma silent_page_sweep:
  "interact silent_page [] \<lparr>clock = 0, awaits = 2\<rparr> = (([], None), \<lparr>clock = 0, awaits = 4\<rparr>)"
  by (simp add: interact_def silent_page_simps capability_defs)

lemma silent_page_challenge:
  "challenge silent_page 0 [] \<lparr>clock = 0, awaits = 2\<rparr> = (Inr ([], None), \<lparr>clock = 0, awaits = 4\<rparr>)"
  by (simp add: challenge_def await_cookie.simps [of silent_page 0 0] silent_page_sweep)

lemma stale_page_sweep:
  "interact stale_page [] \<lparr>clock = 0, awaits = 2\<rparr> = (([], None), \<lparr>clock = 0, awaits = 5\<rparr>)"
  by (simp add: interact_def stale_page_simps capability_defs)

lemma stale_page_challenge:
  "challenge stale_page 0 [] \<lparr>clock = 0, awaits = 2\<rparr> = (Inr ([], None), \<lparr>clock = 0, awaits = 5\<rparr>)"
  by (simp add: challenge_def await_cookie.simps [of stale_page 0 0] stale_page_sweep)

lemma never_cleared_broken_sweep: "never_cleared broken_sweep"
  by (simp add: never_cleared_def broken_sweep_simps)

lemma broken_sweep_run:
  "solve_cloudflare broken_sweep ''https://example.com'' 2 \<lparr>clock = 0, awaits = 0\<rparr>
     = (error_result ''Failed to retrieve cf_clearance cookie'' 2, \<lparr>clock = 2, awaits = 8\<rparr>)"
  by (simp add: solve_cloudflare_def solve_body_def challenge_def interact_def
      await_cookie.simps [of broken_sweep 2 0] broken_sweep_simps capability_defs py_round_2)

lemma reachable_first_solving: "reachable 1 first_solving"
  by (blast intro: reachable.after_step reachable_first_running step_first_solving)

lemma step_first_raised: "step first_solving first_raised"
  unfolding first_raised_def
  by (rule step.raised) (simp_all add: first_solving_lookups)

lemma reachable_first_raised: "reachable 1 first_raised"
  by (blast intro: reachable.after_step reachable_first_solving step_first_raised)

lemma first_raised_lookups:
  "fmlookup (tasks first_raised) ''t1''
     = Some (example_task\<lparr>task_stage := Stopping, task_pending := Some (Exception ''resolver gave up'')\<rparr>)"
  "fmlookup (task_results first_raised) ''t1'' = fmlookup (task_results first_running) ''t1''"
  by (simp_all add: first_raised_def task_solved_tasks task_solved_results first_solving_lookups)

lemma once_running_lookups:
  "fmlookup (tasks once_running) i
     = (if i = ''t1'' then Some (example_task\<lparr>task_stage := Starting\<rparr>) else None)"
  "fmlookup (task_results once_running) i
     = (if i = ''t1''
        then Some \<lparr>status = Some ''processing'', timestamp = Some 0, elapsed_time = None,
               reason = None, cf_clearance = None, user_agent = None, all_cookies = None\<rparr>
        else None)"
  by (simp_all add: once_running_def task_begin_tasks task_begin_results submitted_once_eq
      example_task_def startup_def)

lemma once_solving_lookups:
  "fmlookup (tasks once_solving) i
     = (if i = ''t1'' then Some (example_task\<lparr>task_stage := Solving\<rparr>) else None)"
  "fmlookup (task_results once_solving) i = fmlookup (task_results once_running) i"
  by (simp_all add: once_solving_def task_started_tasks task_started_results once_running_lookups)

lemma once_stopping_lookups:
  "fmlookup (tasks once_stopping) i
     = (if i = ''t1'' then Some (example_task\<lparr>task_stage := Stopping\<rparr>) else None)"
  "fmlookup (task_results once_stopping) i
     = (if i = ''t1'' then Some (cleared_result\<lparr>timestamp := Some 5\<rparr>) else None)"
  by (simp_all add: once_stopping_def task_solved_tasks task_solved_results once_solving_lookups
      once_running_lookups cleared_result_def example_task_def)

lemma once_finished_lookups:
  "fmlookup (tasks once_finished) i
     = (if i = ''t1'' then Some (example_task\<lparr>task_stage := Finished\<rparr>) else None)"
  "fmlookup (task_results once_finished) i
     = (if i = ''t1'' then Some (cleared_result\<lparr>timestamp := Some 5\<rparr>) else None)"
  by (simp_all add: once_finished_def task_stopped_tasks task_stopped_results once_stopping_lookups
      example_task_def)

lemma once_swept_lookups:
  "fmlookup (tasks once_swept) i
     = (if i = ''t1'' then Some (example_task\<lparr>task_stage := Finished\<rparr>) else None)"
  "fmlookup (task_results once_swept) i = None"
  by (simp_all add: once_swept_def cleanup_tasks_lookup once_finished_lookups cleared_result_eq
      success_result_def)

lemma fmdom_by_lookup:
  "(\<And>i. fmlookup m i \<noteq> None \<longleftrightarrow> i |\<in>| A) \<Longrightarrow> fmdom m = A"
  by (rule fset_eqI) (simp add: fmlookup_dom_iff)

lemma once_domains:
  "fmdom (tasks submitted_once) = {|''t1''|}"
  "fmdom (tasks once_running) = {|''t1''|}"
  "fmdom (tasks once_solving) = {|''t1''|}"
  "fmdom (tasks once_stopping) = {|''t1''|}"
  "fmdom (tasks once_finished) = {|''t1''|}"
  "fmdom (tasks once_swept) = {|''t1''|}"
  "fmdom (task_results once_running) = {|''t1''|}"
  "fmdom (task_results once_solving) = {|''t1''|}"
  "fmdom (task_results once_stopping) = {|''t1''|}"
  "fmdom (task_results once_finished) = {|''t1''|}"
  "fmdom (task_results once_swept) = {||}"
  by (rule fmdom_by_lookup;
      simp add: submitted_once_eq once_running_lookups once_solving_lookups
        once_stopping_lookups once_finished_lookups once_swept_lookups)+

lemma loop_woken:
  assumes "loop_reachable m \<lparr>ready = q, srv = s, evicted = ev\<rparr>" and "step s s'"
    and "fmdom (tasks s') = fmdom (tasks s)"
    and "\<forall>i t. fmlookup (tasks s) i = Some t \<and> task_stage t = Scheduled \<longrightarrow>
           fmlookup (tasks s') i = Some t"
  shows "loop_reachable m
    \<lparr>ready = q, srv = s', evicted = ev |\<union>| (fmdom (task_results s) |-| fmdom (task_results s'))\<rparr>"
  using loop_reachable.loop_goes_on [OF assms(1)
      loop_step.woken [of "\<lparr>ready = q, srv = s, evicted = ev\<rparr>" s']] assms(2,3,4)
  by simp

lemma loop_asked:
  assumes "loop_reachable m \<lparr>ready = q, srv = s, evicted = ev\<rparr>" and "i |\<in>| fmdom (tasks s)"
  shows "loop_reachable m \<lparr>ready = q @ [Result_request (Some i) True], srv = s, evicted = ev\<rparr>"
  using loop_reachable.loop_goes_on [OF assms(1)
      loop_step.result_arrives [of "\<lparr>ready = q, srv = s, evicted = ev\<rparr>" "Some i"]] assms(2)
  by (simp add: issued_def)

lemma loop_submitted_once:
  "loop_reachable 1 \<lparr>ready = [First_block ''t1''], srv = submitted_once, evicted = {||}\<rparr>"
proof -
  have "loop_reachable 1 \<lparr>ready = [Solve_request example_request], srv = startup 1, evicted = {||}\<rparr>"
    using loop_reachable.loop_goes_on [OF loop_reachable.loop_starts [of 1]
        loop_step.solve_arrives [of _ example_request]]
    by simp
  from loop_reachable.loop_goes_on [OF this
      loop_step.solve_handled [of _ example_request "[]" "''t1''"]]
  show ?thesis
    by (simp add: submitted_once_def startup_def solve_def Let_def example_request_def fcard_fempty)
qed

lemma loop_once_running: "loop_reachable 1 \<lparr>ready = [], srv = once_running, evicted = {||}\<rparr>"
  using loop_reachable.loop_goes_on [OF loop_submitted_once
      loop_step.first_block_run [of _ "''t1''" "[]" example_task 0 "[]" 0 "Inr []"]]
  by (simp add: once_running_def submitted_once_eq example_task_def)

lemma loop_once_solving: "loop_reachable 1 \<lparr>ready = [], srv = once_solving, evicted = {||}\<rparr>"
proof -
  have "step once_running once_solving"
    unfolding once_solving_def by (rule step.started) (simp_all add: once_running_lookups)
  from loop_woken [OF loop_once_running this] show ?thesis
    by (simp add: once_domains once_running_lookups once_solving_lookups)
qed

lemma loop_once_stopping: "loop_reachable 1 \<lparr>ready = [], srv = once_stopping, evicted = {||}\<rparr>"
proof -
  have "step once_solving once_stopping"
    unfolding once_stopping_def by (rule step.solved) (simp_all add: once_solving_lookups)
  from loop_woken [OF loop_once_solving this] show ?thesis
    by (simp add: once_domains once_solving_lookups once_stopping_lookups)
qed

lemma loop_once_finished: "loop_reachable 1 \<lparr>ready = [], srv = once_finished, evicted = {||}\<rparr>"
proof -
  have "step once_stopping once_finished"
    unfolding once_finished_def by (rule step.stopped) (simp_all add: once_stopping_lookups)
  from loop_woken [OF loop_once_stopping this] show ?thesis
    by (simp add: once_domains once_stopping_lookups once_finished_lookups)
qed

lemma loop_once_swept: "loop_reachable 1 \<lparr>ready = [], srv = once_swept, evicted = {|''t1''|}\<rparr>"
proof -
  have "step once_finished once_swept"
    unfolding once_swept_def by (rule step.swept)
  from loop_woken [OF loop_once_finished this] show ?thesis
    by (simp add: once_domains once_finished_lookups once_swept_lookups)
qed

lemma reachable_asked_early: "loop_reachable 1 asked_early"
  using loop_asked [OF loop_once_running, of "''t1''"] by (simp add: asked_early_def once_domains)

lemma reachable_asked_later: "loop_reachable 1 asked_later"
  using loop_asked [OF loop_once_finished, of "''t1''"] by (simp add: asked_later_def once_domains)

lemma reachable_asked_too_late: "loop_reachable 1 asked_too_late"
  using loop_asked [OF loop_once_swept, of "''t1''"] by (simp add: asked_too_late_def once_domains)

lemma anonymous_submitted_eq:
  "anonymous_submitted = (startup 1)\<lparr>tasks := fmupd ''t1'' anonymous_task fmempty\<rparr>"
  by (simp add: anonymous_submitted_def anonymous_request_def anonymous_task_def solve_def Let_def
      example_request_def example_task_def startup_def fcard_fempty)

lemma firefox_only_choice:
  "get_chrome_user_agent firefox_only pick = Inl (Exception ''Cannot choose from an empty sequence'')"
  by (simp add: get_chrome_user_agent_def firefox_only_def sublist_code)

lemma reachable_anonymous_crashed: "reachable 1 anonymous_crashed"
proof -
  have "reachable 1 anonymous_submitted"
    unfolding anonymous_submitted_def
    by (rule reachable.after_step [OF reachable.at_startup])
      (rule step.submitted, simp add: startup_def)
  then show ?thesis
    unfolding anonymous_crashed_def
    by (rule reachable.after_step, intro step.begun)
      (simp_all add: anonymous_submitted_eq anonymous_task_def example_task_def)
qed

section \<open>Admission\<close>

text \<open>
  Claim C1, on the code. With \<^verbatim>\<open>max_concurrent_tasks = 1\<close>, two \<^verbatim>\<open>/solve\<close> requests handled
  one after the other before either created task has run are both answered 202: the
  handler compares \<^verbatim>\<open>len(active_solvers)\<close> with the maximum, but a task enters
  \<^verbatim>\<open>active_solvers\<close> only in its own first block. When both tasks have run that block,
  two solvers are active and two tasks are processing, one more than the maximum.
\<close>

theorem admission_race:
  "fst (solve example_request ''t1'' (startup 1)) = (Task_created ''t1'' 60, 202) \<and>
   fst (solve example_request ''t2'' submitted_once) = (Task_created ''t2'' 60, 202) \<and>
   reachable 1 both_running \<and>
   max_concurrent_tasks both_running = 1 \<and>
   fcard (fmdom (active_solvers both_running)) = 2 \<and>
   \<not> int (fcard (fmdom (active_solvers both_running))) \<le> max_concurrent_tasks both_running \<and>
   map_option status (fmlookup (task_results both_running) ''t1'') = Some (Some ''processing'') \<and>
   map_option status (fmlookup (task_results both_running) ''t2'') = Some (Some ''processing'')"
  by (simp add: reachable_both_running both_running_lookups fcard_finsert_if
      solve_def Let_def example_request_def startup_def fcard_fempty submitted_once_eq)

section \<open>Retention\<close>

text \<open>
  Claim C2, as amended. A cycle of the sweeper removes exactly the entries whose time
  stamp is older than \<open>now - 86400\<close>, whatever their status: every entry (so every
  terminal one) stamped before the cutoff is removed, every entry stamped at or after
  it is kept unchanged (so a processing task is kept while it is younger than 24 hours),
  nothing is added, the count returned is the number of keys collected, and neither
  \<^verbatim>\<open>active_solvers\<close> nor the tasks are touched.
\<close>

theorem cleanup_removes_by_age:
  "(\<forall>r ts. fmlookup (task_results s) task_id = Some r \<and> timestamp r = Some ts \<and>
        ts < now - 86400 \<longrightarrow>
        fmlookup (task_results (snd (cleanup_tasks now s))) task_id = None) \<and>
   (\<forall>r ts. fmlookup (task_results s) task_id = Some r \<and> timestamp r = Some ts \<and>
        now - 86400 \<le> ts \<longrightarrow>
        fmlookup (task_results (snd (cleanup_tasks now s))) task_id = Some r) \<and>
   (fmlookup (task_results s) task_id = None \<longrightarrow>
        fmlookup (task_results (snd (cleanup_tasks now s))) task_id = None) \<and>
   fst (cleanup_tasks now s) = fcard (keys_to_delete now (task_results s)) \<and>
   active_solvers (snd (cleanup_tasks now s)) = active_solvers s \<and>
   tasks (snd (cleanup_tasks now s)) = tasks s"
  by (auto simp: cleanup_tasks_lookup) (simp add: cleanup_tasks_def Let_def)

text \<open>
  The theorem at the run above: the entry of \<open>t1\<close>, stamped 0, is removed by a cycle at
  time 90000 and kept by one at time 3600; \<open>t2\<close> has no entry before or after.
\<close>

theorem cleanup_removes_by_age_witness:
  "fmlookup (task_results (snd (cleanup_tasks 90000 first_running))) ''t1'' = None \<and>
   fmlookup (task_results (snd (cleanup_tasks 3600 first_running))) ''t1''
     = fmlookup (task_results first_running) ''t1'' \<and>
   fmlookup (task_results (snd (cleanup_tasks 90000 first_running))) ''t2'' = None"
  using cleanup_removes_by_age [of first_running "''t1''" 90000]
    cleanup_removes_by_age [of first_running "''t1''" 3600]
    cleanup_removes_by_age [of first_running "''t2''" 90000]
  by (simp add: first_running_lookups first_running_def submitted_twice_eq task_begin_def Let_def example_task_def
      startup_def at_stage_def)

text \<open>
  Claim C2 as stated fails: the cycle does not read the status. The task \<open>t1\<close> of the
  run above is still processing (\<^verbatim>\<open>/result\<close> answers 202) when a cycle at time 90000,
  more than 24 hours after its registration at time 0, removes its entry; \<^verbatim>\<open>/result\<close>
  then answers 404.
\<close>

theorem processing_task_evicted_counterexample:
  "reachable 1 first_running \<and>
   map_option status (fmlookup (task_results first_running) ''t1'') = Some (Some ''processing'') \<and>
   get_result (Some ''t1'') first_running = (Still_processing, 202) \<and>
   fmlookup (task_results (snd (cleanup_tasks 90000 first_running))) ''t1'' = None \<and>
   get_result (Some ''t1'') (snd (cleanup_tasks 90000 first_running)) = (Error_body Unknown_task, 404)"
  by (simp add: reachable_first_running first_running_lookups get_result_def cleanup_tasks_lookup)

section \<open>The entries of the registry\<close>

text \<open>
  Claim C3, as amended. In every reachable state each entry of \<^verbatim>\<open>task_results\<close> has
  exactly one of three shapes: processing (status and time stamp, no result field),
  success (elapsed time, cookie value, user agent, cookies; no reason) or error (reason,
  elapsed time; nothing else); its status tells which. Once the task's coroutine has
  finished, no step writes its entry again: after any step the entry is the same, and
  \<^verbatim>\<open>/result\<close> answers the same, unless the step is a cycle of the sweeper that finds the
  entry older than 24 hours and removes it.
\<close>

theorem entries_consistent_and_final:
  assumes "reachable max_tasks s"
  shows "(\<forall>r. fmlookup (task_results s) task_id = Some r \<longrightarrow>
            (processing_entry r \<or> success_entry r \<or> error_entry r) \<and>
            \<not> (processing_entry r \<and> success_entry r) \<and>
            \<not> (processing_entry r \<and> error_entry r) \<and>
            \<not> (success_entry r \<and> error_entry r) \<and>
            (status r = Some ''processing'' \<longrightarrow> processing_entry r) \<and>
            (status r \<noteq> Some ''processing'' \<longrightarrow> success_entry r \<or> error_entry r)) \<and>
         (\<forall>s' t r. step s s' \<and> fmlookup (tasks s) task_id = Some t \<and> task_stage t = Finished \<and>
              fmlookup (task_results s) task_id = Some r \<longrightarrow>
            (fmlookup (task_results s') task_id = Some r \<and>
             get_result (Some task_id) s' = get_result (Some task_id) s) \<or>
            (fmlookup (task_results s') task_id = None \<and>
             (\<exists>now ts. s' = snd (cleanup_tasks now s) \<and> timestamp r = Some ts \<and>
                ts < now - 86400)))"
proof (intro conjI allI impI)
  fix r
  assume r: "fmlookup (task_results s) task_id = Some r"
  from assms have "entries_shaped s" by (rule reachable_entries_shaped)
  with r have shaped: "well_shaped r" by (auto simp: entries_shaped_def)
  then show "processing_entry r \<or> success_entry r \<or> error_entry r"
    by (simp add: well_shaped_def)
  show "\<not> (processing_entry r \<and> success_entry r)" "\<not> (processing_entry r \<and> error_entry r)"
    "\<not> (success_entry r \<and> error_entry r)"
    by (rule shapes_exclusive)+
  from shaped show "processing_entry r" if "status r = Some ''processing''"
    using that by (auto simp: well_shaped_def success_entry_def error_entry_def)
  from shaped show "success_entry r \<or> error_entry r" if "status r \<noteq> Some ''processing''"
    using that by (auto simp: well_shaped_def processing_entry_def)
next
  fix s' t r
  assume a: "step s s' \<and> fmlookup (tasks s) task_id = Some t \<and> task_stage t = Finished \<and>
      fmlookup (task_results s) task_id = Some r"
  from assms have "entries_shaped s" by (rule reachable_entries_shaped)
  with a have "well_shaped r" by (auto simp: entries_shaped_def)
  then obtain ts where ts: "timestamp r = Some ts" using shaped_timestamp by blast
  from a have "fmlookup (task_results s') task_id = Some r \<or>
    (fmlookup (task_results s') task_id = None \<and>
     (\<exists>now. s' = snd (cleanup_tasks now s) \<and>
        (case timestamp r of None \<Rightarrow> 0 | Some ts \<Rightarrow> ts) < now - 86400))"
    using finished_entry_kept [of s s' task_id t r] by simp
  then show "(fmlookup (task_results s') task_id = Some r \<and>
             get_result (Some task_id) s' = get_result (Some task_id) s) \<or>
            (fmlookup (task_results s') task_id = None \<and>
             (\<exists>now ts. s' = snd (cleanup_tasks now s) \<and> timestamp r = Some ts \<and>
                ts < now - 86400))"
  proof
    assume kept: "fmlookup (task_results s') task_id = Some r"
    with a have "get_result (Some task_id) s' = get_result (Some task_id) s"
      by (simp add: get_result_cong)
    with kept show ?thesis by simp
  next
    assume "fmlookup (task_results s') task_id = None \<and>
     (\<exists>now. s' = snd (cleanup_tasks now s) \<and>
        (case timestamp r of None \<Rightarrow> 0 | Some ts \<Rightarrow> ts) < now - 86400)"
    with ts show ?thesis by auto
  qed
qed

text \<open>
  The theorem at the finished run above: its entry has the success shape, and a cycle of
  the sweeper at time 3600 leaves the entry and the answer of \<^verbatim>\<open>/result\<close> as they were.
\<close>

theorem entries_consistent_and_final_witness:
  "reachable 1 first_finished \<and>
   fmlookup (task_results first_finished) ''t1'' = Some (cleared_result\<lparr>timestamp := Some 5\<rparr>) \<and>
   success_entry (cleared_result\<lparr>timestamp := Some 5\<rparr>) \<and>
   \<not> processing_entry (cleared_result\<lparr>timestamp := Some 5\<rparr>) \<and>
   step first_finished (snd (cleanup_tasks 3600 first_finished)) \<and>
   fmlookup (tasks first_finished) ''t1'' = Some (example_task\<lparr>task_stage := Finished\<rparr>) \<and>
   fmlookup (task_results (snd (cleanup_tasks 3600 first_finished))) ''t1''
     = Some (cleared_result\<lparr>timestamp := Some 5\<rparr>) \<and>
   get_result (Some ''t1'') (snd (cleanup_tasks 3600 first_finished))
     = get_result (Some ''t1'') first_finished"
proof -
  have kept: "fmlookup (task_results (snd (cleanup_tasks 3600 first_finished))) ''t1''
     = Some (cleared_result\<lparr>timestamp := Some 5\<rparr>)"
    by (simp add: cleanup_tasks_lookup first_finished_lookups)
  have fin: "task_stage (example_task\<lparr>task_stage := Finished\<rparr>) = Finished"
    by simp
  from entries_consistent_and_final [OF reachable_first_finished, of "''t1''"]
  have "success_entry (cleared_result\<lparr>timestamp := Some 5\<rparr>) \<and>
        \<not> processing_entry (cleared_result\<lparr>timestamp := Some 5\<rparr>)"
    using first_finished_lookups(2) cleared_result_stamped by blast
  moreover from entries_consistent_and_final [OF reachable_first_finished, of "''t1''"]
  have "get_result (Some ''t1'') (snd (cleanup_tasks 3600 first_finished))
     = get_result (Some ''t1'') first_finished"
    using step.swept [of first_finished 3600] first_finished_lookups(1,2) fin kept
    by (metis option.distinct(1))
  ultimately show ?thesis
    using reachable_first_finished first_finished_lookups kept step.swept [of first_finished 3600]
    by simp
qed

text \<open>
  Claim C3 as stated fails: a terminal entry does not stay for ever. The finished task's
  success result, served with 200, is gone after the sweeper's cycle at time 100000, and
  \<^verbatim>\<open>/result\<close> then answers 404. And between the resolver's return and the end of
  \<^verbatim>\<open>driver.stop()\<close> the stored success is already served with 200; if the stop raises,
  the supervisor's \<^verbatim>\<open>except\<close> stores an error entry over it.
\<close>

theorem terminal_entry_changes_counterexample:
  "reachable 1 first_finished \<and>
   get_result (Some ''t1'') first_finished = (Result_body (cleared_result\<lparr>timestamp := Some 5\<rparr>), 200) \<and>
   step first_finished (snd (cleanup_tasks 100000 first_finished)) \<and>
   get_result (Some ''t1'') (snd (cleanup_tasks 100000 first_finished)) = (Error_body Unknown_task, 404) \<and>
   reachable 1 first_stopping \<and>
   get_result (Some ''t1'') first_stopping = (Result_body (cleared_result\<lparr>timestamp := Some 5\<rparr>), 200) \<and>
   status (cleared_result\<lparr>timestamp := Some 5\<rparr>) = Some ''success'' \<and>
   step first_stopping first_stop_failed \<and>
   get_result (Some ''t1'') first_stop_failed
     = (Result_body (task_error (Exception ''browser did not stop'') 0 6), 200) \<and>
   status (task_error (Exception ''browser did not stop'') 0 6) = Some ''error''"
  by (simp add: reachable_first_finished reachable_first_stopping step.swept step_first_stop_failed
      get_result_def first_finished_lookups first_stopping_lookups first_stop_failed_lookups
      cleanup_tasks_lookup cleared_result_eq success_result_def task_error_def error_result_def)

section \<open>Faults of the browser\<close>

text \<open>
  Claim C4, as amended. The resolver returns a success or an error dictionary on every
  path, and the dictionary carries the rounded time between the call and the return. An
  exception of the navigation, of the first cookie read, of a cookie read in a round of
  the polling loop, or of the user-agent read (whether the clearance cookie was there at
  once or the challenge phase ran) reaches the outer \<^verbatim>\<open>except\<close>: the result is the error
  dictionary whose reason is the exception's text. An exception inside the interaction
  sweep does not get there: a failing lookup of the buttons or of the checkboxes, and a
  failing cookie read after the clicks, end the sweep with cookies and clearance cookie
  as they were; a failing click is skipped. The resolver then goes on, and with no
  clearance cookie and a user agent read it returns the fixed reason.
\<close>

theorem resolver_faults_become_failures:
  "(status (error_result why elapsed) = Some ''error'' \<and>
    reason (error_result why elapsed) = Some why \<and>
    elapsed_time (error_result why elapsed) = Some elapsed) \<and>
   ((\<exists>v ua cookies. fst (solve_cloudflare b url timeout w)
        = success_result (py_round (clock (snd (solve_cloudflare b url timeout w)) - clock w) 3)
            v ua cookies) \<or>
    (\<exists>why. fst (solve_cloudflare b url timeout w)
        = error_result why (py_round (clock (snd (solve_cloudflare b url timeout w)) - clock w) 3))) \<and>
   (\<forall>e. navigate b (awaits w) = Some e \<longrightarrow>
      solve_cloudflare b url timeout w
        = (error_result (str e) (py_round (clock (suspend b 0 w) - clock w) 3), suspend b 0 w)) \<and>
   (\<forall>e. navigate b (awaits w) = None \<and> cookie_jar b (awaits w + 1) = Inl e \<longrightarrow>
      solve_cloudflare b url timeout w
        = (error_result (str e) (py_round (clock (suspend b 0 (suspend b 0 w)) - clock w) 3),
           suspend b 0 (suspend b 0 w))) \<and>
   (\<forall>e. clock v - start_wait < real_of_int timeout \<and> cookie_jar b (awaits v + 1) = Inl e \<longrightarrow>
      await_cookie b timeout start_wait seen v = (Inl e, suspend b 0 (suspend b 1 v))) \<and>
   (\<forall>cookies. clock v - start_wait < real_of_int timeout \<and>
      cookie_jar b (awaits v + 1) = Inr cookies \<and> extract_clearance_cookie cookies = None \<longrightarrow>
      await_cookie b timeout start_wait seen v
        = await_cookie b timeout start_wait cookies (suspend b 0 (suspend b 1 v))) \<and>
   (\<forall>e cookies w3. navigate b (awaits w) = None \<and> cookie_jar b (awaits w + 1) = Inr cookies \<and>
      extract_clearance_cookie cookies = None \<and>
      await_cookie b timeout (clock (suspend b 0 (suspend b 0 w))) cookies
        (suspend b 0 (suspend b 0 w)) = (Inl e, w3) \<longrightarrow>
      solve_cloudflare b url timeout w
        = (error_result (str e) (py_round (clock w3 - clock w) 3), w3)) \<and>
   (\<forall>e cookies c. navigate b (awaits w) = None \<and> cookie_jar b (awaits w + 1) = Inr cookies \<and>
      extract_clearance_cookie cookies = Some c \<and> reported_user_agent b (awaits w + 2) = Inl e \<longrightarrow>
      solve_cloudflare b url timeout w
        = (error_result (str e)
             (py_round (clock (suspend b 0 (suspend b 0 (suspend b 0 w))) - clock w) 3),
           suspend b 0 (suspend b 0 (suspend b 0 w)))) \<and>
   (\<forall>e cookies cookies' found w3. navigate b (awaits w) = None \<and>
      cookie_jar b (awaits w + 1) = Inr cookies \<and> extract_clearance_cookie cookies = None \<and>
      challenge b timeout cookies (suspend b 0 (suspend b 0 w)) = (Inr (cookies', found), w3) \<and>
      reported_user_agent b (awaits w3) = Inl e \<longrightarrow>
      solve_cloudflare b url timeout w
        = (error_result (str e) (py_round (clock (suspend b 0 w3) - clock w) 3), suspend b 0 w3)) \<and>
   (\<forall>cookies w'. await_cookie b timeout (clock v) seen v = (Inr (cookies, None), w') \<longrightarrow>
      challenge b timeout seen v
        = (Inr (fst (interact b cookies w')), snd (interact b cookies w'))) \<and>
   (\<forall>e. elements b (awaits v) ''button'' = Inl e \<longrightarrow>
      interact b seen v = ((seen, None), suspend b 0 v)) \<and>
   (\<forall>e buttons. elements b (awaits v) ''button'' = Inr buttons \<and>
      elements b (awaits (click_each b buttons (suspend b 0 v))) ''input[type=checkbox]'' = Inl e
      \<longrightarrow>
      interact b seen v = ((seen, None), suspend b 0 (click_each b buttons (suspend b 0 v)))) \<and>
   (\<forall>e buttons checkboxes. elements b (awaits v) ''button'' = Inr buttons \<and>
      elements b (awaits (click_each b buttons (suspend b 0 v))) ''input[type=checkbox]''
        = Inr checkboxes \<and>
      cookie_jar b (awaits (click_each b checkboxes
        (suspend b 0 (click_each b buttons (suspend b 0 v))))) = Inl e \<longrightarrow>
      interact b seen v = ((seen, None),
        suspend b 0 (click_each b checkboxes (suspend b 0 (click_each b buttons (suspend b 0 v)))))) \<and>
   (\<forall>e el els. click b (awaits v) el = Some e \<longrightarrow>
      click_each b (el # els) v = click_each b els (suspend b 0 v)) \<and>
   (\<forall>cookies cookies' w3 ua. navigate b (awaits w) = None \<and>
      cookie_jar b (awaits w + 1) = Inr cookies \<and> extract_clearance_cookie cookies = None \<and>
      challenge b timeout cookies (suspend b 0 (suspend b 0 w)) = (Inr (cookies', None), w3) \<and>
      reported_user_agent b (awaits w3) = Inr ua \<longrightarrow>
      solve_cloudflare b url timeout w
        = (error_result ''Failed to retrieve cf_clearance cookie''
             (py_round (clock (suspend b 0 w3) - clock w) 3), suspend b 0 w3))"
  apply (intro conjI allI impI)
  subgoal by (simp add: error_result_def)
  subgoal by (simp add: error_result_def)
  subgoal by (simp add: error_result_def)
  subgoal by (rule resolver_returns)
  subgoal by (rule navigation_fault)
  subgoal by (elim conjE) (rule first_read_fault)
  subgoal by (elim conjE) (rule await_cookie_raises)
  subgoal by (elim conjE) (rule await_cookie_again)
  subgoal by (elim conjE) (rule polling_fault)
  subgoal by (elim conjE) (rule cleared_at_once_user_agent_fault)
  subgoal by (elim conjE) (simp add: after_challenge)
  subgoal by (rule challenge_sweeps)
  subgoal by (rule find_all_swallowed)
  subgoal by (elim conjE) (rule checkbox_lookup_swallowed)
  subgoal by (elim conjE) (rule last_read_swallowed)
  subgoal by (rule click_swallowed)
  subgoal by (elim conjE) (simp add: after_challenge)
  done

text \<open>
  The theorem at six pages: one that refuses the connection (failure after a quarter of
  a second, with the browser's message as reason); one whose cookie read raises in the
  second round of the polling loop (failure after two seconds, with that message); one
  whose lookup of the checkboxes raises, which the sweep swallows, and whose user-agent
  read raises, which becomes the reason; one whose cookie read after the sweep raises
  (failure with the fixed reason); one whose lookup of the buttons raises; and one with a
  button whose click raises.
\<close>

theorem resolver_faults_become_failures_witness:
  "solve_cloudflare refused_page ''https://example.com'' 60 \<lparr>clock = 0, awaits = 0\<rparr>
     = (error_result ''net::ERR_CONNECTION_REFUSED'' (1 / 4), \<lparr>clock = 1 / 4, awaits = 1\<rparr>) \<and>
   reason (error_result ''net::ERR_CONNECTION_REFUSED'' (1 / 4)) = Some ''net::ERR_CONNECTION_REFUSED'' \<and>
   elapsed_time (error_result ''net::ERR_CONNECTION_REFUSED'' (1 / 4)) = Some (1 / 4) \<and>
   await_cookie dropped_page 5 0 [] \<lparr>clock = 0, awaits = 2\<rparr>
     = (Inl (Exception ''Connection to the browser was lost''), \<lparr>clock = 2, awaits = 6\<rparr>) \<and>
   solve_cloudflare dropped_page ''https://example.com'' 5 \<lparr>clock = 0, awaits = 0\<rparr>
     = (error_result ''Connection to the browser was lost'' 2, \<lparr>clock = 2, awaits = 6\<rparr>) \<and>
   interact silent_page [] \<lparr>clock = 0, awaits = 2\<rparr> = (([], None), \<lparr>clock = 0, awaits = 4\<rparr>) \<and>
   solve_cloudflare silent_page ''https://example.com'' 0 \<lparr>clock = 0, awaits = 0\<rparr>
     = (error_result ''Target closed'' 0, \<lparr>clock = 0, awaits = 5\<rparr>) \<and>
   interact stale_page [] \<lparr>clock = 0, awaits = 2\<rparr> = (([], None), \<lparr>clock = 0, awaits = 5\<rparr>) \<and>
   solve_cloudflare stale_page ''https://example.com'' 0 \<lparr>clock = 0, awaits = 0\<rparr>
     = (error_result ''Failed to retrieve cf_clearance cookie'' 0, \<lparr>clock = 0, awaits = 6\<rparr>) \<and>
   interact broken_sweep [] \<lparr>clock = 0, awaits = 2\<rparr> = (([], None), \<lparr>clock = 0, awaits = 3\<rparr>) \<and>
   click_each flaky_click [7] \<lparr>clock = 0, awaits = 3\<rparr> = \<lparr>clock = 0, awaits = 4\<rparr>"
proof -
  have a: "solve_cloudflare refused_page ''https://example.com'' 60 \<lparr>clock = 0, awaits = 0\<rparr>
     = (error_result ''net::ERR_CONNECTION_REFUSED'' (1 / 4), \<lparr>clock = 1 / 4, awaits = 1\<rparr>)"
    using resolver_faults_become_failures [where b = refused_page and url = "''https://example.com''"
        and timeout = 60 and w = "\<lparr>clock = 0, awaits = 0\<rparr>"]
    by (simp add: refused_page_simps suspend_def py_round_quarter)
  have a': "reason (error_result ''net::ERR_CONNECTION_REFUSED'' (1 / 4)) = Some ''net::ERR_CONNECTION_REFUSED'' \<and>
      elapsed_time (error_result ''net::ERR_CONNECTION_REFUSED'' (1 / 4)) = Some (1 / 4)"
    using resolver_faults_become_failures [where why = "''net::ERR_CONNECTION_REFUSED''" and elapsed = "1 / 4"]
    by simp
  have b: "solve_cloudflare dropped_page ''https://example.com'' 5 \<lparr>clock = 0, awaits = 0\<rparr>
     = (error_result ''Connection to the browser was lost'' 2, \<lparr>clock = 2, awaits = 6\<rparr>)"
    using resolver_faults_become_failures [where b = dropped_page and url = "''https://example.com''"
        and timeout = 5 and w = "\<lparr>clock = 0, awaits = 0\<rparr>"]
    by (simp add: dropped_page_simps suspend_def numeral_2_eq_2 [symmetric] dropped_page_wait py_round_2)
  have c: "solve_cloudflare silent_page ''https://example.com'' 0 \<lparr>clock = 0, awaits = 0\<rparr>
     = (error_result ''Target closed'' 0, \<lparr>clock = 0, awaits = 5\<rparr>)"
    using resolver_faults_become_failures [where b = silent_page and url = "''https://example.com''"
        and timeout = 0 and w = "\<lparr>clock = 0, awaits = 0\<rparr>"]
    by (simp add: silent_page_simps suspend_def numeral_2_eq_2 [symmetric] silent_page_challenge py_round_0)
  have c': "interact silent_page [] \<lparr>clock = 0, awaits = 2\<rparr> = (([], None), \<lparr>clock = 0, awaits = 4\<rparr>)"
    using resolver_faults_become_failures [where b = silent_page and v = "\<lparr>clock = 0, awaits = 2\<rparr>"
        and seen = "[]"]
    by (simp add: silent_page_simps suspend_def)
  have d: "solve_cloudflare stale_page ''https://example.com'' 0 \<lparr>clock = 0, awaits = 0\<rparr>
     = (error_result ''Failed to retrieve cf_clearance cookie'' 0, \<lparr>clock = 0, awaits = 6\<rparr>)"
    using resolver_faults_become_failures [where b = stale_page and url = "''https://example.com''"
        and timeout = 0 and w = "\<lparr>clock = 0, awaits = 0\<rparr>"]
    by (simp add: stale_page_simps suspend_def numeral_2_eq_2 [symmetric] stale_page_challenge py_round_0)
  have d': "interact stale_page [] \<lparr>clock = 0, awaits = 2\<rparr> = (([], None), \<lparr>clock = 0, awaits = 5\<rparr>)"
    using resolver_faults_become_failures [where b = stale_page and v = "\<lparr>clock = 0, awaits = 2\<rparr>"
        and seen = "[]"]
    by (simp add: stale_page_simps suspend_def)
  have e: "interact broken_sweep [] \<lparr>clock = 0, awaits = 2\<rparr> = (([], None), \<lparr>clock = 0, awaits = 3\<rparr>)"
    using resolver_faults_become_failures [where b = broken_sweep and v = "\<lparr>clock = 0, awaits = 2\<rparr>"
        and seen = "[]"]
    by (simp add: broken_sweep_simps suspend_def)
  have f: "click_each flaky_click [7] \<lparr>clock = 0, awaits = 3\<rparr> = \<lparr>clock = 0, awaits = 4\<rparr>"
    using resolver_faults_become_failures [where b = flaky_click and v = "\<lparr>clock = 0, awaits = 3\<rparr>"]
    by (simp add: flaky_click_simps suspend_def)
  from a a' b c c' d d' e f dropped_page_wait show ?thesis
    by simp
qed

text \<open>
  Claim C4 as stated fails in the sweep. Where the lookup of the buttons raises, the result
  is a failure whose reason is the fixed text, not the exception's; where a click raises
  and the cookie is there afterwards, the result is a success.
\<close>

theorem sweep_faults_swallowed_counterexample:
  "find_all broken_sweep ''button'' \<lparr>clock = 0, awaits = 2\<rparr>
     = (Inl (Exception ''DOM agent is not enabled''), \<lparr>clock = 0, awaits = 3\<rparr>) \<and>
   solve_cloudflare broken_sweep ''https://example.com'' 0 \<lparr>clock = 0, awaits = 0\<rparr>
     = (error_result ''Failed to retrieve cf_clearance cookie'' 0, \<lparr>clock = 0, awaits = 4\<rparr>) \<and>
   reason (error_result ''Failed to retrieve cf_clearance cookie'' 0)
     \<noteq> Some (str (Exception ''DOM agent is not enabled'')) \<and>
   mouse_click flaky_click 7 \<lparr>clock = 0, awaits = 3\<rparr>
     = (Some (Exception ''could not find position for element''), \<lparr>clock = 0, awaits = 4\<rparr>) \<and>
   solve_cloudflare flaky_click ''https://example.com'' 0 \<lparr>clock = 0, awaits = 0\<rparr>
     = (success_result 0 ''token'' ''Mozilla/5.0 Chrome/120.0'' [clearance], \<lparr>clock = 0, awaits = 7\<rparr>)"
  by (simp add: solve_cloudflare_def solve_body_def challenge_def interact_def
      await_cookie.simps [of broken_sweep 0 0] await_cookie.simps [of flaky_click 0 0]
      broken_sweep_simps flaky_click_simps capability_defs py_round_0 error_result_def
      clearance_def)

section \<open>Submission\<close>

text \<open>
  Claim C5, as amended. The parameters are checked before anything else: a request
  without a url (absent or empty) gets 400 and changes nothing; a request whose proxy is
  a non-empty string with none of the four scheme prefixes gets 400 and changes nothing;
  a request with a url and a \<^verbatim>\<open>socks5://\<close> proxy passes the checks, and is then answered
  202 if fewer than \<^verbatim>\<open>max_concurrent_tasks\<close> solvers are active and 429 (nothing changed)
  otherwise. No answer other than 202 changes the state, and no answer at all writes
  \<^verbatim>\<open>task_results\<close> or \<^verbatim>\<open>active_solvers\<close>.
\<close>

theorem solve_validates_first:
  "(\<not> truthy (url_arg req) \<longrightarrow> solve req uuid4 s = ((Error_body Url_required, 400), s)) \<and>
   (truthy (proxy_arg req) \<and>
      \<not> (startswith (proxy_arg req) ''http://'' \<or> startswith (proxy_arg req) ''https://'' \<or>
         startswith (proxy_arg req) ''socks4://'' \<or> startswith (proxy_arg req) ''socks5://'') \<longrightarrow>
      snd (fst (solve req uuid4 s)) = 400 \<and> snd (solve req uuid4 s) = s) \<and>
   (truthy (url_arg req) \<and> startswith (proxy_arg req) ''socks5://'' \<and>
      int (fcard (fmdom (active_solvers s))) < max_concurrent_tasks s \<longrightarrow>
      snd (fst (solve req uuid4 s)) = 202) \<and>
   (truthy (url_arg req) \<and> startswith (proxy_arg req) ''socks5://'' \<and>
      max_concurrent_tasks s \<le> int (fcard (fmdom (active_solvers s))) \<longrightarrow>
      solve req uuid4 s = ((Error_body (At_capacity (max_concurrent_tasks s)), 429), s)) \<and>
   (snd (fst (solve req uuid4 s)) \<noteq> 202 \<longrightarrow> snd (solve req uuid4 s) = s) \<and>
   task_results (snd (solve req uuid4 s)) = task_results s \<and>
   active_solvers (snd (solve req uuid4 s)) = active_solvers s"
  by (cases "proxy_arg req") (auto simp: solve_def Let_def)

text \<open>The theorem at a request without url, with an ftp proxy, and with a socks5 proxy.\<close>

theorem solve_validates_first_witness:
  "solve (example_request\<lparr>url_arg := None\<rparr>) ''t1'' (startup 1)
     = ((Error_body Url_required, 400), startup 1) \<and>
   snd (fst (solve (example_request\<lparr>proxy_arg := Some ''ftp://x''\<rparr>) ''t1'' (startup 1))) = 400 \<and>
   snd (solve (example_request\<lparr>proxy_arg := Some ''ftp://x''\<rparr>) ''t1'' (startup 1)) = startup 1 \<and>
   snd (fst (solve (example_request\<lparr>proxy_arg := Some ''socks5://x''\<rparr>) ''t1'' (startup 1))) = 202 \<and>
   solve (example_request\<lparr>proxy_arg := Some ''socks5://x''\<rparr>) ''t3'' first_running
     = ((Error_body (At_capacity 1), 429), first_running)"
  using solve_validates_first [of "example_request\<lparr>url_arg := None\<rparr>" "''t1''" "startup 1"]
    solve_validates_first [of "example_request\<lparr>proxy_arg := Some ''ftp://x''\<rparr>" "''t1''" "startup 1"]
    solve_validates_first [of "example_request\<lparr>proxy_arg := Some ''socks5://x''\<rparr>" "''t1''" "startup 1"]
    solve_validates_first [of "example_request\<lparr>proxy_arg := Some ''socks5://x''\<rparr>" "''t3''" first_running]
  by (simp add: example_request_def startup_def fcard_fempty first_running_lookups fcard_finsert_if)

text \<open>
  Claim C5 as stated fails twice: with one solver active and \<^verbatim>\<open>max_concurrent_tasks = 1\<close>
  a request with a url and a socks5 proxy is answered 429, not 202; and the empty proxy
  (\<^verbatim>\<open>/solve?url=...&proxy=\<close>), which starts with none of the schemes, is accepted with 202,
  because \<^verbatim>\<open>if proxy and not (...)\<close> takes an empty string for no proxy.
\<close>

theorem accepted_needs_capacity_counterexample:
  "reachable 1 first_running \<and>
   fst (solve (example_request\<lparr>proxy_arg := Some ''socks5://x''\<rparr>) ''t3'' first_running)
     = (Error_body (At_capacity 1), 429) \<and>
   \<not> startswith (Some '''') ''http://'' \<and> \<not> startswith (Some '''') ''https://'' \<and>
   \<not> startswith (Some '''') ''socks4://'' \<and> \<not> startswith (Some '''') ''socks5://'' \<and>
   fst (solve (example_request\<lparr>proxy_arg := Some ''''\<rparr>) ''t1'' (startup 1))
     = (Task_created ''t1'' 60, 202)"
  by (simp add: solve_def Let_def example_request_def startup_def fcard_fempty
      first_running_lookups fcard_finsert_if reachable_first_running)

text \<open>
  Claim C6. An accepted \<^verbatim>\<open>/solve\<close> request has an effective timeout of at most 120: a
  requested value above 120 becomes 120, a value up to 120 is kept, and a request without
  a (parsable) timeout gets 60. The value is the one the response reports and the one the
  created task carries to its solver.
\<close>

theorem timeout_clamped:
  "fst (solve req uuid4 s) = (Task_created task_id timeout, 202) \<Longrightarrow>
     timeout \<le> 120 \<and>
     (\<forall>n. timeout_arg req = Some n \<and> 120 < n \<longrightarrow> timeout = 120) \<and>
     (\<forall>n. timeout_arg req = Some n \<and> n \<le> 120 \<longrightarrow> timeout = n) \<and>
     (timeout_arg req = None \<longrightarrow> timeout = 60) \<and>
     (\<exists>t. fmlookup (tasks (snd (solve req uuid4 s))) task_id = Some t \<and> task_timeout t = timeout)"
  by (auto simp: solve_def Let_def split: if_splits option.splits)

text \<open>The theorem at a request asking for 500 seconds and at one asking for none.\<close>

theorem timeout_clamped_witness:
  "fst (solve (example_request\<lparr>timeout_arg := Some 500\<rparr>) ''t1'' (startup 10))
     = (Task_created ''t1'' 120, 202) \<and>
   fst (solve example_request ''t1'' (startup 10)) = (Task_created ''t1'' 60, 202) \<and>
   (\<exists>t. fmlookup (tasks (snd (solve (example_request\<lparr>timeout_arg := Some 500\<rparr>) ''t1'' (startup 10))))
          ''t1'' = Some t \<and> task_timeout t = 120)"
proof -
  have big: "fst (solve (example_request\<lparr>timeout_arg := Some 500\<rparr>) ''t1'' (startup 10))
      = (Task_created ''t1'' 120, 202)"
    by (simp add: solve_def Let_def example_request_def startup_def fcard_fempty)
  have none: "fst (solve example_request ''t1'' (startup 10)) = (Task_created ''t1'' 60, 202)"
    by (simp add: solve_def Let_def example_request_def startup_def fcard_fempty)
  from timeout_clamped [OF big] timeout_clamped [OF none] big none show ?thesis
    by simp
qed

section \<open>Polling\<close>

text \<open>
  Claim C7, as amended. While less than the timeout has passed since \<^verbatim>\<open>start_wait\<close> the
  loop sleeps one second and reads the cookies once, so that a round takes one second and
  the latency of its two awaits; it goes round again if the read has no clearance cookie
  and leaves with the cookie as soon as a read has it; it leaves without as soon as the
  time since \<^verbatim>\<open>start_wait\<close> has reached the timeout, which is then less than one round
  behind. \<^verbatim>\<open>start_wait\<close> is read when the challenge phase begins, after the navigation
  and the first cookie read, not at the resolver's start. A run against a target that
  never yields the cookie, and whose navigation, cookie reads and user-agent read raise
  nothing, is the navigation and the first read, one polling loop, one sweep and the
  user-agent read; it fails with the fixed reason, no sooner than the timeout. If no await
  is more than \<open>L\<close> milliseconds late, the failure comes within the timeout (0 if it is
  negative), one second and \<open>5 L\<close> milliseconds, plus the duration of the sweep; the
  sweep takes at most \<open>4 n\<close> seconds and \<open>(3 + 4 n) L\<close> milliseconds if no lookup finds
  more than \<open>n\<close> elements. The elapsed time the failure reports is the run's time
  rounded to the millisecond: at least the timeout, and within the same bound and half a
  millisecond.
\<close>

theorem polling_until_timeout:
  "(\<forall>cookies. clock v - start_wait < real_of_int timeout \<and>
      cookie_jar b (awaits v + 1) = Inr cookies \<and> extract_clearance_cookie cookies = None \<longrightarrow>
      await_cookie b timeout start_wait seen v
        = await_cookie b timeout start_wait cookies (suspend b 0 (suspend b 1 v))) \<and>
   (\<forall>cookies c. clock v - start_wait < real_of_int timeout \<and>
      cookie_jar b (awaits v + 1) = Inr cookies \<and> extract_clearance_cookie cookies = Some c \<longrightarrow>
      await_cookie b timeout start_wait seen v
        = (Inr (cookies, Some c), suspend b 0 (suspend b 1 v))) \<and>
   (\<not> clock v - start_wait < real_of_int timeout \<longrightarrow>
      await_cookie b timeout start_wait seen v = (Inr (seen, None), v)) \<and>
   clock (suspend b 0 (suspend b 1 v))
     = clock v + 1 + real (latency b (awaits v)) / 1000 + real (latency b (awaits v + 1)) / 1000 \<and>
   (\<forall>cookies' w'. await_cookie b timeout start_wait seen v = (Inr (cookies', None), w') \<longrightarrow>
      real_of_int timeout \<le> clock w' - start_wait \<and>
      (w' = v \<or> (\<exists>k. clock w' - start_wait
         < real_of_int timeout + 1 + real (latency b k) / 1000 + real (latency b (k + 1)) / 1000))) \<and>
   (never_cleared b \<longrightarrow>
      (\<exists>cookies cookies' w3.
         cookie_jar b (awaits w + 1) = Inr cookies \<and>
         await_cookie b timeout (clock (suspend b 0 (suspend b 0 w))) cookies
           (suspend b 0 (suspend b 0 w)) = (Inr (cookies', None), w3) \<and>
         solve_cloudflare b url timeout w
           = (error_result ''Failed to retrieve cf_clearance cookie''
                (py_round (clock (suspend b 0 (snd (interact b cookies' w3))) - clock w) 3),
              suspend b 0 (snd (interact b cookies' w3))) \<and>
         clock (suspend b 0 (suspend b 0 w)) - clock w
           = real (latency b (awaits w)) / 1000 + real (latency b (awaits w + 1)) / 1000 \<and>
         real_of_int timeout \<le> clock w3 - clock (suspend b 0 (suspend b 0 w)) \<and>
         (w3 = suspend b 0 (suspend b 0 w) \<or>
          (\<exists>k. clock w3 - clock (suspend b 0 (suspend b 0 w))
             < real_of_int timeout + 1 + real (latency b k) / 1000
               + real (latency b (k + 1)) / 1000)) \<and>
         clock w3 \<le> clock (snd (interact b cookies' w3)) \<and>
         clock (suspend b 0 (snd (interact b cookies' w3))) - clock (snd (interact b cookies' w3))
           = real (latency b (awaits (snd (interact b cookies' w3)))) / 1000 \<and>
         real_of_int timeout
           \<le> py_round (clock (suspend b 0 (snd (interact b cookies' w3))) - clock w) 3)) \<and>
   (never_cleared b \<and> (\<forall>k. latency b k \<le> L) \<longrightarrow>
      (\<exists>cookies cookies' w3.
         cookie_jar b (awaits w + 1) = Inr cookies \<and>
         await_cookie b timeout (clock (suspend b 0 (suspend b 0 w))) cookies
           (suspend b 0 (suspend b 0 w)) = (Inr (cookies', None), w3) \<and>
         snd (solve_cloudflare b url timeout w) = suspend b 0 (snd (interact b cookies' w3)) \<and>
         clock (suspend b 0 (snd (interact b cookies' w3))) - clock w
           < max 0 (real_of_int timeout) + 1 + 5 * real L / 1000
             + (clock (snd (interact b cookies' w3)) - clock w3))) \<and>
   ((\<forall>k. latency b k \<le> L) \<and>
    (\<forall>k selector els. elements b k selector = Inr els \<longrightarrow> length els \<le> n) \<longrightarrow>
      clock (snd (interact b seen v)) - clock v
        \<le> 4 * real n + (3 + 4 * real n) * real L / 1000) \<and>
   (never_cleared b \<and> (\<forall>k. latency b k \<le> L) \<and>
    (\<forall>k selector els. elements b k selector = Inr els \<longrightarrow> length els \<le> n) \<longrightarrow>
      fst (solve_cloudflare b url timeout w)
        = error_result ''Failed to retrieve cf_clearance cookie''
            (py_round (clock (snd (solve_cloudflare b url timeout w)) - clock w) 3) \<and>
      real_of_int timeout \<le> clock (snd (solve_cloudflare b url timeout w)) - clock w \<and>
      clock (snd (solve_cloudflare b url timeout w)) - clock w
        < max 0 (real_of_int timeout) + 1 + 4 * real n + (8 + 4 * real n) * real L / 1000 \<and>
      real_of_int timeout
        \<le> py_round (clock (snd (solve_cloudflare b url timeout w)) - clock w) 3 \<and>
      py_round (clock (snd (solve_cloudflare b url timeout w)) - clock w) 3
        < max 0 (real_of_int timeout) + 1 + 4 * real n + (8 + 4 * real n) * real L / 1000
          + 1 / 2000)"
  apply (intro conjI allI impI)
  subgoal by (elim conjE) (rule await_cookie_again)
  subgoal by (elim conjE) (rule await_cookie_appears)
  subgoal by (rule await_cookie_expired)
  subgoal by (simp add: suspend_def)
  subgoal by (rule await_cookie_timeout)
  subgoal by (rule await_cookie_overshoot)
  subgoal by (rule never_cleared_phases)
  subgoal by (elim conjE) (rule never_cleared_within)
  subgoal using interact_duration [of b L n seen v] by simp
  subgoal by (elim conjE) (rule never_cleared_bounded)
  subgoal by (elim conjE) (rule never_cleared_bounded)
  subgoal by (elim conjE) (rule never_cleared_bounded)
  subgoal by (elim conjE) (rule never_cleared_bounded)
  subgoal by (elim conjE) (rule never_cleared_bounded)
  done

text \<open>
  The theorem at the slow page with a timeout of 3 seconds (a further round at second 0 of
  the wait, no round at second 3, failure after 13 seconds, which is not before 3 and
  within the bound for a latency of 10 seconds), at the cleared page (the loop leaves
  with the cookie after one round) and at a page without latency and a timeout of 2
  seconds (failure after 2 seconds, less than 3).
\<close>

theorem polling_until_timeout_witness:
  "never_cleared slow_page \<and>
   solve_cloudflare slow_page ''https://example.com'' 3 \<lparr>clock = 0, awaits = 0\<rparr>
     = (error_result ''Failed to retrieve cf_clearance cookie'' 13, \<lparr>clock = 13, awaits = 12\<rparr>) \<and>
   (3::real) \<le> 13 - 0 \<and>
   (13::real) - 0 < max 0 3 + 1 + 4 * 0 + (8 + 4 * 0) * 10000 / 1000 \<and>
   await_cookie slow_page 3 10 [] \<lparr>clock = 10, awaits = 2\<rparr>
     = await_cookie slow_page 3 10 [] \<lparr>clock = 11, awaits = 4\<rparr> \<and>
   await_cookie cleared_page 3 0 [] \<lparr>clock = 0, awaits = 0\<rparr>
     = (Inr ([clearance], Some clearance), \<lparr>clock = 1, awaits = 2\<rparr>) \<and>
   await_cookie slow_page 3 10 [] \<lparr>clock = 13, awaits = 8\<rparr>
     = (Inr ([], None), \<lparr>clock = 13, awaits = 8\<rparr>) \<and>
   await_cookie slow_page 3 10 [] \<lparr>clock = 10, awaits = 2\<rparr>
     = (Inr ([], None), \<lparr>clock = 13, awaits = 8\<rparr>) \<and>
   (3::real) \<le> 13 - 10 \<and>
   never_cleared broken_sweep \<and>
   solve_cloudflare broken_sweep ''https://example.com'' 2 \<lparr>clock = 0, awaits = 0\<rparr>
     = (error_result ''Failed to retrieve cf_clearance cookie'' 2, \<lparr>clock = 2, awaits = 8\<rparr>) \<and>
   (2::real) \<le> 2 - 0 \<and> (2::real) - 0 < max 0 2 + 1 + 4 * 0 + (8 + 4 * 0) * 0 / 1000"
proof -
  have a: "await_cookie slow_page 3 10 [] \<lparr>clock = 10, awaits = 2\<rparr>
     = await_cookie slow_page 3 10 [] \<lparr>clock = 11, awaits = 4\<rparr>"
    using polling_until_timeout [where v = "\<lparr>clock = 10, awaits = 2\<rparr>" and start_wait = 10
        and timeout = 3 and b = slow_page and seen = "[]"]
    by (simp add: slow_page_simps suspend_def)
  have b: "await_cookie cleared_page 3 0 [] \<lparr>clock = 0, awaits = 0\<rparr>
     = (Inr ([clearance], Some clearance), \<lparr>clock = 1, awaits = 2\<rparr>)"
    using polling_until_timeout [where v = "\<lparr>clock = 0, awaits = 0\<rparr>" and start_wait = 0
        and timeout = 3 and b = cleared_page and seen = "[]"]
    by (simp add: cleared_page_simps suspend_def clearance_def)
  have c: "await_cookie slow_page 3 10 [] \<lparr>clock = 13, awaits = 8\<rparr>
     = (Inr ([], None), \<lparr>clock = 13, awaits = 8\<rparr>)"
    using polling_until_timeout [where v = "\<lparr>clock = 13, awaits = 8\<rparr>" and start_wait = 10
        and timeout = 3 and b = slow_page and seen = "[]"]
    by simp
  have d: "(3::real) \<le> 13 - 10"
    using polling_until_timeout [where v = "\<lparr>clock = 10, awaits = 2\<rparr>" and start_wait = 10
        and timeout = 3 and b = slow_page and seen = "[]"] slow_page_wait
    by simp
  have lat: "\<forall>k. latency slow_page k \<le> 10000"
    by (simp add: slow_page_simps)
  have few: "\<forall>k selector els. elements slow_page k selector = Inr els \<longrightarrow> length els \<le> 0"
    by (simp add: slow_page_simps)
  have e: "(3::real) \<le> 13 - 0 \<and> (13::real) - 0 < max 0 3 + 1 + 4 * 0 + (8 + 4 * 0) * 10000 / 1000"
    using polling_until_timeout [where b = slow_page and url = "''https://example.com''"
        and timeout = 3 and w = "\<lparr>clock = 0, awaits = 0\<rparr>" and L = 10000 and n = 0]
      never_cleared_slow_page lat few slow_page_run
    by simp
  have lat': "\<forall>k. latency broken_sweep k \<le> 0"
    by (simp add: broken_sweep_simps)
  have few': "\<forall>k selector els. elements broken_sweep k selector = Inr els \<longrightarrow> length els \<le> 0"
    by (simp add: broken_sweep_simps)
  have f: "(2::real) \<le> 2 - 0 \<and> (2::real) - 0 < max 0 2 + 1 + 4 * 0 + (8 + 4 * 0) * 0 / 1000"
    using polling_until_timeout [where b = broken_sweep and url = "''https://example.com''"
        and timeout = 2 and w = "\<lparr>clock = 0, awaits = 0\<rparr>" and L = 0 and n = 0]
      never_cleared_broken_sweep lat' few' broken_sweep_run
    by simp
  from a b c d e f never_cleared_slow_page never_cleared_broken_sweep slow_page_wait slow_page_run
    broken_sweep_run
  show ?thesis by simp
qed

text \<open>
  Claim C7 as stated fails: the timeout is not measured from the resolver's start. With
  a timeout of 3 seconds and a navigation of 10, the polling begins at second 10, goes on
  (a second round begins at second 11) and ends at second 13; the sweep finds nothing to
  click and takes no time; the failure is reported after 13 seconds, more than the timeout
  plus the sweep.
\<close>

theorem timeout_from_start_counterexample:
  "snd (get_cookies slow_page (snd (driver_get slow_page ''https://example.com'' \<lparr>clock = 0, awaits = 0\<rparr>)))
     = \<lparr>clock = 10, awaits = 2\<rparr> \<and>
   await_cookie slow_page 3 10 [] \<lparr>clock = 10, awaits = 2\<rparr>
     = await_cookie slow_page 3 10 [] \<lparr>clock = 11, awaits = 4\<rparr> \<and>
   await_cookie slow_page 3 10 [] \<lparr>clock = 10, awaits = 2\<rparr>
     = (Inr ([], None), \<lparr>clock = 13, awaits = 8\<rparr>) \<and>
   interact slow_page [] \<lparr>clock = 13, awaits = 8\<rparr> = (([], None), \<lparr>clock = 13, awaits = 11\<rparr>) \<and>
   solve_cloudflare slow_page ''https://example.com'' 3 \<lparr>clock = 0, awaits = 0\<rparr>
     = (error_result ''Failed to retrieve cf_clearance cookie'' 13, \<lparr>clock = 13, awaits = 12\<rparr>) \<and>
   \<not> ((13::real) - 0 \<le> 3 + (13 - 13))"
  by (simp add: slow_page_wait slow_page_sweep slow_page_run)
    (simp add: await_cookie.simps [of slow_page 3 10] slow_page_simps capability_defs)

section \<open>Reading a result\<close>

text \<open>
  Claim C8, as amended. \<^verbatim>\<open>/solve\<close> does not write the registry: it creates the task, and
  the task registers itself in its first block (given a user agent, or a Chrome entry in
  the list of latest user agents). The event loop runs that block before it handles any
  request that arrived after the task was created. So when the handler of a \<^verbatim>\<open>/result\<close>
  request that arrived for an issued id runs, the task's first block has run; and unless
  the task's default user agent could not be chosen, or a step has removed the entry (the
  sweeper does, 24 hours after its time stamp), the answer is 202 or 200 with a success
  or an error entry. In every state \<^verbatim>\<open>/result\<close> answers by the registry alone: 400
  without an id (absent or empty), 404 when the id has no entry, as is the case for an id
  never issued, 202 when its entry is processing, 200 with the entry otherwise.
\<close>

theorem result_follows_registry:
  assumes "loop_reachable max_tasks L"
  shows "task_results (snd (solve req uuid4 (srv L))) = task_results (srv L) \<and>
    get_result None (srv L) = (Error_body Id_required, 400) \<and>
    get_result (Some []) (srv L) = (Error_body Id_required, 400) \<and>
    (i \<noteq> [] \<and> fmlookup (task_results (srv L)) i = None \<longrightarrow>
       get_result (Some i) (srv L) = (Error_body Unknown_task, 404)) \<and>
    (\<forall>r. i \<noteq> [] \<and> fmlookup (task_results (srv L)) i = Some r \<and>
       status r = Some ''processing'' \<longrightarrow>
       get_result (Some i) (srv L) = (Still_processing, 202)) \<and>
    (\<forall>r. i \<noteq> [] \<and> fmlookup (task_results (srv L)) i = Some r \<and>
       status r \<noteq> Some ''processing'' \<longrightarrow>
       get_result (Some i) (srv L) = (Result_body r, 200) \<and> (success_entry r \<or> error_entry r)) \<and>
    (i \<noteq> [] \<and> fmlookup (tasks (srv L)) i = None \<longrightarrow>
       get_result (Some i) (srv L) = (Error_body Unknown_task, 404)) \<and>
    (\<forall>rest. ready L = Result_request (Some i) True # rest \<longrightarrow>
       (\<exists>t. fmlookup (tasks (srv L)) i = Some t \<and> task_stage t \<noteq> Scheduled)) \<and>
    (\<forall>rest t. ready L = Result_request (Some i) True # rest \<and> i \<noteq> [] \<and>
       fmlookup (tasks (srv L)) i = Some t \<and> task_stage t \<noteq> Crashed \<and> i |\<notin>| evicted L \<longrightarrow>
       get_result (Some i) (srv L) = (Still_processing, 202) \<or>
       (\<exists>r. get_result (Some i) (srv L) = (Result_body r, 200) \<and>
          (success_entry r \<or> error_entry r))) \<and>
    (\<forall>t. fmlookup (tasks (srv L)) i = Some t \<and> task_stage t = Scheduled \<and>
       (truthy (task_user_agent t) \<or> (\<exists>ua \<in> set latest. sublist ''Chrome'' ua)) \<longrightarrow>
       fmlookup (task_results (task_begin now latest pick ctor i t (srv L))) i \<noteq> None \<and>
       (\<exists>t'. fmlookup (tasks (task_begin now latest pick ctor i t (srv L))) i = Some t' \<and>
          task_stage t' \<noteq> Scheduled \<and> task_stage t' \<noteq> Crashed))"
proof -
  from assms have re: "reachable max_tasks (srv L)" by (rule loop_reachable_srv)
  have unknown: "get_result (Some i) (srv L) = (Error_body Unknown_task, 404)"
    if "i \<noteq> []" and "fmlookup (tasks (srv L)) i = None"
  proof -
    from re that(2) have "fmlookup (task_results (srv L)) i = None"
      using reachable_registered_issued by blast
    with that(1) show ?thesis by (simp add: get_result_def)
  qed
  have answered: "get_result (Some i) (srv L) = (Still_processing, 202) \<or>
       (\<exists>r. get_result (Some i) (srv L) = (Result_body r, 200) \<and>
          (success_entry r \<or> error_entry r))"
    if "ready L = Result_request (Some i) True # rest" and "i \<noteq> []"
      and "fmlookup (tasks (srv L)) i = Some t" and "task_stage t \<noteq> Crashed"
      and "i |\<notin>| evicted L" for rest t
  proof -
    from asked_is_registered [OF assms that(1,3,4,5)]
    obtain r where r: "fmlookup (task_results (srv L)) i = Some r" by blast
    show ?thesis
    proof (cases "status r = Some ''processing''")
      case True
      with r that(2) show ?thesis by (simp add: get_result_def)
    next
      case False
      with terminal_shaped [OF re r] r that(2) show ?thesis by (simp add: get_result_def)
    qed
  qed
  show ?thesis
    apply (intro conjI allI impI)
    subgoal by simp
    subgoal by (simp add: get_result_def)
    subgoal by (simp add: get_result_def)
    subgoal by (simp add: get_result_def)
    subgoal by (simp add: get_result_def)
    subgoal by (simp add: get_result_def)
    subgoal using terminal_shaped [OF re] by blast
    subgoal using unknown by blast
    subgoal using asked_after_first_block [OF assms] by blast
    subgoal using answered by blast
    subgoal using get_chrome_user_agent_total [of latest pick] by (auto simp: task_begin_results)
    subgoal using get_chrome_user_agent_total [of latest pick] by (auto simp: task_begin_tasks)
    done
qed

text \<open>
  The theorem at the request that arrived after the task's first block (202), at the one
  that arrived after the task's end (200 with its success entry), at an id never issued
  (404) and at a request without id (400).
\<close>

theorem result_follows_registry_witness:
  "loop_reachable 1 asked_early \<and>
   ready asked_early = [Result_request (Some ''t1'') True] \<and>
   fmlookup (tasks (srv asked_early)) ''t1'' = Some (example_task\<lparr>task_stage := Starting\<rparr>) \<and>
   get_result (Some ''t1'') (srv asked_early) = (Still_processing, 202) \<and>
   loop_reachable 1 asked_later \<and>
   ready asked_later = [Result_request (Some ''t1'') True] \<and>
   get_result (Some ''t1'') (srv asked_later)
     = (Result_body (cleared_result\<lparr>timestamp := Some 5\<rparr>), 200) \<and>
   success_entry (cleared_result\<lparr>timestamp := Some 5\<rparr>) \<and>
   fmlookup (tasks (srv asked_early)) ''t9'' = None \<and>
   get_result (Some ''t9'') (srv asked_early) = (Error_body Unknown_task, 404) \<and>
   get_result None (srv asked_early) = (Error_body Id_required, 400)"
proof -
  note early = result_follows_registry [OF reachable_asked_early]
  note later = result_follows_registry [OF reachable_asked_later]
  have q: "ready asked_early = [Result_request (Some ''t1'') True]"
      "ready asked_later = [Result_request (Some ''t1'') True]"
    by (simp_all add: asked_early_def asked_later_def)
  have t: "fmlookup (tasks (srv asked_early)) ''t1'' = Some (example_task\<lparr>task_stage := Starting\<rparr>)"
      "fmlookup (tasks (srv asked_early)) ''t9'' = None"
      "fmlookup (tasks (srv asked_later)) ''t1'' = Some (example_task\<lparr>task_stage := Finished\<rparr>)"
    by (simp_all add: asked_early_def asked_later_def once_running_lookups once_finished_lookups)
  have ev: "''t1'' |\<notin>| evicted asked_early" "''t1'' |\<notin>| evicted asked_later"
    by (simp_all add: asked_early_def asked_later_def)
  have a: "get_result (Some ''t1'') (srv asked_early) = (Still_processing, 202)"
    using early [where i = "''t1''"] q(1) t(1) ev(1)
    by (auto simp: asked_early_def once_running_lookups get_result_def)
  have b: "get_result (Some ''t1'') (srv asked_later)
      = (Result_body (cleared_result\<lparr>timestamp := Some 5\<rparr>), 200) \<and>
      success_entry (cleared_result\<lparr>timestamp := Some 5\<rparr>)"
    using later [where i = "''t1''"] q(2) t(3) ev(2)
    by (simp add: asked_later_def once_finished_lookups cleared_result_eq success_result_def
        success_entry_def)
  have c: "get_result (Some ''t9'') (srv asked_early) = (Error_body Unknown_task, 404)"
    using early [where i = "''t9''"] t(2) by simp
  have d: "get_result None (srv asked_early) = (Error_body Id_required, 400)"
    using early by simp
  from a b c d q t reachable_asked_early reachable_asked_later show ?thesis by simp
qed

text \<open>
  Claim C8 as stated fails. The handler of \<^verbatim>\<open>/solve\<close> returns the id \<open>t1\<close> with 202 and
  registers nothing; the entry is written by the task's first block. And an issued id
  gets 404 once the sweeper has removed its entry: the task \<open>t1\<close> has finished and
  \<^verbatim>\<open>/result\<close> answers 200; a cycle of the sweeper at time 100000 removes the entry,
  stamped 5; a \<^verbatim>\<open>/result\<close> request that arrives afterwards for this id is answered 404.
\<close>

theorem issued_id_not_found_counterexample:
  "fst (solve example_request ''t1'' (startup 1)) = (Task_created ''t1'' 60, 202) \<and>
   fmlookup (task_results (snd (solve example_request ''t1'' (startup 1)))) ''t1'' = None \<and>
   loop_reachable 1 asked_later \<and>
   get_result (Some ''t1'') (srv asked_later)
     = (Result_body (cleared_result\<lparr>timestamp := Some 5\<rparr>), 200) \<and>
   step (srv asked_later) (snd (cleanup_tasks 100000 (srv asked_later))) \<and>
   loop_reachable 1 asked_too_late \<and>
   srv asked_too_late = snd (cleanup_tasks 100000 (srv asked_later)) \<and>
   ready asked_too_late = [Result_request (Some ''t1'') True] \<and>
   fmlookup (tasks (srv asked_too_late)) ''t1'' = Some (example_task\<lparr>task_stage := Finished\<rparr>) \<and>
   get_result (Some ''t1'') (srv asked_too_late) = (Error_body Unknown_task, 404)"
proof -
  have a: "fst (solve example_request ''t1'' (startup 1)) = (Task_created ''t1'' 60, 202) \<and>
      fmlookup (task_results (snd (solve example_request ''t1'' (startup 1)))) ''t1'' = None"
    by (simp add: solve_def Let_def example_request_def startup_def fcard_fempty)
  have b: "srv asked_later = once_finished" "srv asked_too_late = once_swept"
      "ready asked_too_late = [Result_request (Some ''t1'') True]"
    by (simp_all add: asked_later_def asked_too_late_def)
  have c: "get_result (Some ''t1'') once_finished
      = (Result_body (cleared_result\<lparr>timestamp := Some 5\<rparr>), 200)"
    by (simp add: get_result_def once_finished_lookups cleared_result_eq success_result_def)
  have d: "get_result (Some ''t1'') once_swept = (Error_body Unknown_task, 404)"
    by (simp add: get_result_def once_swept_lookups)
  have e: "step once_finished (snd (cleanup_tasks 100000 once_finished))"
    by (rule step.swept)
  from a b c d e reachable_asked_later reachable_asked_too_late show ?thesis
    by (simp add: once_swept_def [symmetric] once_swept_lookups)
qed

section \<open>The supervisor's bookkeeping\<close>

text \<open>
  Claim C9. In every reachable state a task holds its entry of \<^verbatim>\<open>active_solvers\<close> exactly
  while it stands between the start of the browser and the end of its stop. The blocks of
  the supervisor do the bookkeeping. When the resolver returns, its result is stored with
  the time stamp, and the slot is kept while the browser stops. When the resolver raises,
  nothing is stored yet. When the browser has stopped, the slot is released, and the
  entry is the stored result, or the error entry of the exception in flight, or, if the
  stop itself raised, the error entry of that exception. When the browser fails to start,
  or the solver's constructor raises, the error entry is stored and no slot is left. An
  error entry has the exception's text as reason and the rounded time since the task's
  start. Every step either leaves a task and its slot alone or is the next block of that
  task; a slot is taken only by the first block and released only by the block that
  finishes the task, and a finished task is never changed by a later step: the release
  happens once.
\<close>

theorem supervisor_records_and_releases:
  assumes "reachable max_tasks s" and "fmlookup (tasks s) task_id = Some t"
  shows "(fmlookup (active_solvers s) task_id \<noteq> None \<longleftrightarrow> in_flight (task_stage t)) \<and>
         (task_stage t = Solving \<longrightarrow>
            fmlookup (task_results (task_solved now (Inr result) task_id t s)) task_id
              = Some (result\<lparr>timestamp := Some now\<rparr>) \<and>
            fmlookup (tasks (task_solved now (Inr result) task_id t s)) task_id
              = Some (t\<lparr>task_stage := Stopping\<rparr>) \<and>
            fmlookup (active_solvers (task_solved now (Inr result) task_id t s)) task_id \<noteq> None) \<and>
         (task_stage t = Solving \<longrightarrow>
            fmlookup (task_results (task_solved now (Inl e) task_id t s)) task_id
              = fmlookup (task_results s) task_id \<and>
            fmlookup (tasks (task_solved now (Inl e) task_id t s)) task_id
              = Some (t\<lparr>task_stage := Stopping, task_pending := Some e\<rparr>) \<and>
            fmlookup (active_solvers (task_solved now (Inl e) task_id t s)) task_id \<noteq> None) \<and>
         (task_stage t = Stopping \<longrightarrow>
            fmlookup (active_solvers (task_stopped now outcome task_id t s)) task_id = None \<and>
            fmlookup (tasks (task_stopped now outcome task_id t s)) task_id
              = Some (t\<lparr>task_stage := Finished\<rparr>) \<and>
            fmlookup (task_results (task_stopped now outcome task_id t s)) task_id
              = (case outcome of
                   Some e' \<Rightarrow> Some \<lparr>status = Some ''error'', timestamp = Some now,
                    elapsed_time = Some (py_round (now - task_start_time t) 3), reason = Some (str e'),
                    cf_clearance = None, user_agent = None, all_cookies = None\<rparr>
                 | None \<Rightarrow>
                     (case task_pending t of
                        Some e'' \<Rightarrow> Some \<lparr>status = Some ''error'', timestamp = Some now,
                    elapsed_time = Some (py_round (now - task_start_time t) 3), reason = Some (str e''),
                    cf_clearance = None, user_agent = None, all_cookies = None\<rparr>
                      | None \<Rightarrow> fmlookup (task_results s) task_id))) \<and>
         (task_stage t = Starting \<longrightarrow>
            fmlookup (task_results (task_started now (Some e) task_id t s)) task_id
              = Some \<lparr>status = Some ''error'', timestamp = Some now,
                    elapsed_time = Some (py_round (now - task_start_time t) 3), reason = Some (str e),
                    cf_clearance = None, user_agent = None, all_cookies = None\<rparr> \<and>
            fmlookup (tasks (task_started now (Some e) task_id t s)) task_id
              = Some (t\<lparr>task_stage := Finished\<rparr>) \<and>
            fmlookup (active_solvers (task_started now (Some e) task_id t s)) task_id = None) \<and>
         (task_stage t = Starting \<longrightarrow>
            fmlookup (task_results (task_started now None task_id t s)) task_id
              = fmlookup (task_results s) task_id \<and>
            fmlookup (tasks (task_started now None task_id t s)) task_id
              = Some (t\<lparr>task_stage := Solving\<rparr>) \<and>
            fmlookup (active_solvers (task_started now None task_id t s)) task_id \<noteq> None) \<and>
         (task_stage t = Scheduled \<and> truthy (task_user_agent t) \<longrightarrow>
            fmlookup (task_results (task_begin now latest pick (Inl e) task_id t s)) task_id
              = Some \<lparr>status = Some ''error'', timestamp = Some now,
                    elapsed_time = Some (py_round (now - now) 3), reason = Some (str e),
                    cf_clearance = None, user_agent = None, all_cookies = None\<rparr> \<and>
            fmlookup (tasks (task_begin now latest pick (Inl e) task_id t s)) task_id
              = Some (t\<lparr>task_start_time := now, task_stage := Finished\<rparr>) \<and>
            fmlookup (active_solvers (task_begin now latest pick (Inl e) task_id t s)) task_id = None) \<and>
         (task_stage t = Scheduled \<and> truthy (task_user_agent t) \<longrightarrow>
            fmlookup (task_results (task_begin now latest pick (Inr enriched) task_id t s)) task_id
              = Some \<lparr>status = Some ''processing'', timestamp = Some now, elapsed_time = None,
                    reason = None, cf_clearance = None, user_agent = None, all_cookies = None\<rparr> \<and>
            fmlookup (tasks (task_begin now latest pick (Inr enriched) task_id t s)) task_id
              = Some (t\<lparr>task_start_time := now, task_stage := Starting\<rparr>) \<and>
            fmlookup (active_solvers (task_begin now latest pick (Inr enriched) task_id t s)) task_id
              \<noteq> None) \<and>
         (\<forall>s'. step s s' \<longrightarrow>
            (fmlookup (tasks s') task_id = Some t \<and>
             fmlookup (active_solvers s') task_id = fmlookup (active_solvers s) task_id) \<or>
            (task_stage t = Scheduled \<and>
             (\<exists>now latest pick ctor. s' = task_begin now latest pick ctor task_id t s)) \<or>
            (task_stage t = Starting \<and>
             (\<exists>now outcome. s' = task_started now outcome task_id t s)) \<or>
            (task_stage t = Solving \<and>
             (\<exists>now b w. s' = task_solved now
                (Inr (fst (solve_cloudflare b (task_url t) (task_timeout t) w))) task_id t s)) \<or>
            (task_stage t = Solving \<and> (\<exists>now e. s' = task_solved now (Inl e) task_id t s)) \<or>
            (task_stage t = Stopping \<and>
             (\<exists>now outcome. s' = task_stopped now outcome task_id t s))) \<and>
         (\<forall>s' t'. step s s' \<and> fmlookup (tasks s') task_id = Some t' \<longrightarrow>
            (fmlookup (active_solvers s) task_id = None \<and>
             fmlookup (active_solvers s') task_id \<noteq> None \<longrightarrow>
               task_stage t = Scheduled \<and> task_stage t' = Starting) \<and>
            (fmlookup (active_solvers s) task_id \<noteq> None \<and>
             fmlookup (active_solvers s') task_id = None \<longrightarrow>
               in_flight (task_stage t) \<and> task_stage t' = Finished)) \<and>
         (task_stage t = Finished \<longrightarrow>
            (\<forall>s'. step s s' \<longrightarrow>
               fmlookup (tasks s') task_id = Some t \<and>
               fmlookup (active_solvers s') task_id = None))"
proof -
  from assms(1) have inv: "slots_agree s" by (rule reachable_slots_agree)
  have slot: "fmlookup (active_solvers s) task_id \<noteq> None \<longleftrightarrow> in_flight (task_stage t)"
    using inv assms(2) by (rule slots_agreeD)
  show ?thesis
    apply (intro conjI allI impI)
    subgoal by (rule slot)
    subgoal by (simp add: task_solved_results)
    subgoal by (simp add: task_solved_tasks)
    subgoal using slot by (simp add: in_flight_def)
    subgoal by (simp add: task_solved_results)
    subgoal by (simp add: task_solved_tasks)
    subgoal using slot by (simp add: in_flight_def)
    subgoal by (simp add: task_stopped_active)
    subgoal by (simp add: task_stopped_tasks)
    subgoal by (simp add: task_stopped_results task_error_def error_result_def split: option.splits)
    subgoal by (simp add: task_started_results task_error_def error_result_def)
    subgoal by (simp add: task_started_tasks)
    subgoal by (simp add: task_started_active)
    subgoal by (simp add: task_started_results)
    subgoal by (simp add: task_started_tasks)
    subgoal using slot by (simp add: task_started_active in_flight_def)
    subgoal by (simp add: task_begin_results task_error_def error_result_def)
    subgoal by (simp add: task_begin_tasks)
    subgoal by (simp add: task_begin_active)
    subgoal by (simp add: task_begin_results)
    subgoal by (simp add: task_begin_tasks)
    subgoal by (simp add: task_begin_active)
    subgoal using assms(2) by (rule step_of_task [rotated])
    subgoal using slot_changes [OF _ inv assms(2)] by blast
    subgoal using slot_changes [OF _ inv assms(2)] by blast
    subgoal using slot_changes [OF _ inv assms(2)] by blast
    subgoal using slot_changes [OF _ inv assms(2)] by blast
    subgoal using finished_final [OF _ assms(2) _ inv] by blast
    subgoal using finished_final [OF _ assms(2) _ inv] by blast
    done
qed

text \<open>
  The theorem along the run of the first task: the resolver's result is stored at time 5
  and the slot kept; the browser stops at time 6, the slot is released and the result
  stays; or the stop raises and the error entry with its message is stored; or the
  resolver raises, and the error entry with that message is stored when the browser has
  stopped.
\<close>

theorem supervisor_records_and_releases_witness:
  "reachable 1 first_solving \<and>
   fmlookup (tasks first_solving) ''t1'' = Some (example_task\<lparr>task_stage := Solving\<rparr>) \<and>
   fmlookup (active_solvers first_solving) ''t1'' \<noteq> None \<and>
   fmlookup (task_results first_stopping) ''t1'' = Some (cleared_result\<lparr>timestamp := Some 5\<rparr>) \<and>
   fmlookup (active_solvers first_stopping) ''t1'' \<noteq> None \<and>
   reachable 1 first_stopping \<and>
   fmlookup (tasks first_stopping) ''t1'' = Some (example_task\<lparr>task_stage := Stopping\<rparr>) \<and>
   fmlookup (task_results first_finished) ''t1'' = Some (cleared_result\<lparr>timestamp := Some 5\<rparr>) \<and>
   fmlookup (tasks first_finished) ''t1'' = Some (example_task\<lparr>task_stage := Finished\<rparr>) \<and>
   fmlookup (active_solvers first_finished) ''t1'' = None \<and>
   fmlookup (task_results first_stop_failed) ''t1''
     = Some \<lparr>status = Some ''error'', timestamp = Some 6, elapsed_time = Some 6,
          reason = Some ''browser did not stop'', cf_clearance = None, user_agent = None,
          all_cookies = None\<rparr> \<and>
   fmlookup (active_solvers first_stop_failed) ''t1'' = None \<and>
   reachable 1 first_raised \<and>
   fmlookup (task_results first_raised) ''t1'' = fmlookup (task_results first_solving) ''t1'' \<and>
   fmlookup (active_solvers first_raised) ''t1'' \<noteq> None \<and>
   fmlookup (task_results first_raised_finished) ''t1''
     = Some \<lparr>status = Some ''error'', timestamp = Some 6, elapsed_time = Some 6,
          reason = Some ''resolver gave up'', cf_clearance = None, user_agent = None,
          all_cookies = None\<rparr> \<and>
   fmlookup (active_solvers first_raised_finished) ''t1'' = None"
proof -
  have solving: "task_stage (example_task\<lparr>task_stage := Solving\<rparr>) = Solving"
    and stopping: "task_stage (example_task\<lparr>task_stage := Stopping\<rparr>) = Stopping"
    and unwinding: "task_stage (example_task\<lparr>task_stage := Stopping,
        task_pending := Some (Exception ''resolver gave up'')\<rparr>) = Stopping"
    by simp_all
  note at_solving = supervisor_records_and_releases [OF reachable_first_solving
      first_solving_lookups(1), where now = 5 and result = cleared_result
      and e = "Exception ''resolver gave up''"]
  have a: "fmlookup (active_solvers first_solving) ''t1'' \<noteq> None \<and>
      fmlookup (task_results first_stopping) ''t1'' = Some (cleared_result\<lparr>timestamp := Some 5\<rparr>) \<and>
      fmlookup (active_solvers first_stopping) ''t1'' \<noteq> None \<and>
      fmlookup (task_results first_raised) ''t1'' = fmlookup (task_results first_solving) ''t1'' \<and>
      fmlookup (active_solvers first_raised) ''t1'' \<noteq> None"
    using at_solving solving
    by (simp add: first_stopping_eq first_raised_def in_flight_def)
  note at_stopping = supervisor_records_and_releases [OF reachable_first_stopping
      first_stopping_lookups(1), where now = 6]
  have b: "fmlookup (task_results first_finished) ''t1'' = Some (cleared_result\<lparr>timestamp := Some 5\<rparr>) \<and>
      fmlookup (tasks first_finished) ''t1'' = Some (example_task\<lparr>task_stage := Finished\<rparr>) \<and>
      fmlookup (active_solvers first_finished) ''t1'' = None"
    using at_stopping [where outcome = None] stopping
    by (simp add: first_finished_def first_stopping_lookups example_task_def)
  have c: "fmlookup (task_results first_stop_failed) ''t1''
     = Some \<lparr>status = Some ''error'', timestamp = Some 6, elapsed_time = Some 6,
          reason = Some ''browser did not stop'', cf_clearance = None, user_agent = None,
          all_cookies = None\<rparr> \<and>
      fmlookup (active_solvers first_stop_failed) ''t1'' = None"
    using at_stopping [where outcome = "Some (Exception ''browser did not stop'')"] stopping
    by (simp add: first_stop_failed_def example_task_def py_round_6)
  have d: "fmlookup (task_results first_raised_finished) ''t1''
     = Some \<lparr>status = Some ''error'', timestamp = Some 6, elapsed_time = Some 6,
          reason = Some ''resolver gave up'', cf_clearance = None, user_agent = None,
          all_cookies = None\<rparr> \<and>
      fmlookup (active_solvers first_raised_finished) ''t1'' = None"
    using supervisor_records_and_releases [OF reachable_first_raised first_raised_lookups(1),
        where now = 6 and outcome = None] unwinding
    by (simp add: first_raised_finished_def example_task_def py_round_6)
  from a b c d show ?thesis
    by (simp add: reachable_first_solving reachable_first_stopping reachable_first_raised
        first_solving_lookups first_stopping_lookups)
qed

section \<open>The user agent of a task\<close>

text \<open>
  Claim C10, on the code. \<^verbatim>\<open>get_chrome_user_agent()\<close> keeps the entries of the list of
  latest user agents that contain \<^verbatim>\<open>Chrome\<close> and calls \<^verbatim>\<open>random.choice\<close> on them; its
  docstring and its return type promise a Chrome user agent. When no entry contains
  \<^verbatim>\<open>Chrome\<close>, \<^verbatim>\<open>random.choice\<close> raises. The call stands before the \<^verbatim>\<open>try\<close> of
  \<^verbatim>\<open>solve_cloudflare_task\<close>, so the exception ends the task: for a request without user
  agent that was answered 202, no solver is built and no browser launched, nothing is
  registered, and \<^verbatim>\<open>/result\<close> answers 404. In front of a list with a Chrome entry the
  same task gets a solver whose user agent is that entry.
\<close>

theorem default_user_agent_missing:
  "fst (solve anonymous_request ''t1'' (startup 1)) = (Task_created ''t1'' 60, 202) \<and>
   fmlookup (tasks anonymous_submitted) ''t1'' = Some anonymous_task \<and>
   task_user_agent anonymous_task = None \<and>
   get_chrome_user_agent firefox_only 0 = Inl (Exception ''Cannot choose from an empty sequence'') \<and>
   reachable 1 anonymous_crashed \<and>
   fmlookup (tasks anonymous_crashed) ''t1'' = Some (anonymous_task\<lparr>task_stage := Crashed\<rparr>) \<and>
   fmlookup (active_solvers anonymous_crashed) ''t1'' = None \<and>
   fmlookup (task_results anonymous_crashed) ''t1'' = None \<and>
   get_result (Some ''t1'') anonymous_crashed = (Error_body Unknown_task, 404) \<and>
   get_chrome_user_agent latest_user_agents 7 = Inr ''Mozilla/5.0 Chrome/120.0'' \<and>
   fmlookup (active_solvers
       (task_begin 0 latest_user_agents 7 (Inr []) ''t1'' anonymous_task anonymous_submitted)) ''t1''
     = Some \<lparr>solver_arguments = [''--user-agent=Mozilla/5.0 Chrome/120.0''], solver_timeout = 60,
          solver_user_agent = Some ''Mozilla/5.0 Chrome/120.0'', solver_proxy = None\<rparr>"
proof -
  have a: "fst (solve anonymous_request ''t1'' (startup 1)) = (Task_created ''t1'' 60, 202)"
    by (simp add: anonymous_request_def solve_def Let_def example_request_def startup_def
        fcard_fempty)
  have b: "fmlookup (tasks anonymous_submitted) ''t1'' = Some anonymous_task"
      "task_user_agent anonymous_task = None"
    by (simp_all add: anonymous_submitted_eq anonymous_task_def)
  have c: "fmlookup (tasks anonymous_crashed) ''t1'' = Some (anonymous_task\<lparr>task_stage := Crashed\<rparr>)"
      "fmlookup (active_solvers anonymous_crashed) ''t1'' = None"
      "fmlookup (task_results anonymous_crashed) ''t1'' = None"
    by (simp_all add: anonymous_crashed_def task_begin_tasks task_begin_active task_begin_results
        firefox_only_choice anonymous_submitted_eq anonymous_task_def example_task_def startup_def)
  have d: "get_result (Some ''t1'') anonymous_crashed = (Error_body Unknown_task, 404)"
    by (simp add: get_result_def c)
  have e: "get_chrome_user_agent latest_user_agents 7 = Inr ''Mozilla/5.0 Chrome/120.0''"
    by (simp add: get_chrome_user_agent_def latest_user_agents_def sublist_code)
  have f: "fmlookup (active_solvers
       (task_begin 0 latest_user_agents 7 (Inr []) ''t1'' anonymous_task anonymous_submitted)) ''t1''
     = Some \<lparr>solver_arguments = [''--user-agent=Mozilla/5.0 Chrome/120.0''], solver_timeout = 60,
          solver_user_agent = Some ''Mozilla/5.0 Chrome/120.0'', solver_proxy = None\<rparr>"
    by (simp add: task_begin_active e anonymous_task_def example_task_def CloudflareSolver_def)
  from a b c d e f firefox_only_choice reachable_anonymous_crashed show ?thesis by simp
qed

end
